theory Spec2Isabelle
  imports Complex_Main
begin

section \<open>Project statistics engine of MultiSpec: data model\<close>

text \<open>
  The routines embedded here live in \<^verbatim>\<open>src/shared/SProjectComputeStatistics.cpp\<close>.
  A C \<^verbatim>\<open>double\<close> is modelled by the real number it holds, so \<^verbatim>\<open>==\<close> on doubles is
  equality of values. An array reached through a pointer is a list together with an index;
  a pointer that may be \<^verbatim>\<open>NULL\<close> is an \<open>option\<close>. Counters of C type \<^verbatim>\<open>UInt32\<close> are
  natural numbers: none of the loops below can bring one past \<open>2 ^ 32\<close> for a matrix that
  fits into memory, and the single decrement that wraps around (after the last row of a
  square matrix) produces a value that is never read.
\<close>

text \<open>
  Modelled from the spec: the statistics codes \<^verbatim>\<open>kMeanStdDevOnly\<close> and \<^verbatim>\<open>kMeanCovariance\<close>
  are declared in a header that is not part of the sources at hand. The spec names the two
  cases of \<^verbatim>\<open>statisticsCode\<close> (mean-only and mean+covariance); the guard
  \<^verbatim>\<open>outputStatisticsCode > gProjectInfoPtr->statisticsCode\<close> of
  \<^verbatim>\<open>GetClassCovarianceMatrix\<close> orders them.
\<close>

definition kMeanStdDevOnly :: int where
  "kMeanStdDevOnly = 1"

definition kMeanCovariance :: int where
  "kMeanCovariance = 2"

subsection \<open>Packed matrix layouts\<close>

text \<open>
  Position of the variance of feature \<open>i\<close> in the three layouts the conditioning passes
  walk: a variance vector (mean-only statistics), a square row-major matrix and a packed
  lower triangle; and the number of entries of each layout.
\<close>

definition variance_index :: "bool \<Rightarrow> int \<Rightarrow> nat \<Rightarrow> nat \<Rightarrow> nat" where
  "variance_index squareMatrixFlag statisticsCode n i =
     (if statisticsCode = kMeanStdDevOnly then i
      else if squareMatrixFlag then i * n + i
      else i * (i + 1) div 2 + i)"

definition matrix_entries :: "bool \<Rightarrow> int \<Rightarrow> nat \<Rightarrow> nat" where
  "matrix_entries squareMatrixFlag statisticsCode n =
     (if statisticsCode = kMeanStdDevOnly then n
      else if squareMatrixFlag then n * n
      else n * (n + 1) div 2)"

subsection \<open>ResetZeroVariances\<close>

text \<open>
  The loop state is the position of \<^verbatim>\<open>covariancePtr\<close> in the matrix, \<^verbatim>\<open>indexSkip\<close>, the
  matrix and \<^verbatim>\<open>varianceResetFlag\<close>. One iteration tests and replaces the entry under the
  pointer and then advances the pointer as the three branches of the source do.
\<close>

type_synonym rzv_state = "nat \<times> nat \<times> real list \<times> bool"

definition ResetZeroVariances_step :: "real \<Rightarrow> bool \<Rightarrow> int \<Rightarrow> rzv_state \<Rightarrow> rzv_state" where
  "ResetZeroVariances_step zeroVarianceFactor squareMatrixFlag outputStatisticsCode st =
     (case st of (ptr, indexSkip, cov, varianceResetFlag) \<Rightarrow>
        (if outputStatisticsCode = kMeanStdDevOnly then ptr + 1 else ptr + indexSkip,
         if outputStatisticsCode \<noteq> kMeanStdDevOnly \<and> \<not> squareMatrixFlag
           then indexSkip + 1 else indexSkip,
         if cov ! ptr = 0 then cov[ptr := zeroVarianceFactor] else cov,
         if cov ! ptr = 0 then True else varianceResetFlag))"

function ResetZeroVariances_loop ::
  "real \<Rightarrow> bool \<Rightarrow> int \<Rightarrow> nat \<Rightarrow> nat \<Rightarrow> rzv_state \<Rightarrow> rzv_state" where
  "ResetZeroVariances_loop zvf sq code numberFeatures feature st =
     (if feature < numberFeatures
      then ResetZeroVariances_loop zvf sq code numberFeatures (feature + 1)
             (ResetZeroVariances_step zvf sq code st)
      else st)"
  by pat_completeness auto
termination
  by (relation "measure (\<lambda>(zvf, sq, code, n, feature, st). n - feature)") auto

declare ResetZeroVariances_loop.simps [simp del]

text \<open>
  The first argument is \<^verbatim>\<open>gProjectInfoPtr->zeroVarianceFactor\<close>. The result is the returned
  flag and the matrix as the call leaves it.
\<close>

definition ResetZeroVariances ::
  "real \<Rightarrow> real list option \<Rightarrow> bool \<Rightarrow> int \<Rightarrow> nat \<Rightarrow> bool \<times> real list option" where
  "ResetZeroVariances zeroVarianceFactor covariancePtr squareMatrixFlag outputStatisticsCode
       numberFeatures =
     (case covariancePtr of
        None \<Rightarrow> (False, None)
      | Some cov \<Rightarrow>
          if numberFeatures = 0 then (False, Some cov)
          else (case ResetZeroVariances_loop zeroVarianceFactor squareMatrixFlag
                       outputStatisticsCode numberFeatures 0
                       (0, if squareMatrixFlag then numberFeatures + 1 else 2, cov, False) of
                  (ptr, indexSkip, cov', varianceResetFlag) \<Rightarrow> (varianceResetFlag, Some cov')))"

section \<open>Channel statistics accumulator\<close>

text \<open>
  One channel's first-order statistics. The structure is declared in a header outside the
  sources at hand; the fields are the ones the routines below read and write (the field
  \<^verbatim>\<open>sum\<close> is \<open>sum_stat\<close> here and \<^verbatim>\<open>standardDev\<close> keeps its name).
\<close>

record ChannelStatistics =
  mean :: real
  sum_stat :: real
  standardDev :: real
  minimum :: real
  maximum :: real

text \<open>
  The body of \<^verbatim>\<open>if (channel == channelNum)\<close> in \<^verbatim>\<open>AddToClassChannelStatistics\<close>: what is
  written to \<^verbatim>\<open>*outChannelStatsPtr\<close> from \<^verbatim>\<open>*lInChannelStatsPtr\<close>.
\<close>

definition merge_channel :: "bool \<Rightarrow> ChannelStatistics \<Rightarrow> ChannelStatistics \<Rightarrow> ChannelStatistics" where
  "merge_channel initializeFlag outStats inStats =
     (if initializeFlag
      then outStats\<lparr>sum_stat := sum_stat inStats, standardDev := - 1,
                    minimum := minimum inStats, maximum := maximum inStats\<rparr>
      else outStats\<lparr>sum_stat := sum_stat outStats + sum_stat inStats,
                    minimum := min (minimum outStats) (minimum inStats),
                    maximum := max (maximum outStats) (maximum inStats)\<rparr>)"

text \<open>
  The loop state is \<^verbatim>\<open>channelNum\<close>, \<^verbatim>\<open>channelListIndex\<close>, the positions of
  \<^verbatim>\<open>lInChannelStatsPtr\<close> and of \<^verbatim>\<open>outChannelStatsPtr\<close> in their arrays, and the output
  array. \<^verbatim>\<open>channelListIndexLimit\<close> is \<^verbatim>\<open>numberOutputChannels - 1\<close> stored in a \<^verbatim>\<open>UInt32\<close>,
  which is \<open>2 ^ 32 - 1\<close> when there is no output channel.
\<close>

type_synonym atc_state = "nat \<times> nat \<times> nat \<times> nat \<times> ChannelStatistics list"

definition AddToClassChannelStatistics_step ::
  "nat \<Rightarrow> nat list option \<Rightarrow> ChannelStatistics list \<Rightarrow> bool \<Rightarrow> atc_state \<Rightarrow> nat \<Rightarrow> atc_state" where
  "AddToClassChannelStatistics_step channelListIndexLimit channelListPtr inChannelStats
       initializeFlag st channel =
     (case st of (channelNum, channelListIndex, lIn, outp, outChannelStats) \<Rightarrow>
        let channelNum1 = (case channelListPtr of None \<Rightarrow> channelNum
                           | Some l \<Rightarrow> l ! channelListIndex);
            lIn1 = (case channelListPtr of None \<Rightarrow> lIn | Some l \<Rightarrow> l ! channelListIndex)
        in if channel = channelNum1
           then (channelNum1 + 1,
                 if channelListIndex < channelListIndexLimit then channelListIndex + 1
                 else channelListIndex,
                 lIn1 + 1, outp + 1,
                 outChannelStats[outp := merge_channel initializeFlag (outChannelStats ! outp)
                                           (inChannelStats ! lIn1)])
           else (channelNum1 + 1, channelListIndex, lIn1 + 1, outp, outChannelStats))"

definition AddToClassChannelStatistics ::
  "nat \<Rightarrow> ChannelStatistics list \<Rightarrow> nat \<Rightarrow> nat list option \<Rightarrow> ChannelStatistics list \<Rightarrow> bool
     \<Rightarrow> ChannelStatistics list" where
  "AddToClassChannelStatistics numberOutputChannels outChannelStats numberInputChannels
       channelListPtr inChannelStats initializeFlag =
     (let channelListIndexLimit =
            (if numberOutputChannels = 0 then 4294967295 else numberOutputChannels - 1);
          channelListPtr' =
            (if numberOutputChannels = numberInputChannels then None else channelListPtr)
      in case foldl (AddToClassChannelStatistics_step channelListIndexLimit channelListPtr'
                       inChannelStats initializeFlag)
                (0, 0, 0, 0, outChannelStats) [0..<numberInputChannels] of
           (channelNum, channelListIndex, lIn, outp, outChannelStats') \<Rightarrow> outChannelStats')"


text \<open>
  The source channel that the routine merges into output channel \<open>k\<close>, and the channel
  lists its walk is written for: one entry per output channel, in increasing order, each
  an input channel. (The walk visits the input channels once, in order, so it cannot
  follow a list that is not increasing.)
\<close>

definition source_channel :: "nat \<Rightarrow> nat \<Rightarrow> nat list option \<Rightarrow> nat \<Rightarrow> nat" where
  "source_channel numberOutputChannels numberInputChannels channelListPtr k =
     (case channelListPtr of
        None \<Rightarrow> k
      | Some l \<Rightarrow> if numberOutputChannels = numberInputChannels then k else l ! k)"

definition channel_list_ok :: "nat \<Rightarrow> nat \<Rightarrow> nat list option \<Rightarrow> bool" where
  "channel_list_ok numberOutputChannels numberInputChannels channelListPtr =
     (numberOutputChannels = numberInputChannels \<or>
      (case channelListPtr of
         None \<Rightarrow> False
       | Some l \<Rightarrow> length l = numberOutputChannels \<and> 0 < numberOutputChannels
                   \<and> sorted_wrt (<) l \<and> (\<forall>x\<in>set l. x < numberInputChannels)))"


text \<open>A channel record written in one line, for the concrete evaluations.\<close>

definition chan :: "real \<Rightarrow> real \<Rightarrow> real \<Rightarrow> real \<Rightarrow> real \<Rightarrow> ChannelStatistics" where
  "chan m s d lo hi = \<lparr>mean = m, sum_stat = s, standardDev = d, minimum = lo, maximum = hi\<rparr>"


subsection \<open>ResetForAllVariancesEqual\<close>

text \<open>
  Position of entry \<open>(i, j)\<close>, \<open>j \<le> i\<close>, of the lower triangle: row-major in a square
  matrix, packed in a triangular one.
\<close>

definition lower_index :: "bool \<Rightarrow> nat \<Rightarrow> nat \<Rightarrow> nat \<Rightarrow> nat" where
  "lower_index squareMatrixFlag n i j =
     (if squareMatrixFlag then i * n + j else i * (i + 1) div 2 + j)"

text \<open>
  The comparison pass. The inner loop leaves by \<^verbatim>\<open>break\<close> at the first entry that differs
  from \<^verbatim>\<open>compareVariance\<close>, with the pointer still on that entry; the outer loop goes on
  with the rows that follow (the flag is never set back to true).
\<close>

function compare_inner :: "real list \<Rightarrow> real \<Rightarrow> nat \<Rightarrow> nat \<Rightarrow> nat \<times> bool \<Rightarrow> nat \<times> bool" where
  "compare_inner cov compareVariance feature1 feature2 (ptr, variancesEqualFlag) =
     (if feature2 \<le> feature1
      then (if compareVariance \<noteq> cov ! ptr then (ptr, False)
            else compare_inner cov compareVariance feature1 (feature2 + 1)
                   (ptr + 1, variancesEqualFlag))
      else (ptr, variancesEqualFlag))"
  by pat_completeness auto
termination
  by (relation "measure (\<lambda>(cov, cv, feature1, feature2, st). feature1 + 1 - feature2)") auto

declare compare_inner.simps [simp del]

definition compare_row ::
  "real list \<Rightarrow> real \<Rightarrow> bool \<Rightarrow> nat \<times> nat \<times> bool \<Rightarrow> nat \<Rightarrow> nat \<times> nat \<times> bool" where
  "compare_row cov compareVariance squareMatrixFlag st feature1 =
     (case st of (ptr, upperRightIndexSkip, variancesEqualFlag) \<Rightarrow>
        (case compare_inner cov compareVariance feature1 0 (ptr, variancesEqualFlag) of
           (ptr', variancesEqualFlag') \<Rightarrow>
             if squareMatrixFlag
             then (ptr' + upperRightIndexSkip, upperRightIndexSkip - 1, variancesEqualFlag')
             else (ptr', upperRightIndexSkip, variancesEqualFlag')))"

text \<open>
  The pass that writes zeros: the entries of a row left of the diagonal, then one step
  over the diagonal and, in a square matrix, over the rest of the row.
\<close>

function zero_inner :: "nat \<Rightarrow> nat \<Rightarrow> nat \<times> real list \<Rightarrow> nat \<times> real list" where
  "zero_inner feature1 feature2 (ptr, cov) =
     (if feature2 < feature1
      then zero_inner feature1 (feature2 + 1) (ptr + 1, cov[ptr := 0])
      else (ptr, cov))"
  by pat_completeness auto
termination
  by (relation "measure (\<lambda>(feature1, feature2, st). feature1 - feature2)") auto

declare zero_inner.simps [simp del]

definition zero_row ::
  "bool \<Rightarrow> nat \<times> nat \<times> real list \<Rightarrow> nat \<Rightarrow> nat \<times> nat \<times> real list" where
  "zero_row squareMatrixFlag st feature1 =
     (case st of (ptr, upperRightIndexSkip, cov) \<Rightarrow>
        (case zero_inner feature1 0 (ptr, cov) of
           (ptr', cov') \<Rightarrow>
             if squareMatrixFlag
             then (ptr' + 1 + upperRightIndexSkip, upperRightIndexSkip - 1, cov')
             else (ptr' + 1, upperRightIndexSkip, cov')))"

text \<open>
  Modelled from the spec: \<^verbatim>\<open>CopyLowerToUpperSquareMatrix\<close> is defined in a source file
  that is not at hand. The spec describes it as \<open>mirrorLowerToUpper(matrix, n)\<close>: for each
  \<open>(i, j)\<close> with \<open>i < j\<close>, \<open>matrix[i][j] = matrix[j][i]\<close>, a pure copy, in row-major
  square storage \<open>i * n + j\<close>.
\<close>

definition CopyLowerToUpperSquareMatrix :: "nat \<Rightarrow> real list \<Rightarrow> real list" where
  "CopyLowerToUpperSquareMatrix n matrix =
     map (\<lambda>p. if p < n * n \<and> p div n < p mod n then matrix ! ((p mod n) * n + p div n)
               else matrix ! p) [0..<length matrix]"

definition ResetForAllVariancesEqual ::
  "real list option \<Rightarrow> bool \<Rightarrow> int \<Rightarrow> nat \<Rightarrow> bool \<times> real list option" where
  "ResetForAllVariancesEqual covariancePtr squareMatrixFlag statisticsCode numberFeatures =
     (case covariancePtr of
        None \<Rightarrow> (False, None)
      | Some cov \<Rightarrow>
          if numberFeatures \<le> 1 \<or> statisticsCode = kMeanStdDevOnly then (False, Some cov)
          else (case foldl (compare_row cov (cov ! 0) squareMatrixFlag)
                       (0, numberFeatures - 1, True) [0..<numberFeatures] of
                  (ptr, upperRightIndexSkip, variancesEqualFlag) \<Rightarrow>
                    if variancesEqualFlag
                    then (case foldl (zero_row squareMatrixFlag) (0, numberFeatures - 1, cov)
                                 [0..<numberFeatures] of
                            (ptr', upperRightIndexSkip', cov') \<Rightarrow>
                              (True, Some (if squareMatrixFlag
                                           then CopyLowerToUpperSquareMatrix numberFeatures cov'
                                           else cov')))
                    else (False, Some cov)))"

text \<open>The positions strictly below the diagonal in the first \<open>r\<close> rows.\<close>

definition offdiag :: "bool \<Rightarrow> nat \<Rightarrow> nat \<Rightarrow> nat set" where
  "offdiag sq n r = {p. \<exists>i<r. \<exists>j<i. p = lower_index sq n i j}"


section \<open>Project state\<close>

text \<open>
  Modelled from the spec: the estimator codes are declared in a header outside the sources
  at hand. The spec lists the selections as Original, LeaveOneOut, Enhanced and Mixed, and
  the guard \<^verbatim>\<open>covarianceStatsToUse <= 0 || covarianceStatsToUse > kEnhancedStats\<close> of
  \<^verbatim>\<open>SetClassCovarianceStatsToUse\<close> places the three per-class codes in \<open>1..kEnhancedStats\<close>
  with \<^verbatim>\<open>kMixedStats\<close> beyond them. The codes are \<^verbatim>\<open>UInt16\<close> values; the routines only
  compare and copy them (the casts to \<^verbatim>\<open>SInt16\<close> are one-to-one), so they are naturals here.
  The codes \<^verbatim>\<open>kComputedOptimum\<close> and \<^verbatim>\<open>kTrainingType\<close> come from the same header; the
  routines only test equality with them.
\<close>

definition kOriginalStats :: nat where "kOriginalStats = 1"
definition kLeaveOneOutStats :: nat where "kLeaveOneOutStats = 2"
definition kEnhancedStats :: nat where "kEnhancedStats = 3"
definition kMixedStats :: nat where "kMixedStats = 4"

definition kComputedOptimum :: int where "kComputedOptimum = 1"

definition kTrainingType :: int where "kTrainingType = 1"

text \<open>
  The class and field records and the project record \<^verbatim>\<open>*gProjectInfoPtr\<close>, with the two
  global flags the routines touch, restricted to the members the routines below read or
  write. The project-level members \<^verbatim>\<open>statsUpToDate\<close> and \<^verbatim>\<open>covarianceStatsToUse\<close> carry the
  prefix \<open>project_\<close>, the field-level \<^verbatim>\<open>statsUpToDate\<close> the prefix \<open>field_\<close>, since the
  class record has members of the same names.
\<close>

record ClassNames =
  numberOfTrainFields :: int
  numberStatisticsPixels :: int
  numberTrainPixels :: int
  firstFieldNumber :: int
  statsUpToDate :: bool
  covarianceStatsToUse :: nat
  modifiedStatsFlag :: bool
  mixingParameterCode :: int
  looCovarianceValue :: real
  userMixingParameter :: real

record FieldIdentifiers =
  fieldType :: int
  nextField :: int
  loadedIntoClassStats :: bool
  trainingStatsNumber :: nat
  field_statsUpToDate :: bool

record ProjectInfo =
  numberStatisticsClasses :: nat
  storageClass :: "nat list"
  classNamesPtr :: "ClassNames list"
  fieldIdentPtr :: "FieldIdentifiers list"
  currentClass :: nat
  keepClassStatsOnlyFlag :: bool
  project_statsUpToDate :: bool
  project_covarianceStatsToUse :: nat
  enhancedStatsExistFlag :: bool
  numberCommonCovarianceClasses :: nat
  numberStatisticsChannels :: nat
  numberCovarianceEntries :: nat
  statisticsCode :: int
  setZeroVarianceFlag :: bool
  zeroVarianceFactor :: real
  useCommonCovarianceInLOOCFlag :: bool
  localCommonCovarianceLoadedFlag :: bool
  classChanStatsPtr :: "ChannelStatistics list"
  classSumSquaresStatsPtr :: "real list"
  fieldChanStatsPtr :: "ChannelStatistics list"
  fieldSumSquaresStatsPtr :: "real list"
  modifiedClassChanStatsPtr :: "ChannelStatistics list"
  modifiedClassCovStatsPtr :: "real list"
  commonCovarianceStats :: "real list option"
  gOperationCanceledFlag :: bool
  gUpdateProjectMenuItemsFlag :: bool

subsection \<open>SetProjectCovarianceStatsToUse and SetClassCovarianceStatsToUse\<close>

text \<open>
  The loop of \<^verbatim>\<open>SetProjectCovarianceStatsToUse\<close> carries the project, the local
  \<^verbatim>\<open>projectCovarianceStatsToUse\<close> and the local \<^verbatim>\<open>enhancedStatsExistFlag\<close>. What one
  iteration does to the class record is \<open>SetProjectCovarianceStatsToUse_class\<close>: it returns
  the class record, whether the project is to be marked mixed for the time being (enhanced
  statistics missing for a class with training pixels) and whether the leave-one-out
  statistics are stale. The calls that only repaint controls have no counterpart.
\<close>

type_synonym spc_state = "ProjectInfo \<times> nat \<times> bool"

definition SetProjectCovarianceStatsToUse_class ::
  "nat \<Rightarrow> ClassNames \<Rightarrow> ClassNames \<times> bool \<times> bool" where
  "SetProjectCovarianceStatsToUse_class covarianceStatsToUse' c0 =
     (let c1 = (if covarianceStatsToUse c0 = kMixedStats
                then c0\<lparr>covarianceStatsToUse := kOriginalStats\<rparr> else c0);
          savedCovarianceStatsToUse = covarianceStatsToUse c1;
          c2 = (if covarianceStatsToUse' \<noteq> kMixedStats
                then c1\<lparr>covarianceStatsToUse := covarianceStatsToUse'\<rparr> else c1)
      in if covarianceStatsToUse c2 = kEnhancedStats
         then (if \<not> modifiedStatsFlag c2
               then (c2\<lparr>covarianceStatsToUse :=
                          (if savedCovarianceStatsToUse = kEnhancedStats then kOriginalStats
                           else savedCovarianceStatsToUse)\<rparr>,
                     0 < numberTrainPixels c2, False)
               else (c2, False, False))
         else if covarianceStatsToUse c2 = kLeaveOneOutStats
         then (if mixingParameterCode c2 = kComputedOptimum \<and> looCovarianceValue c2 < 0
               then (c2\<lparr>statsUpToDate := False\<rparr>, False, True)
               else (c2, False, False))
         else (c2, False, False))"

definition SetProjectCovarianceStatsToUse_step :: "nat \<Rightarrow> spc_state \<Rightarrow> nat \<Rightarrow> spc_state" where
  "SetProjectCovarianceStatsToUse_step covarianceStatsToUse' st classIndex =
     (case st of (p, projectCovarianceStatsToUse, enhancedStatsExistFlag') \<Rightarrow>
        (case SetProjectCovarianceStatsToUse_class covarianceStatsToUse'
                (classNamesPtr p ! (storageClass p ! classIndex)) of
           (c, markMixed, looStale) \<Rightarrow>
             (p\<lparr>classNamesPtr := (classNamesPtr p)[storageClass p ! classIndex := c],
                project_covarianceStatsToUse :=
                  (if markMixed then kMixedStats else project_covarianceStatsToUse p),
                project_statsUpToDate := (if looStale then False else project_statsUpToDate p),
                numberCommonCovarianceClasses :=
                  (if looStale then 0 else numberCommonCovarianceClasses p)\<rparr>,
              if classIndex = 0 then covarianceStatsToUse c
              else if projectCovarianceStatsToUse \<noteq> kMixedStats
                      \<and> projectCovarianceStatsToUse \<noteq> covarianceStatsToUse c
              then kMixedStats else projectCovarianceStatsToUse,
              if modifiedStatsFlag c then True else enhancedStatsExistFlag')))"

definition SetProjectCovarianceStatsToUse :: "nat \<Rightarrow> ProjectInfo \<Rightarrow> ProjectInfo" where
  "SetProjectCovarianceStatsToUse covarianceStatsToUse' p =
     (case foldl (SetProjectCovarianceStatsToUse_step covarianceStatsToUse')
             (p\<lparr>project_covarianceStatsToUse := covarianceStatsToUse'\<rparr>, kOriginalStats, False)
             [0..<numberStatisticsClasses p] of
        (p1, projectCovarianceStatsToUse, enhancedStatsExistFlag') \<Rightarrow>
          p1\<lparr>project_covarianceStatsToUse :=
                 (if covarianceStatsToUse' = kEnhancedStats \<and> \<not> enhancedStatsExistFlag'
                  then kOriginalStats else projectCovarianceStatsToUse),
               enhancedStatsExistFlag := enhancedStatsExistFlag',
               gUpdateProjectMenuItemsFlag := True\<rparr>)"

text \<open>
  The loop of \<^verbatim>\<open>SetClassCovarianceStatsToUse\<close> over the classes, which leaves by \<^verbatim>\<open>break\<close>
  at the first class whose setting differs from the requested one.
\<close>

fun SetClassCovarianceStatsToUse_scan :: "nat \<Rightarrow> ProjectInfo \<Rightarrow> nat list \<Rightarrow> bool" where
  "SetClassCovarianceStatsToUse_scan covarianceStatsToUse' p [] = False"
| "SetClassCovarianceStatsToUse_scan covarianceStatsToUse' p (classIndex # rest) =
     (if covarianceStatsToUse' \<noteq>
           covarianceStatsToUse (classNamesPtr p ! (storageClass p ! classIndex))
      then True
      else SetClassCovarianceStatsToUse_scan covarianceStatsToUse' p rest)"

definition SetClassCovarianceStatsToUse :: "nat \<Rightarrow> ProjectInfo \<Rightarrow> ProjectInfo" where
  "SetClassCovarianceStatsToUse covarianceStatsToUse' p =
     (if covarianceStatsToUse' \<le> 0 \<or> covarianceStatsToUse' > kEnhancedStats then p
      else
        let classStorage = storageClass p ! currentClass p;
            p1 = p\<lparr>classNamesPtr := (classNamesPtr p)[classStorage :=
                       (classNamesPtr p ! classStorage)\<lparr>covarianceStatsToUse := covarianceStatsToUse'\<rparr>],
                    project_covarianceStatsToUse := covarianceStatsToUse'\<rparr>;
            p2 = (if SetClassCovarianceStatsToUse_scan covarianceStatsToUse' p1
                         [0..<numberStatisticsClasses p1]
                  then p1\<lparr>project_covarianceStatsToUse := kMixedStats\<rparr> else p1);
            p3 = p2\<lparr>gUpdateProjectMenuItemsFlag := True\<rparr>;
            c = classNamesPtr p3 ! classStorage
        in if covarianceStatsToUse' = kLeaveOneOutStats
              \<and> mixingParameterCode c = kComputedOptimum \<and> looCovarianceValue c < 0
           then p3\<lparr>project_statsUpToDate := False,
                    classNamesPtr := (classNamesPtr p3)[classStorage := c\<lparr>statsUpToDate := False\<rparr>]\<rparr>
           else p3)"


text \<open>
  The estimator selection and the enhanced-statistics flag of class \<open>classIndex\<close>; the
  projects whose class numbers map to distinct, existing storage slots; and the selection
  one pass of the loop of \<^verbatim>\<open>SetProjectCovarianceStatsToUse\<close> leaves in a class record.
\<close>

definition class_setting :: "ProjectInfo \<Rightarrow> nat \<Rightarrow> nat" where
  "class_setting p classIndex =
     covarianceStatsToUse (classNamesPtr p ! (storageClass p ! classIndex))"

definition class_has_enhanced :: "ProjectInfo \<Rightarrow> nat \<Rightarrow> bool" where
  "class_has_enhanced p classIndex =
     modifiedStatsFlag (classNamesPtr p ! (storageClass p ! classIndex))"

definition project_ok :: "ProjectInfo \<Rightarrow> bool" where
  "project_ok p =
     (numberStatisticsClasses p \<le> length (storageClass p)
      \<and> (\<forall>i<numberStatisticsClasses p. storageClass p ! i < length (classNamesPtr p))
      \<and> distinct (take (numberStatisticsClasses p) (storageClass p)))"

definition final_setting :: "nat \<Rightarrow> ClassNames \<Rightarrow> nat" where
  "final_setting requested c =
     (let saved = (if covarianceStatsToUse c = kMixedStats then kOriginalStats
                   else covarianceStatsToUse c);
          wanted = (if requested \<noteq> kMixedStats then requested else saved)
      in if wanted = kEnhancedStats \<and> \<not> modifiedStatsFlag c
         then (if saved = kEnhancedStats then kOriginalStats else saved)
         else wanted)"

text \<open>
  The loop invariant of \<^verbatim>\<open>SetProjectCovarianceStatsToUse\<close> after \<open>k\<close> classes, and a small
  project for the concrete evaluations (class numbers map to storage slots in order).
\<close>

definition spc_inv :: "nat \<Rightarrow> ProjectInfo \<Rightarrow> nat \<Rightarrow> spc_state \<Rightarrow> bool" where
  "spc_inv req p k st =
     (case st of (pk, pcs, enh) \<Rightarrow>
        storageClass pk = storageClass p
      \<and> numberStatisticsClasses pk = numberStatisticsClasses p
      \<and> length (classNamesPtr pk) = length (classNamesPtr p)
      \<and> (\<forall>i<numberStatisticsClasses p. k \<le> i \<longrightarrow>
            classNamesPtr pk ! (storageClass p ! i) = classNamesPtr p ! (storageClass p ! i))
      \<and> (\<forall>i<k. class_setting pk i = final_setting req (classNamesPtr p ! (storageClass p ! i)))
      \<and> (\<forall>i<numberStatisticsClasses p. class_has_enhanced pk i = class_has_enhanced p i)
      \<and> pcs = (if k = 0 then kOriginalStats
               else if \<forall>i<k. final_setting req (classNamesPtr p ! (storageClass p ! i)) =
                             final_setting req (classNamesPtr p ! (storageClass p ! 0))
               then final_setting req (classNamesPtr p ! (storageClass p ! 0))
               else kMixedStats)
      \<and> enh = (\<exists>i<k. class_has_enhanced p i))"

definition example_class :: "nat \<Rightarrow> bool \<Rightarrow> ClassNames" where
  "example_class setting enhanced =
     \<lparr>numberOfTrainFields = 1, numberStatisticsPixels = 10, numberTrainPixels = 10,
      firstFieldNumber = - 1, statsUpToDate = True, covarianceStatsToUse = setting,
      modifiedStatsFlag = enhanced, mixingParameterCode = 0, looCovarianceValue = 0,
      userMixingParameter = 0\<rparr>"

definition example_project :: "ClassNames list \<Rightarrow> FieldIdentifiers list \<Rightarrow> ProjectInfo" where
  "example_project classes fieldList =
     \<lparr>numberStatisticsClasses = length classes, storageClass = [0..<length classes],
      classNamesPtr = classes, fieldIdentPtr = fieldList, currentClass = 0,
      keepClassStatsOnlyFlag = False, project_statsUpToDate = True,
      project_covarianceStatsToUse = kOriginalStats, enhancedStatsExistFlag = False,
      numberCommonCovarianceClasses = 0, numberStatisticsChannels = 1,
      numberCovarianceEntries = 1, statisticsCode = kMeanCovariance,
      setZeroVarianceFlag = False, zeroVarianceFactor = 0,
      useCommonCovarianceInLOOCFlag = False, localCommonCovarianceLoadedFlag = False,
      classChanStatsPtr = [], classSumSquaresStatsPtr = [], fieldChanStatsPtr = [],
      fieldSumSquaresStatsPtr = [],
      modifiedClassChanStatsPtr = [], modifiedClassCovStatsPtr = [],
      commonCovarianceStats = None, gOperationCanceledFlag = False,
      gUpdateProjectMenuItemsFlag = False\<rparr>"

subsection \<open>FinishClassStatsUpdate and FinishProjectStatsUpdate\<close>

text \<open>
  \<^verbatim>\<open>ComputeMeanStdDevVector\<close> is defined in a source file that is not at hand, so it is a
  parameter: a routine that receives the channel-statistics array and the sums-of-squares
  array with the positions of the class in them (what \<^verbatim>\<open>GetProjectStatisticsPointers\<close>
  delivers), the number of channels, the pixel count (cast to \<^verbatim>\<open>UInt32\<close>) and the
  statistics code, and returns the channel-statistics array as it leaves it.
\<close>

type_synonym mean_stddev_routine =
  "ChannelStatistics list \<Rightarrow> nat \<Rightarrow> real list \<Rightarrow> nat \<Rightarrow> nat \<Rightarrow> int \<Rightarrow> int
     \<Rightarrow> ChannelStatistics list"

text \<open>
  The walk along the \<^verbatim>\<open>nextField\<close> links of the class, which ends at the sentinel \<open>-1\<close>
  with \<^verbatim>\<open>upToDateFlag\<close> still true or leaves by \<^verbatim>\<open>break\<close> at the first training field not
  loaded into the class statistics. On a cyclic chain of loaded fields the loop of the
  source does not end; the walk is \<open>None\<close> then.
\<close>

partial_function (option) FinishClassStatsUpdate_walk ::
  "FieldIdentifiers list \<Rightarrow> int \<Rightarrow> bool option" where
  "FinishClassStatsUpdate_walk fieldList fieldNumber =
     (if fieldNumber = - 1 then Some True
      else if fieldType (fieldList ! nat fieldNumber) = kTrainingType
              \<and> \<not> loadedIntoClassStats (fieldList ! nat fieldNumber)
      then Some False
      else FinishClassStatsUpdate_walk fieldList (nextField (fieldList ! nat fieldNumber)))"

definition FinishClassStatsUpdate ::
  "mean_stddev_routine \<Rightarrow> nat \<Rightarrow> ProjectInfo \<Rightarrow> (bool \<times> ProjectInfo) option" where
  "FinishClassStatsUpdate ComputeMeanStdDevVector classNumber p =
     (if classNumber \<ge> numberStatisticsClasses p then Some (False, p)
      else
        let classStorage = storageClass p ! classNumber;
            c = classNamesPtr p ! classStorage
        in if 0 < numberOfTrainFields c \<and> \<not> statsUpToDate c
           then (case FinishClassStatsUpdate_walk (fieldIdentPtr p) (firstFieldNumber c) of
                   None \<Rightarrow> None
                 | Some upToDateFlag \<Rightarrow>
                     let p1 = (if keepClassStatsOnlyFlag p
                               then p\<lparr>classChanStatsPtr :=
                                        ComputeMeanStdDevVector (classChanStatsPtr p)
                                          (classStorage * numberStatisticsChannels p)
                                          (classSumSquaresStatsPtr p)
                                          (classStorage * numberCovarianceEntries p)
                                          (numberStatisticsChannels p)
                                          (numberStatisticsPixels c mod 2 ^ 32)
                                          (statisticsCode p)\<rparr>
                               else p)
                     in Some (upToDateFlag,
                              p1\<lparr>classNamesPtr := (classNamesPtr p1)[classStorage :=
                                     c\<lparr>statsUpToDate := upToDateFlag\<rparr>]\<rparr>))
           else Some (False,
                      p\<lparr>classNamesPtr := (classNamesPtr p)[classStorage :=
                             c\<lparr>statsUpToDate := False\<rparr>]\<rparr>))"

fun FinishProjectStatsUpdate_loop ::
  "mean_stddev_routine \<Rightarrow> nat list \<Rightarrow> bool \<times> ProjectInfo \<Rightarrow> (bool \<times> ProjectInfo) option" where
  "FinishProjectStatsUpdate_loop cmsd [] st = Some st"
| "FinishProjectStatsUpdate_loop cmsd (classIndex # rest) (statsUpToDateFlag, p) =
     (case FinishClassStatsUpdate cmsd classIndex p of
        None \<Rightarrow> None
      | Some (upToDate, p') \<Rightarrow>
          FinishProjectStatsUpdate_loop cmsd rest
            (if \<not> upToDate then False else statsUpToDateFlag, p'))"

definition FinishProjectStatsUpdate :: "mean_stddev_routine \<Rightarrow> ProjectInfo \<Rightarrow> ProjectInfo option" where
  "FinishProjectStatsUpdate cmsd p =
     (case FinishProjectStatsUpdate_loop cmsd [0..<numberStatisticsClasses p] (True, p) of
        None \<Rightarrow> None
      | Some (statsUpToDateFlag, p') \<Rightarrow>
          Some (p'\<lparr>project_statsUpToDate := statsUpToDateFlag,
                   gUpdateProjectMenuItemsFlag := True\<rparr>))"

text \<open>
  The fields of a class: the field numbers reached from \<^verbatim>\<open>firstFieldNumber\<close> along
  \<^verbatim>\<open>nextField\<close> up to the sentinel, all inside the field array.
\<close>

inductive field_chain :: "FieldIdentifiers list \<Rightarrow> int \<Rightarrow> nat list \<Rightarrow> bool" where
  chain_end: "field_chain fieldList (- 1) []"
| chain_next: "0 \<le> fieldNumber \<Longrightarrow> nat fieldNumber < length fieldList \<Longrightarrow>
      field_chain fieldList (nextField (fieldList ! nat fieldNumber)) rest \<Longrightarrow>
      field_chain fieldList fieldNumber (nat fieldNumber # rest)"

text \<open>A field record and a routine standing for \<^verbatim>\<open>ComputeMeanStdDevVector\<close>, for the
  concrete evaluations.\<close>

definition example_field :: "int \<Rightarrow> int \<Rightarrow> bool \<Rightarrow> FieldIdentifiers" where
  "example_field type next loaded =
     \<lparr>fieldType = type, nextField = next, loadedIntoClassStats = loaded,
      trainingStatsNumber = 0, field_statsUpToDate = True\<rparr>"

definition no_mean_stddev :: mean_stddev_routine where
  "no_mean_stddev chanStats chanOffset sumSquares sumSquaresOffset n pixels code = chanStats"


section \<open>Class statistics accessors\<close>

text \<open>
  The accessors call routines that are defined in source files not at hand
  (\<^verbatim>\<open>ComputeMeanStdDevVector\<close>, \<^verbatim>\<open>ComputeMeanVector\<close>, \<^verbatim>\<open>ReduceMeanVector\<close>,
  \<^verbatim>\<open>ZeroStatisticsMemory\<close>, \<^verbatim>\<open>AddToClassStatistics\<close>,
  \<^verbatim>\<open>ComputeCovarianceMatrix\<close>, \<^verbatim>\<open>GetLOOCovariance\<close>, \<^verbatim>\<open>UpdateProjectLOOStats\<close>,
  \<^verbatim>\<open>ListClassInformationMessage\<close> and the three class weight routines). They are
  parameters of the model, collected in one record. A routine that writes a buffer is a
  function from the arguments of the call, buffers included, to the new contents of the
  buffers it writes; \<^verbatim>\<open>UpdateProjectLOOStats\<close> and \<^verbatim>\<open>ListClassInformationMessage\<close>, which
  work on the project and may see the user cancel, are functions on the project state. The
  class weights are members of the class records that no routine below writes, so the weight
  routines are functions of their arguments; the cast of the total probability to
  \<^verbatim>\<open>float\<close> is part of \<open>GetTotalProbability\<close>.
\<close>

record externals =
  ComputeMeanStdDevVector :: mean_stddev_routine
  ComputeMeanVector :: "ChannelStatistics list \<Rightarrow> nat \<Rightarrow> int \<Rightarrow> ChannelStatistics list"
  ReduceMeanVector :: "ChannelStatistics list \<Rightarrow> real list \<Rightarrow> nat \<Rightarrow> nat list option \<Rightarrow> real list"
  ZeroStatisticsMemory :: "ChannelStatistics list \<Rightarrow> real list \<Rightarrow> nat \<Rightarrow> int \<Rightarrow> bool
                             \<Rightarrow> ChannelStatistics list \<times> real list"
  AddToClassStatistics :: "nat \<Rightarrow> ChannelStatistics list \<Rightarrow> real list \<Rightarrow> nat \<Rightarrow> nat list option
                             \<Rightarrow> ChannelStatistics list \<Rightarrow> real list \<Rightarrow> bool \<Rightarrow> int \<Rightarrow> int
                             \<Rightarrow> ChannelStatistics list \<times> real list"
  ComputeCovarianceMatrix :: "nat \<Rightarrow> real list \<Rightarrow> nat \<Rightarrow> nat list option \<Rightarrow> ChannelStatistics list
                                \<Rightarrow> real list \<Rightarrow> int \<Rightarrow> bool \<Rightarrow> real list"
  GetLOOCovariance :: "int \<Rightarrow> real \<Rightarrow> real \<Rightarrow> nat \<Rightarrow> real list \<Rightarrow> real list \<Rightarrow> real list \<Rightarrow> bool
                         \<Rightarrow> real list"
  UpdateProjectLOOStats :: "ProjectInfo \<Rightarrow> ProjectInfo"
  ListClassInformationMessage :: "nat \<Rightarrow> ProjectInfo \<Rightarrow> ProjectInfo"
  GetCommonCovarianceWeightsIndex :: nat
  GetTotalProbability :: "nat list option \<Rightarrow> nat \<Rightarrow> nat \<Rightarrow> real"
  GetClassWeightValue :: "nat \<Rightarrow> nat \<Rightarrow> real \<Rightarrow> real"

subsection \<open>ReduceChanStatsVector\<close>

text \<open>
  One pass of the loop copies a whole channel record; without a feature list the source
  index is the running \<^verbatim>\<open>UInt16 channelIndex\<close>, which is incremented after each copy.
\<close>

definition ReduceChanStatsVector_step ::
  "ChannelStatistics list \<Rightarrow> nat list option \<Rightarrow> nat \<times> ChannelStatistics list \<Rightarrow> nat
     \<Rightarrow> nat \<times> ChannelStatistics list" where
  "ReduceChanStatsVector_step inputChanStats featureListPtr st channel =
     (case st of (channelIndex, outputChanStats) \<Rightarrow>
        let channelIndex1 = (case featureListPtr of None \<Rightarrow> channelIndex
                             | Some l \<Rightarrow> l ! channel)
        in ((channelIndex1 + 1) mod 65536,
            outputChanStats[channel := inputChanStats ! channelIndex1]))"

definition ReduceChanStatsVector ::
  "ChannelStatistics list \<Rightarrow> ChannelStatistics list \<Rightarrow> nat \<Rightarrow> nat list option
     \<Rightarrow> ChannelStatistics list" where
  "ReduceChanStatsVector inputChanStats outputChanStats numOutFeatures featureListPtr =
     snd (foldl (ReduceChanStatsVector_step inputChanStats featureListPtr)
            (0, outputChanStats) [0..<numOutFeatures])"

subsection \<open>Combining the fields of a class\<close>

text \<open>
  The walk over the fields of a class follows \<^verbatim>\<open>nextField\<close> until \<open>-1\<close>; it need not
  end, so it is a partial function and \<open>None\<close> stands for a walk that does not return. The
  state of the walk of \<^verbatim>\<open>CombineFieldChannelStatistics\<close> is \<^verbatim>\<open>initializeFlag\<close> and the
  class buffer. The statistics of field set \<open>k\<close> start at entry
  \<open>k * numberInputChannels\<close> of the project's field array.
\<close>

type_synonym cfcs_state = "bool \<times> ChannelStatistics list"

partial_function (option) CombineFieldChannelStatistics_walk ::
  "FieldIdentifiers list \<Rightarrow> ChannelStatistics list \<Rightarrow> nat \<Rightarrow> nat \<Rightarrow> nat list option \<Rightarrow> int
     \<Rightarrow> cfcs_state \<Rightarrow> cfcs_state option" where
  "CombineFieldChannelStatistics_walk fieldList fieldChanStats numberInputChannels
       numberOutputChannels channelListPtr fieldNumber st =
     (if fieldNumber = - 1 then Some st
      else
        CombineFieldChannelStatistics_walk fieldList fieldChanStats numberInputChannels
          numberOutputChannels channelListPtr
          (nextField (fieldList ! nat fieldNumber))
          (if fieldType (fieldList ! nat fieldNumber) = kTrainingType
              \<and> field_statsUpToDate (fieldList ! nat fieldNumber)
           then (False,
                 AddToClassChannelStatistics numberOutputChannels (snd st)
                   numberInputChannels channelListPtr
                   (drop (trainingStatsNumber (fieldList ! nat fieldNumber)
                            * numberInputChannels) fieldChanStats)
                   (fst st))
           else st))"

declare CombineFieldChannelStatistics_walk.simps [code]

definition CombineFieldChannelStatistics ::
  "ProjectInfo \<Rightarrow> nat \<Rightarrow> nat list option \<Rightarrow> ChannelStatistics list option \<Rightarrow> nat
     \<Rightarrow> ChannelStatistics list option option" where
  "CombineFieldChannelStatistics p numberOutputChannels channelListPtr classChannelStatsPtr
       classNumber =
     (case classChannelStatsPtr of
        None \<Rightarrow> Some None
      | Some classChannelStats \<Rightarrow>
          if numberOutputChannels \<le> 0 then Some (Some classChannelStats)
          else map_option (\<lambda>st. Some (snd st))
                 (CombineFieldChannelStatistics_walk (fieldIdentPtr p) (fieldChanStatsPtr p)
                    (numberStatisticsChannels p) numberOutputChannels channelListPtr
                    (firstFieldNumber (classNamesPtr p ! (storageClass p ! classNumber)))
                    (True, classChannelStats)))"

text \<open>
  Modelled from the spec: \<^verbatim>\<open>GetProjectStatisticsPointers\<close> is not among the sources at
  hand; the spec describes the statistics arrays as one arena indexed by field or class, and
  the addresses are taken to follow the layout that \<^verbatim>\<open>CombineFieldChannelStatistics\<close> and
  \<^verbatim>\<open>GetClassChannelStatistics\<close> write out: set \<open>k\<close> starts at entry
  \<open>k * numberStatisticsChannels\<close> of a first order array and at entry
  \<open>k * numberCovarianceEntries\<close> of a second order array.
  \<^verbatim>\<open>CombineFieldStatistics\<close> walks the chain of the fields with the first and second
  order buffers of the caller.
\<close>

type_synonym stats_buffers = "ChannelStatistics list \<times> real list"

partial_function (option) CombineFieldStatistics_walk ::
  "externals \<Rightarrow> ProjectInfo \<Rightarrow> nat \<Rightarrow> nat list option \<Rightarrow> bool \<Rightarrow> int \<Rightarrow> int \<Rightarrow> stats_buffers
     \<Rightarrow> stats_buffers option" where
  "CombineFieldStatistics_walk ext p numberOutputChannels outputChannelListPtr
       squareOutputMatrixFlag outputStatisticsCode fieldNumber bufs =
     (if fieldNumber = - 1 then Some bufs
      else
        CombineFieldStatistics_walk ext p numberOutputChannels outputChannelListPtr
          squareOutputMatrixFlag outputStatisticsCode
          (nextField (fieldIdentPtr p ! nat fieldNumber))
          (if fieldType (fieldIdentPtr p ! nat fieldNumber) = kTrainingType
              \<and> field_statsUpToDate (fieldIdentPtr p ! nat fieldNumber)
           then AddToClassStatistics ext numberOutputChannels (fst bufs) (snd bufs)
                  (numberStatisticsChannels p) outputChannelListPtr
                  (drop (trainingStatsNumber (fieldIdentPtr p ! nat fieldNumber)
                           * numberStatisticsChannels p) (fieldChanStatsPtr p))
                  (drop (trainingStatsNumber (fieldIdentPtr p ! nat fieldNumber)
                           * numberCovarianceEntries p) (fieldSumSquaresStatsPtr p))
                  squareOutputMatrixFlag (statisticsCode p) outputStatisticsCode
           else bufs))"

declare CombineFieldStatistics_walk.simps [code]

definition CombineFieldStatistics ::
  "externals \<Rightarrow> ProjectInfo \<Rightarrow> nat \<Rightarrow> nat list option \<Rightarrow> ChannelStatistics list option
     \<Rightarrow> real list option \<Rightarrow> nat \<Rightarrow> bool \<Rightarrow> int
     \<Rightarrow> (ChannelStatistics list option \<times> real list option) option" where
  "CombineFieldStatistics ext p numberOutputChannels outputChannelListPtr outputChannelStatsPtr
       outputSumSquaresPtr classNumber squareOutputMatrixFlag outputStatisticsCode =
     (case (outputChannelStatsPtr, outputSumSquaresPtr) of
        (Some outputChannelStats, Some outputSumSquares) \<Rightarrow>
          if numberOutputChannels \<le> 0 then Some (outputChannelStatsPtr, outputSumSquaresPtr)
          else map_option (\<lambda>bufs. (Some (fst bufs), Some (snd bufs)))
                 (CombineFieldStatistics_walk ext p numberOutputChannels outputChannelListPtr
                    squareOutputMatrixFlag outputStatisticsCode
                    (firstFieldNumber (classNamesPtr p ! (storageClass p ! classNumber)))
                    (outputChannelStats, outputSumSquares))
      | _ \<Rightarrow> Some (outputChannelStatsPtr, outputSumSquaresPtr))"

subsection \<open>GetClassChannelStatistics and GetClassMeanVector\<close>

text \<open>
  \<^verbatim>\<open>GetClassChannelStatistics\<close> returns its \<^verbatim>\<open>Boolean\<close> together with the caller's
  buffer. It reads the estimator selection stored in the class. \<^verbatim>\<open>GetClassMeanVector\<close> is
  a \<^verbatim>\<open>void\<close> routine: all it delivers are the two buffers.
\<close>

definition GetClassChannelStatistics ::
  "externals \<Rightarrow> ProjectInfo \<Rightarrow> nat \<Rightarrow> ChannelStatistics list option \<Rightarrow> nat list option \<Rightarrow> nat
     \<Rightarrow> (bool \<times> ChannelStatistics list option) option" where
  "GetClassChannelStatistics ext p numberOutputChannels classChannelStatsPtr channelListPtr
       classNumber =
     (case classChannelStatsPtr of
        None \<Rightarrow> Some (False, None)
      | Some classChannelStats \<Rightarrow>
          if numberOutputChannels \<le> 0 then Some (False, Some classChannelStats)
          else
            let classStorage = storageClass p ! classNumber;
                c = classNamesPtr p ! classStorage
            in if numberOfTrainFields c \<le> 0 then Some (False, Some classChannelStats)
               else if covarianceStatsToUse c = kEnhancedStats \<and> modifiedStatsFlag c
               then Some (True,
                      Some (ReduceChanStatsVector
                              (drop (classStorage * numberStatisticsChannels p)
                                 (modifiedClassChanStatsPtr p))
                              classChannelStats numberOutputChannels channelListPtr))
               else
                 (case (if keepClassStatsOnlyFlag p
                        then Some (Some (AddToClassChannelStatistics numberOutputChannels
                               classChannelStats (numberStatisticsChannels p) channelListPtr
                               (drop (classStorage * numberStatisticsChannels p)
                                  (classChanStatsPtr p))
                               True))
                        else CombineFieldChannelStatistics p numberOutputChannels channelListPtr
                               (Some classChannelStats) classNumber) of
                    None \<Rightarrow> None
                  | Some None \<Rightarrow> None
                  | Some (Some combined) \<Rightarrow>
                      Some (True,
                        Some (ComputeMeanVector ext combined numberOutputChannels
                                (numberStatisticsPixels c)))))"

definition GetClassMeanVector ::
  "externals \<Rightarrow> ProjectInfo \<Rightarrow> nat \<Rightarrow> ChannelStatistics list option \<Rightarrow> real list
     \<Rightarrow> nat list option \<Rightarrow> nat
     \<Rightarrow> (ChannelStatistics list option \<times> real list) option" where
  "GetClassMeanVector ext p numberOutputChannels classChannelStatsPtr outputClassMean
       channelListPtr classNumber =
     (case GetClassChannelStatistics ext p numberOutputChannels classChannelStatsPtr
             channelListPtr classNumber of
        None \<Rightarrow> None
      | Some (continueFlag, None) \<Rightarrow> Some (None, outputClassMean)
      | Some (continueFlag, Some classChannelStats) \<Rightarrow>
          if continueFlag
          then Some (Some classChannelStats,
                     ReduceMeanVector ext classChannelStats outputClassMean
                       numberOutputChannels None)
          else Some (Some classChannelStats, outputClassMean))"

subsection \<open>GetClassSumsSquares and ComputeVarianceVector\<close>

definition GetClassSumsSquares ::
  "externals \<Rightarrow> ProjectInfo \<Rightarrow> nat \<Rightarrow> ChannelStatistics list option \<Rightarrow> real list option
     \<Rightarrow> nat list option \<Rightarrow> nat \<Rightarrow> bool \<Rightarrow> int
     \<Rightarrow> (bool \<times> ChannelStatistics list option \<times> real list option) option" where
  "GetClassSumsSquares ext p numberOutputChannels classChannelStatsPtr classSumSquaresPtr
       outputChannelListPtr classNumber squareOutputMatrixFlag outputStatisticsCode =
     (case (classChannelStatsPtr, classSumSquaresPtr) of
        (Some classChannelStats, Some classSumSquares) \<Rightarrow>
          if numberOutputChannels \<le> 0
          then Some (False, classChannelStatsPtr, classSumSquaresPtr)
          else
            let classStorage = storageClass p ! classNumber;
                c = classNamesPtr p ! classStorage
            in if 0 < numberOfTrainFields c
               then
                 (case ZeroStatisticsMemory ext classChannelStats classSumSquares
                         numberOutputChannels outputStatisticsCode squareOutputMatrixFlag of
                    (zeroedChannelStats, zeroedSumSquares) \<Rightarrow>
                      if keepClassStatsOnlyFlag p
                      then (if 0 < numberStatisticsPixels c
                            then (case AddToClassStatistics ext numberOutputChannels
                                         zeroedChannelStats zeroedSumSquares
                                         (numberStatisticsChannels p) outputChannelListPtr
                                         (drop (classStorage * numberStatisticsChannels p)
                                            (classChanStatsPtr p))
                                         (drop (classStorage * numberCovarianceEntries p)
                                            (classSumSquaresStatsPtr p))
                                         squareOutputMatrixFlag (statisticsCode p)
                                         outputStatisticsCode of
                                    (chanStats, sumSquares) \<Rightarrow>
                                      Some (True, Some chanStats, Some sumSquares))
                            else Some (False, Some zeroedChannelStats, Some zeroedSumSquares))
                      else map_option (\<lambda>bufs. (True, bufs))
                             (CombineFieldStatistics ext p numberOutputChannels
                                outputChannelListPtr (Some zeroedChannelStats)
                                (Some zeroedSumSquares) classNumber squareOutputMatrixFlag
                                outputStatisticsCode))
               else Some (False, classChannelStatsPtr, classSumSquaresPtr)
      | _ \<Rightarrow> Some (False, classChannelStatsPtr, classSumSquaresPtr))"

text \<open>
  \<^verbatim>\<open>ComputeVarianceVector\<close> is called with buffers that are allocated, so they are lists
  here; the variance vector overwrites the sums of squares (the caller passes the same
  buffer for both).
\<close>

definition ComputeVarianceVector ::
  "externals \<Rightarrow> ChannelStatistics list \<Rightarrow> real list \<Rightarrow> nat \<Rightarrow> int \<Rightarrow> int
     \<Rightarrow> ChannelStatistics list \<times> real list" where
  "ComputeVarianceVector ext channelStats sumSquaresAndVariance numberChannels numberPixels
       inputStatCode =
     (if 0 < numberChannels \<and> 0 < numberPixels
      then
        let channelStats' =
              (if standardDev (channelStats ! 0) < 0
               then ComputeMeanStdDevVector ext channelStats 0 sumSquaresAndVariance 0
                      numberChannels numberPixels inputStatCode
               else channelStats)
        in (channelStats',
            if 1 < numberPixels
            then foldl (\<lambda>variance channel.
                          variance[channel := standardDev (channelStats' ! channel)
                                              * standardDev (channelStats' ! channel)])
                   sumSquaresAndVariance [0..<numberChannels]
            else foldl (\<lambda>variance channel. variance[channel := 0])
                   sumSquaresAndVariance [0..<numberChannels])
      else (channelStats, sumSquaresAndVariance))"

subsection \<open>ReduceInputMatrix\<close>

text \<open>
  Modelled from the spec: \<^verbatim>\<open>ReduceInputMatrix\<close> is defined in a source file that is not at
  hand. The spec describes it as \<open>reduceToSubset(fullMatrix, numFeatures, featureList,
  squareOutput)\<close>: it projects the full channel-indexed matrix onto the caller's ordered list
  of channel indices, producing a smaller packed matrix in the requested shape, with the
  identity projection when there is no list. The full matrix is a packed lower triangle,
  entry \<open>(a, b)\<close>, \<open>b \<le> a\<close>, at \<open>a * (a + 1) / 2 + b\<close>. Entry \<open>(i, j)\<close>, \<open>j \<le> i\<close>, of the
  output receives the entry of the full matrix for the channels of \<open>i\<close> and \<open>j\<close>; the
  upper triangle of a square output is left to \<^verbatim>\<open>CopyLowerToUpperSquareMatrix\<close>, which the
  callers run next.
\<close>

definition feature_channel :: "nat list option \<Rightarrow> nat \<Rightarrow> nat" where
  "feature_channel featureListPtr k =
     (case featureListPtr of None \<Rightarrow> k | Some featureList \<Rightarrow> featureList ! k)"

definition packed_index :: "nat \<Rightarrow> nat \<Rightarrow> nat" where
  "packed_index a b = max a b * (max a b + 1) div 2 + min a b"

definition reduced_entries :: "nat \<Rightarrow> nat list option \<Rightarrow> real list \<Rightarrow> bool \<Rightarrow> (nat \<times> real) list" where
  "reduced_entries numberOutputChannels featureListPtr inputMatrix squareOutputMatrixFlag =
     map (\<lambda>(i, j). (lower_index squareOutputMatrixFlag numberOutputChannels i j,
                     inputMatrix ! packed_index (feature_channel featureListPtr i)
                                                (feature_channel featureListPtr j)))
       (filter (\<lambda>(i, j). j \<le> i)
          (List.product [0..<numberOutputChannels] [0..<numberOutputChannels]))"

definition ReduceInputMatrix ::
  "nat \<Rightarrow> real list \<Rightarrow> nat \<Rightarrow> nat list option \<Rightarrow> real list \<Rightarrow> bool \<Rightarrow> real list" where
  "ReduceInputMatrix numberOutputChannels outputMatrix numberInputChannels featureListPtr
       inputMatrix squareOutputMatrixFlag =
     foldl (\<lambda>matrix (position, entry). matrix[position := entry]) outputMatrix
       (reduced_entries numberOutputChannels featureListPtr inputMatrix
          squareOutputMatrixFlag)"

subsection \<open>GetClassCovarianceMatrix\<close>

text \<open>
  \<^verbatim>\<open>GetClassCovarianceMatrix\<close> is a \<^verbatim>\<open>void\<close> routine; it delivers the project state and
  the two buffers of the caller. \<open>None\<close> stands for a call that does not return: the walk
  over the fields does not end, or the common covariance is reduced through a pointer that
  was never set because the project has no common covariance buffer. The common covariance
  of the chosen channels is kept in the second half of that buffer, from entry
  \<^verbatim>\<open>numberCovarianceEntries\<close> on.

  The leave-one-out part of the routine, entered after \<^verbatim>\<open>ComputeCovarianceMatrix\<close> when
  the selection is \<^verbatim>\<open>kLeaveOneOutStats\<close>:
\<close>

definition GetClassCovarianceMatrix_loo ::
  "externals \<Rightarrow> ProjectInfo \<Rightarrow> nat \<Rightarrow> nat list option \<Rightarrow> nat \<Rightarrow> bool \<Rightarrow> real list
     \<Rightarrow> (ProjectInfo \<times> real list) option" where
  "GetClassCovarianceMatrix_loo ext p numberOutputChannels channelListPtr classStorage
       squareOutputMatrixFlag classCovariance =
     (let p1 = (if useCommonCovarianceInLOOCFlag p \<and> numberCommonCovarianceClasses p = 0
                then UpdateProjectLOOStats ext p else p)
      in case commonCovarianceStats p1 of
           None \<Rightarrow>
             if useCommonCovarianceInLOOCFlag p1 \<and> \<not> localCommonCovarianceLoadedFlag p1
             then None
             else Some (p1, classCovariance)
         | Some inputCommonCovariance \<Rightarrow>
             let reducedCommonCovariance =
                   (if useCommonCovarianceInLOOCFlag p1 \<and> \<not> localCommonCovarianceLoadedFlag p1
                    then take (numberCovarianceEntries p1) inputCommonCovariance
                         @ ReduceInputMatrix numberOutputChannels
                             (drop (numberCovarianceEntries p1) inputCommonCovariance)
                             (numberStatisticsChannels p1) channelListPtr
                             inputCommonCovariance False
                    else inputCommonCovariance);
                 p2 = (if useCommonCovarianceInLOOCFlag p1 \<and> \<not> localCommonCovarianceLoadedFlag p1
                       then p1\<lparr>localCommonCovarianceLoadedFlag := True,
                               commonCovarianceStats := Some reducedCommonCovariance\<rparr>
                       else p1);
                 c = classNamesPtr p2 ! classStorage
             in if \<not> useCommonCovarianceInLOOCFlag p2 \<or> 0 < numberCommonCovarianceClasses p2
                then Some (p2,
                       GetLOOCovariance ext (mixingParameterCode c) (looCovarianceValue c)
                         (userMixingParameter c) numberOutputChannels classCovariance
                         (drop (numberCovarianceEntries p2) reducedCommonCovariance)
                         classCovariance squareOutputMatrixFlag)
                else Some (p2, classCovariance))"

text \<open>
  The statistics of the class, up to the zero variance pass: the stored modified statistics
  when enhanced statistics are asked for and the class has them, and otherwise the
  statistics computed from the sums and sums of squares. The first component is
  \<^verbatim>\<open>continueFlag\<close>.
\<close>

definition GetClassCovarianceMatrix_compute ::
  "externals \<Rightarrow> ProjectInfo \<Rightarrow> nat \<Rightarrow> ChannelStatistics list \<Rightarrow> real list
     \<Rightarrow> nat list option \<Rightarrow> nat \<Rightarrow> bool \<Rightarrow> int \<Rightarrow> nat
     \<Rightarrow> (bool \<times> ProjectInfo \<times> ChannelStatistics list option \<times> real list option) option" where
  "GetClassCovarianceMatrix_compute ext p numberOutputChannels classChannelStats classCovariance
       channelListPtr statClassNumber squareOutputMatrixFlag outputStatisticsCode
       covarianceStatsToUse' =
     (let classStorage = storageClass p ! statClassNumber
      in if covarianceStatsToUse' = kEnhancedStats
            \<and> modifiedStatsFlag (classNamesPtr p ! classStorage)
         then
           (case GetClassChannelStatistics ext p numberOutputChannels
                   (Some classChannelStats) channelListPtr statClassNumber of
              None \<Rightarrow> None
            | Some (continueFlag, chanPtr) \<Rightarrow>
                let reduced = ReduceInputMatrix numberOutputChannels classCovariance
                                (numberStatisticsChannels p) channelListPtr
                                (drop (classStorage * numberCovarianceEntries p)
                                   (modifiedClassCovStatsPtr p))
                                squareOutputMatrixFlag
                in Some (continueFlag, p, chanPtr,
                         Some (if squareOutputMatrixFlag
                               then CopyLowerToUpperSquareMatrix numberOutputChannels reduced
                               else reduced)))
         else
           (case GetClassSumsSquares ext p numberOutputChannels (Some classChannelStats)
                   (Some classCovariance) channelListPtr statClassNumber
                   squareOutputMatrixFlag outputStatisticsCode of
              None \<Rightarrow> None
            | Some (continueFlag, Some chanStats, Some sumSquares) \<Rightarrow>
                if continueFlag
                then
                  (if outputStatisticsCode = kMeanCovariance
                   then
                     let covariance = ComputeCovarianceMatrix ext numberOutputChannels
                                        sumSquares numberOutputChannels None chanStats
                                        sumSquares
                                        (numberStatisticsPixels (classNamesPtr p ! classStorage))
                                        squareOutputMatrixFlag
                     in if covarianceStatsToUse' = kLeaveOneOutStats
                        then map_option
                               (\<lambda>r. (True, fst r, Some chanStats, Some (snd r)))
                               (GetClassCovarianceMatrix_loo ext p numberOutputChannels
                                  channelListPtr classStorage squareOutputMatrixFlag
                                  covariance)
                        else Some (True, p, Some chanStats, Some covariance)
                   else
                     (case ComputeVarianceVector ext chanStats sumSquares
                             numberOutputChannels
                             (numberStatisticsPixels (classNamesPtr p ! classStorage))
                             kMeanStdDevOnly of
                        (chanStats', variance) \<Rightarrow>
                          Some (True, p, Some chanStats', Some variance)))
                else Some (False, p, Some chanStats, Some sumSquares)
            | Some (continueFlag, chanPtr, covPtr) \<Rightarrow>
                Some (continueFlag, p, chanPtr, covPtr)))"

text \<open>
  The last statement of the routine: the zero variance pass, with the message for the class
  when a variance was reset. The value that \<^verbatim>\<open>ListClassInformationMessage\<close> returns is
  assigned to \<^verbatim>\<open>continueFlag\<close> and never read.
\<close>

definition GetClassCovarianceMatrix_finish ::
  "externals \<Rightarrow> nat \<Rightarrow> nat \<Rightarrow> bool \<Rightarrow> int
     \<Rightarrow> bool \<times> ProjectInfo \<times> ChannelStatistics list option \<times> real list option
     \<Rightarrow> ProjectInfo \<times> ChannelStatistics list option \<times> real list option" where
  "GetClassCovarianceMatrix_finish ext numberOutputChannels statClassNumber
       squareOutputMatrixFlag outputStatisticsCode r =
     (case r of (continueFlag, p, chanPtr, covPtr) \<Rightarrow>
        if continueFlag \<and> outputStatisticsCode = kMeanCovariance \<and> setZeroVarianceFlag p
        then (case ResetZeroVariances (zeroVarianceFactor p) covPtr squareOutputMatrixFlag
                     outputStatisticsCode numberOutputChannels of
                (varianceResetFlag, covPtr') \<Rightarrow>
                  (if varianceResetFlag
                   then ListClassInformationMessage ext statClassNumber p
                   else p,
                   chanPtr, covPtr'))
        else (p, chanPtr, covPtr))"

definition GetClassCovarianceMatrix ::
  "externals \<Rightarrow> ProjectInfo \<Rightarrow> nat \<Rightarrow> ChannelStatistics list option \<Rightarrow> real list option
     \<Rightarrow> nat list option \<Rightarrow> nat \<Rightarrow> bool \<Rightarrow> int \<Rightarrow> nat
     \<Rightarrow> (ProjectInfo \<times> ChannelStatistics list option \<times> real list option) option" where
  "GetClassCovarianceMatrix ext p numberOutputChannels classChannelStatsPtr classCovariancePtr
       channelListPtr statClassNumber squareOutputMatrixFlag outputStatisticsCode
       covarianceStatsToUse' =
     (case (classChannelStatsPtr, classCovariancePtr) of
        (Some classChannelStats, Some classCovariance) \<Rightarrow>
          if numberOutputChannels \<le> 0 then Some (p, classChannelStatsPtr, classCovariancePtr)
          else if statisticsCode p < outputStatisticsCode
          then Some (p, classChannelStatsPtr, classCovariancePtr)
          else map_option
                 (GetClassCovarianceMatrix_finish ext numberOutputChannels statClassNumber
                    squareOutputMatrixFlag outputStatisticsCode)
                 (GetClassCovarianceMatrix_compute ext p numberOutputChannels classChannelStats
                    classCovariance channelListPtr statClassNumber squareOutputMatrixFlag
                    outputStatisticsCode covarianceStatsToUse')
      | _ \<Rightarrow> Some (p, classChannelStatsPtr, classCovariancePtr))"

subsection \<open>GetCommonCovariance\<close>

text \<open>
  Modelled from the spec: \<^verbatim>\<open>ZeroMatrix\<close> is defined in a source file that is not at hand.
  The spec lists zero-initialization among the packed matrix utilities; the call
  \<^verbatim>\<open>ZeroMatrix (covariancePtr, n, n, squareOutputMatrixFlag)\<close> is taken to set to \<open>0\<close> the
  entries of the packed layout, \<open>n * n\<close> of them for a square matrix and the
  \<open>(n + 1) * n / 2\<close> entries of the lower triangle otherwise.
\<close>

definition ZeroMatrix :: "real list \<Rightarrow> nat \<Rightarrow> nat \<Rightarrow> bool \<Rightarrow> real list" where
  "ZeroMatrix matrix numberRows numberColumns squareFlag =
     foldl (\<lambda>m index. m[index := 0]) matrix
       [0..<(if squareFlag then numberRows * numberColumns
             else (numberColumns + 1) * numberRows div 2)]"

text \<open>
  The state of the loop over the classes: the project, the two matrices and the channel
  buffer of the caller (allocated, so the matrices are lists), the local count
  \<^verbatim>\<open>numberCommonCovarianceClasses\<close> and \<^verbatim>\<open>continueFlag\<close>. The count is a \<^verbatim>\<open>UInt32\<close> that
  is incremented at most \<^verbatim>\<open>numberClasses\<close> times, \<^verbatim>\<open>numberClasses\<close> being a \<^verbatim>\<open>UInt32\<close>
  itself, so it cannot wrap around; the cast to \<^verbatim>\<open>UInt16\<close> when it is stored is written
  out.
\<close>

record gcc_state =
  gcc_project :: ProjectInfo
  gcc_covariance :: "real list"
  gcc_tempMatrix :: "real list"
  gcc_classChannelStats :: "ChannelStatistics list option"
  gcc_numberClasses :: nat
  gcc_continueFlag :: bool

text \<open>
  The class of a pass: \<^verbatim>\<open>classPtr[classIndex] - 1\<close> stored into a \<^verbatim>\<open>UInt32\<close>, or the
  index itself without a class list. The weight of the pass is asked for the class number
  cast to \<^verbatim>\<open>UInt16\<close>.
\<close>

definition GetCommonCovariance_class :: "nat list option \<Rightarrow> nat \<Rightarrow> nat" where
  "GetCommonCovariance_class classPtr classIndex =
     (case classPtr of
        Some classList \<Rightarrow> (classList ! classIndex + 2 ^ 32 - 1) mod 2 ^ 32
      | None \<Rightarrow> classIndex)"

definition GetCommonCovariance_weight :: "externals \<Rightarrow> nat list option \<Rightarrow> nat \<Rightarrow> nat \<Rightarrow> real" where
  "GetCommonCovariance_weight ext classPtr numberClasses classIndex =
     GetClassWeightValue ext (GetCommonCovariance_class classPtr classIndex mod 65536)
       (GetCommonCovarianceWeightsIndex ext)
       (GetTotalProbability ext classPtr numberClasses (GetCommonCovarianceWeightsIndex ext))"

definition GetCommonCovariance_numberIndices :: "nat \<Rightarrow> bool \<Rightarrow> nat" where
  "GetCommonCovariance_numberIndices numberFeatureChannels squareOutputMatrixFlag =
     (if squareOutputMatrixFlag then numberFeatureChannels * numberFeatureChannels
      else (numberFeatureChannels + 1) * numberFeatureChannels div 2)"

text \<open>The inner loop \<^verbatim>\<open>*covariancePtr += weightValue * *tempMatrixPtr\<close>.\<close>

definition GetCommonCovariance_add :: "real \<Rightarrow> real list \<Rightarrow> nat \<Rightarrow> real list \<Rightarrow> real list" where
  "GetCommonCovariance_add weightValue tempMatrix numberIndices covariance =
     foldl (\<lambda>cov index. cov[index := cov ! index + weightValue * tempMatrix ! index])
       covariance [0..<numberIndices]"

text \<open>
  The estimator selection of a pass: the one stored in the class when the caller passes
  \<^verbatim>\<open>kMixedStats\<close>, and the caller's otherwise.
\<close>

definition GetCommonCovariance_statsToUse :: "ProjectInfo \<Rightarrow> nat \<Rightarrow> nat \<Rightarrow> nat" where
  "GetCommonCovariance_statsToUse p inputCovarianceStatsToUse statClassNumber =
     (if inputCovarianceStatsToUse = kMixedStats
      then covarianceStatsToUse (classNamesPtr p ! (storageClass p ! statClassNumber))
      else inputCovarianceStatsToUse)"

text \<open>
  One pass of the loop over the classes. A class whose weight is not positive leaves the
  state as it is. The cancel flag is read after the matrix of the class has been added.
\<close>

definition GetCommonCovariance_step ::
  "externals \<Rightarrow> nat list option \<Rightarrow> nat list option \<Rightarrow> nat \<Rightarrow> nat \<Rightarrow> bool \<Rightarrow> int \<Rightarrow> nat
     \<Rightarrow> gcc_state \<Rightarrow> nat \<Rightarrow> gcc_state option" where
  "GetCommonCovariance_step ext classPtr statFeaturePtr numberClasses numberFeatureChannels
       squareOutputMatrixFlag outputStatisticsCode inputCovarianceStatsToUse s classIndex =
     (if 0 < GetCommonCovariance_weight ext classPtr numberClasses classIndex
      then
        (case GetClassCovarianceMatrix ext (gcc_project s) numberFeatureChannels
                (gcc_classChannelStats s) (Some (gcc_tempMatrix s)) statFeaturePtr
                (GetCommonCovariance_class classPtr classIndex mod 65536)
                squareOutputMatrixFlag outputStatisticsCode
                (GetCommonCovariance_statsToUse (gcc_project s) inputCovarianceStatsToUse
                   (GetCommonCovariance_class classPtr classIndex)) of
           Some (p, classChannelStatsPtr, Some tempMatrix) \<Rightarrow>
             Some \<lparr>gcc_project = p,
                   gcc_covariance =
                     GetCommonCovariance_add
                       (GetCommonCovariance_weight ext classPtr numberClasses classIndex)
                       tempMatrix
                       (GetCommonCovariance_numberIndices numberFeatureChannels
                          squareOutputMatrixFlag)
                       (gcc_covariance s),
                   gcc_tempMatrix = tempMatrix,
                   gcc_classChannelStats = classChannelStatsPtr,
                   gcc_numberClasses = gcc_numberClasses s + 1,
                   gcc_continueFlag = \<not> gOperationCanceledFlag p\<rparr>
         | _ \<Rightarrow> None)
      else Some s)"

function GetCommonCovariance_loop ::
  "externals \<Rightarrow> nat list option \<Rightarrow> nat list option \<Rightarrow> nat \<Rightarrow> nat \<Rightarrow> bool \<Rightarrow> int \<Rightarrow> nat
     \<Rightarrow> nat \<Rightarrow> gcc_state \<Rightarrow> gcc_state option" where
  "GetCommonCovariance_loop ext classPtr statFeaturePtr numberClasses numberFeatureChannels
       squareOutputMatrixFlag outputStatisticsCode inputCovarianceStatsToUse classIndex s =
     (if classIndex < numberClasses
      then (case GetCommonCovariance_step ext classPtr statFeaturePtr numberClasses
                   numberFeatureChannels squareOutputMatrixFlag outputStatisticsCode
                   inputCovarianceStatsToUse s classIndex of
              None \<Rightarrow> None
            | Some s' \<Rightarrow>
                if gcc_continueFlag s'
                then GetCommonCovariance_loop ext classPtr statFeaturePtr numberClasses
                       numberFeatureChannels squareOutputMatrixFlag outputStatisticsCode
                       inputCovarianceStatsToUse (classIndex + 1) s'
                else Some s')
      else Some s)"
  by pat_completeness auto
termination
  by (relation "measure (\<lambda>(ext, classPtr, statFeaturePtr, numberClasses, numberFeatureChannels,
        squareOutputMatrixFlag, outputStatisticsCode, inputCovarianceStatsToUse, classIndex, s).
        numberClasses - classIndex)") auto

declare GetCommonCovariance_loop.simps [simp del]

text \<open>The state in which the loop is entered.\<close>

definition GetCommonCovariance_init ::
  "ProjectInfo \<Rightarrow> real list \<Rightarrow> real list \<Rightarrow> ChannelStatistics list option \<Rightarrow> nat \<Rightarrow> bool
     \<Rightarrow> gcc_state" where
  "GetCommonCovariance_init p covariance tempMatrix classChannelStatsPtr numberFeatureChannels
       squareOutputMatrixFlag =
     \<lparr>gcc_project = p,
      gcc_covariance = ZeroMatrix covariance numberFeatureChannels numberFeatureChannels
                         squareOutputMatrixFlag,
      gcc_tempMatrix = tempMatrix,
      gcc_classChannelStats = classChannelStatsPtr,
      gcc_numberClasses = 0,
      gcc_continueFlag = True\<rparr>"

text \<open>
  \<^verbatim>\<open>GetCommonCovariance\<close> returns \<^verbatim>\<open>continueFlag\<close>, with the project and the buffers it
  leaves behind.
\<close>

definition GetCommonCovariance ::
  "externals \<Rightarrow> ProjectInfo \<Rightarrow> real list \<Rightarrow> real list \<Rightarrow> ChannelStatistics list option
     \<Rightarrow> nat list option \<Rightarrow> nat list option \<Rightarrow> nat \<Rightarrow> nat \<Rightarrow> bool \<Rightarrow> int \<Rightarrow> nat \<Rightarrow> bool
     \<Rightarrow> (bool \<times> ProjectInfo \<times> real list \<times> real list \<times> ChannelStatistics list option) option" where
  "GetCommonCovariance ext p covariance tempMatrix classChannelStatsPtr classPtr statFeaturePtr
       numberClasses numberFeatureChannels squareOutputMatrixFlag outputStatisticsCode
       inputCovarianceStatsToUse projectCommonCovarianceFlag =
     (case GetCommonCovariance_loop ext classPtr statFeaturePtr numberClasses
             numberFeatureChannels squareOutputMatrixFlag outputStatisticsCode
             inputCovarianceStatsToUse 0
             (GetCommonCovariance_init p covariance tempMatrix classChannelStatsPtr
                numberFeatureChannels squareOutputMatrixFlag) of
        None \<Rightarrow> None
      | Some s \<Rightarrow>
          Some (gcc_continueFlag s,
                if gcc_continueFlag s \<and> projectCommonCovarianceFlag
                then (gcc_project s)\<lparr>numberCommonCovarianceClasses :=
                                       gcc_numberClasses s mod 65536\<rparr>
                else gcc_project s,
                gcc_covariance s, gcc_tempMatrix s, gcc_classChannelStats s))"

text \<open>
  The state after the first \<open>k\<close> passes of the loop, for the statements about single
  passes: once \<^verbatim>\<open>continueFlag\<close> is false the loop has been left and the state stays.
\<close>

primrec GetCommonCovariance_passes ::
  "externals \<Rightarrow> nat list option \<Rightarrow> nat list option \<Rightarrow> nat \<Rightarrow> nat \<Rightarrow> bool \<Rightarrow> int \<Rightarrow> nat
     \<Rightarrow> gcc_state \<Rightarrow> nat \<Rightarrow> gcc_state option" where
  "GetCommonCovariance_passes ext classPtr statFeaturePtr numberClasses numberFeatureChannels
       squareOutputMatrixFlag outputStatisticsCode inputCovarianceStatsToUse s0 0 = Some s0"
| "GetCommonCovariance_passes ext classPtr statFeaturePtr numberClasses numberFeatureChannels
       squareOutputMatrixFlag outputStatisticsCode inputCovarianceStatsToUse s0 (Suc k) =
     (case GetCommonCovariance_passes ext classPtr statFeaturePtr numberClasses
             numberFeatureChannels squareOutputMatrixFlag outputStatisticsCode
             inputCovarianceStatsToUse s0 k of
        None \<Rightarrow> None
      | Some s \<Rightarrow>
          if gcc_continueFlag s
          then GetCommonCovariance_step ext classPtr statFeaturePtr numberClasses
                 numberFeatureChannels squareOutputMatrixFlag outputStatisticsCode
                 inputCovarianceStatsToUse s k
          else Some s)"

text \<open>
  The conditions under which the accessors return for class \<open>classNumber\<close>: the fields of
  the class form a chain that ends (or only class statistics are kept, and no chain is
  walked), and a project that uses the common covariance in the leave-one-out estimate has
  the buffer for it.
\<close>

definition accessor_returns :: "ProjectInfo \<Rightarrow> nat \<Rightarrow> bool" where
  "accessor_returns p classNumber \<longleftrightarrow>
     (keepClassStatsOnlyFlag p
      \<or> (\<exists>chain. field_chain (fieldIdentPtr p)
                    (firstFieldNumber (classNamesPtr p ! (storageClass p ! classNumber)))
                    chain))
     \<and> (useCommonCovarianceInLOOCFlag p \<longrightarrow> commonCovarianceStats p \<noteq> None)"

text \<open>
  The same for all the classes of a call of \<^verbatim>\<open>GetCommonCovariance\<close>, and a property of
  the project that the two routines working on the project, \<^verbatim>\<open>UpdateProjectLOOStats\<close> and
  \<^verbatim>\<open>ListClassInformationMessage\<close>, keep.
\<close>

definition classes_return :: "nat list option \<Rightarrow> nat \<Rightarrow> ProjectInfo \<Rightarrow> bool" where
  "classes_return classPtr numberClasses p \<longleftrightarrow>
     (\<forall>i<numberClasses.
        accessor_returns p (GetCommonCovariance_class classPtr i mod 65536))"

definition externals_keep :: "externals \<Rightarrow> (ProjectInfo \<Rightarrow> bool) \<Rightarrow> bool" where
  "externals_keep ext property \<longleftrightarrow>
     (\<forall>p. property p \<longrightarrow> property (UpdateProjectLOOStats ext p))
     \<and> (\<forall>p classNumber. property p \<longrightarrow> property (ListClassInformationMessage ext classNumber p))"

text \<open>
  Stand-ins for the routines that are parameters, for the concrete evaluations: the mean of
  a channel is its sum divided by the number of pixels, a mean vector is read off the channel
  records, the statistics of a class are added to zeroed buffers entry by entry and taken
  over as they are, the class weights are
  \<open>weights ! k\<close> over their total, and listing the message for class \<open>cancelClass\<close> is the
  moment at which the user cancels.
\<close>

definition example_externals :: "real list \<Rightarrow> nat \<Rightarrow> externals" where
  "example_externals weights cancelClass =
     \<lparr>ComputeMeanStdDevVector = no_mean_stddev,
      ComputeMeanVector =
        (\<lambda>chanStats n pixels. map (\<lambda>c. c\<lparr>mean := sum_stat c / real_of_int pixels\<rparr>) chanStats),
      ReduceMeanVector =
        (\<lambda>chanStats outputMean n featureListPtr.
           map mean (take n chanStats) @ drop n outputMean),
      ZeroStatisticsMemory =
        (\<lambda>chanStats sumSquares n code squareFlag.
           (map (\<lambda>c. chan 0 0 (- 1) 0 0) chanStats, map (\<lambda>x. 0) sumSquares)),
      AddToClassStatistics =
        (\<lambda>n chanStats sumSquares numberInputChannels featureListPtr inputChanStats
            inputSumSquares squareFlag inputCode outputCode.
           (AddToClassChannelStatistics n chanStats numberInputChannels featureListPtr
              inputChanStats False,
            map (\<lambda>(x, y). x + y) (zip sumSquares inputSumSquares))),
      ComputeCovarianceMatrix =
        (\<lambda>n outputMatrix numberInputChannels featureListPtr chanStats sumSquares pixels
            squareFlag. sumSquares),
      GetLOOCovariance =
        (\<lambda>code looValue userValue n classCovariance commonCovariance outputMatrix squareFlag.
           classCovariance),
      UpdateProjectLOOStats = (\<lambda>p. p),
      ListClassInformationMessage =
        (\<lambda>classNumber p. if classNumber = cancelClass
                          then p\<lparr>gOperationCanceledFlag := True\<rparr> else p),
      GetCommonCovarianceWeightsIndex = 0,
      GetTotalProbability = (\<lambda>classPtr numberClasses weightsIndex. sum_list weights),
      GetClassWeightValue =
        (\<lambda>classNumber weightsIndex totalProbability. weights ! classNumber / totalProbability)\<rparr>"

text \<open>
  A project of three classes with one channel that keeps class statistics only. Every class
  has enhanced statistics; the stored variance of the second class is \<open>0\<close>, and the zero
  variance pass is switched on.
\<close>

definition example_enhanced_project :: ProjectInfo where
  "example_enhanced_project =
     (example_project [example_class kEnhancedStats True, example_class kEnhancedStats True,
                       example_class kEnhancedStats True] [])
       \<lparr>keepClassStatsOnlyFlag := True, numberCommonCovarianceClasses := 7,
        setZeroVarianceFlag := True, zeroVarianceFactor := 1 / 100,
        modifiedClassChanStatsPtr := [chan 1 10 0 0 2, chan 2 20 0 1 3, chan 3 30 0 2 4],
        modifiedClassCovStatsPtr := [2, 0, 4]\<rparr>"

text \<open>The record of a class.\<close>

definition class_record :: "ProjectInfo \<Rightarrow> nat \<Rightarrow> ClassNames" where
  "class_record p classNumber = classNamesPtr p ! (storageClass p ! classNumber)"

text \<open>
  A project that keeps class statistics only, with one class that asks for enhanced
  statistics and has none; and a project whose only class has no training field.
\<close>

definition example_fallback_project :: ProjectInfo where
  "example_fallback_project =
     (example_project [example_class kEnhancedStats False] [])
       \<lparr>keepClassStatsOnlyFlag := True, classChanStatsPtr := [chan 0 50 0 1 9],
        classSumSquaresStatsPtr := [300]\<rparr>"

definition example_empty_class_project :: ProjectInfo where
  "example_empty_class_project =
     example_project [(example_class kOriginalStats False)\<lparr>numberOfTrainFields := 0\<rparr>] []"

subsection \<open>Auxiliary notions for the statements\<close>




text \<open>
  The class accumulator after the fields of a chain have been merged into it, one after the
  other: a training field whose statistics are up to date is merged, the first one with
  \<^verbatim>\<open>initializeFlag\<close> true; any other field is passed over.
\<close>

definition field_is_merged :: "FieldIdentifiers list \<Rightarrow> nat \<Rightarrow> bool" where
  "field_is_merged fieldList k \<longleftrightarrow>
     fieldType (fieldList ! k) = kTrainingType \<and> field_statsUpToDate (fieldList ! k)"

definition merged_field_channels ::
  "FieldIdentifiers list \<Rightarrow> ChannelStatistics list \<Rightarrow> nat \<Rightarrow> nat \<Rightarrow> nat list option \<Rightarrow> nat list
     \<Rightarrow> cfcs_state \<Rightarrow> cfcs_state" where
  "merged_field_channels fieldList fieldChanStats numberInputChannels numberOutputChannels
       channelListPtr chain st =
     foldl (\<lambda>st k. if field_is_merged fieldList k
                    then (False,
                          AddToClassChannelStatistics numberOutputChannels (snd st)
                            numberInputChannels channelListPtr
                            (drop (trainingStatsNumber (fieldList ! k) * numberInputChannels)
                               fieldChanStats)
                            (fst st))
                    else st)
       st chain"

definition merged_field_statistics ::
  "externals \<Rightarrow> ProjectInfo \<Rightarrow> nat \<Rightarrow> nat list option \<Rightarrow> bool \<Rightarrow> int \<Rightarrow> nat list
     \<Rightarrow> stats_buffers \<Rightarrow> stats_buffers" where
  "merged_field_statistics ext p numberOutputChannels channelListPtr squareOutputMatrixFlag
       outputStatisticsCode chain bufs =
     foldl (\<lambda>bufs k. if field_is_merged (fieldIdentPtr p) k
                      then AddToClassStatistics ext numberOutputChannels (fst bufs) (snd bufs)
                             (numberStatisticsChannels p) channelListPtr
                             (drop (trainingStatsNumber (fieldIdentPtr p ! k)
                                      * numberStatisticsChannels p) (fieldChanStatsPtr p))
                             (drop (trainingStatsNumber (fieldIdentPtr p ! k)
                                      * numberCovarianceEntries p) (fieldSumSquaresStatsPtr p))
                             squareOutputMatrixFlag (statisticsCode p) outputStatisticsCode
                      else bufs)
       bufs chain"

text \<open>
  The stored modified covariance of a class as the enhanced branch of
  \<^verbatim>\<open>GetClassCovarianceMatrix\<close> leaves it in the caller's buffer.
\<close>

definition modified_covariance ::
  "ProjectInfo \<Rightarrow> nat \<Rightarrow> nat \<Rightarrow> nat list option \<Rightarrow> real list \<Rightarrow> bool \<Rightarrow> real list" where
  "modified_covariance p classNumber numberOutputChannels channelListPtr classCovariance
       squareOutputMatrixFlag =
     (if squareOutputMatrixFlag
      then CopyLowerToUpperSquareMatrix numberOutputChannels
             (ReduceInputMatrix numberOutputChannels classCovariance
                (numberStatisticsChannels p) channelListPtr
                (drop (storageClass p ! classNumber * numberCovarianceEntries p)
                   (modifiedClassCovStatsPtr p))
                squareOutputMatrixFlag)
      else ReduceInputMatrix numberOutputChannels classCovariance
             (numberStatisticsChannels p) channelListPtr
             (drop (storageClass p ! classNumber * numberCovarianceEntries p)
                (modifiedClassCovStatsPtr p))
             squareOutputMatrixFlag)"

text \<open>
  Further stand-ins and projects for the concrete evaluations. In
  \<open>example_loo_externals\<close> the routine \<^verbatim>\<open>UpdateProjectLOOStats\<close> stores a class count in
  the project: \<^verbatim>\<open>GetClassCovarianceMatrix\<close> calls it when
  \<^verbatim>\<open>numberCommonCovarianceClasses\<close> is \<open>0\<close> and tests the counter for \<open>> 0\<close> right after.
  \<open>example_loo_project\<close> keeps class statistics only and uses the common covariance in the
  leave-one-out estimate; the sum of squares of its second class is \<open>0\<close>.
  \<open>example_mismatch_project\<close> has one class that stores the selection Original and has
  enhanced statistics. \<open>example_field_project\<close> has three channels and keeps the statistics
  of the fields: its first class has enhanced statistics, its second class has none and owns
  the training fields \<open>0\<close> and \<open>2\<close>, with the test field \<open>1\<close> between them in the chain.
  \<open>example_no_pixel_project\<close> keeps class statistics only and its class has no pixel.
  The class of \<open>example_empty_enhanced_project\<close> has enhanced statistics and no training
  field.
\<close>

definition example_loo_externals :: "real list \<Rightarrow> nat \<Rightarrow> externals" where
  "example_loo_externals weights cancelClass =
     (example_externals weights cancelClass)
       \<lparr>UpdateProjectLOOStats :=
          (\<lambda>p. p\<lparr>numberCommonCovarianceClasses := numberStatisticsClasses p\<rparr>)\<rparr>"

definition example_loo_project :: ProjectInfo where
  "example_loo_project =
     (example_project [example_class kOriginalStats False, example_class kOriginalStats False,
                       example_class kOriginalStats False] [])
       \<lparr>keepClassStatsOnlyFlag := True, setZeroVarianceFlag := True,
        zeroVarianceFactor := 1 / 100, useCommonCovarianceInLOOCFlag := True,
        classChanStatsPtr := [chan 0 10 0 0 2, chan 0 20 0 1 3, chan 0 30 0 2 4],
        classSumSquaresStatsPtr := [2, 0, 4], commonCovarianceStats := Some [1, 0]\<rparr>"

definition example_mismatch_project :: ProjectInfo where
  "example_mismatch_project =
     (example_project [example_class kOriginalStats True] [])
       \<lparr>keepClassStatsOnlyFlag := True, classChanStatsPtr := [chan 0 50 0 1 9],
        classSumSquaresStatsPtr := [300], modifiedClassChanStatsPtr := [chan 7 70 0 2 8],
        modifiedClassCovStatsPtr := [4]\<rparr>"

definition example_field_project :: ProjectInfo where
  "example_field_project =
     (example_project
        [example_class kEnhancedStats True,
         (example_class kEnhancedStats False)
           \<lparr>numberOfTrainFields := 2, numberStatisticsPixels := 15, firstFieldNumber := 0\<rparr>]
        [example_field kTrainingType 1 True,
         example_field 2 2 True,
         (example_field kTrainingType (- 1) True)\<lparr>trainingStatsNumber := 1\<rparr>])
       \<lparr>numberStatisticsChannels := 3, numberCovarianceEntries := 6,
        fieldChanStatsPtr := [chan 0 10 0 1 4, chan 0 20 0 2 5, chan 0 30 0 3 6,
                              chan 0 5 0 0 7, chan 0 15 0 1 8, chan 0 25 0 2 9],
        fieldSumSquaresStatsPtr := [1, 2, 3, 4, 5, 6, 10, 20, 30, 40, 50, 60],
        modifiedClassChanStatsPtr := [chan 1 10 1 0 2, chan 2 20 1 1 3, chan 3 30 1 2 4,
                                      chan 0 0 0 0 0, chan 0 0 0 0 0, chan 0 0 0 0 0],
        modifiedClassCovStatsPtr := [1, 2, 3, 4, 5, 6, 0, 0, 0, 0, 0, 0]\<rparr>"

definition example_no_pixel_project :: ProjectInfo where
  "example_no_pixel_project =
     (example_project [(example_class kOriginalStats False)\<lparr>numberStatisticsPixels := 0\<rparr>] [])
       \<lparr>keepClassStatsOnlyFlag := True, classChanStatsPtr := [chan 0 50 0 1 9],
        classSumSquaresStatsPtr := [300]\<rparr>"

definition example_empty_enhanced_project :: ProjectInfo where
  "example_empty_enhanced_project =
     (example_project [(example_class kEnhancedStats True)\<lparr>numberOfTrainFields := 0\<rparr>] [])
       \<lparr>modifiedClassCovStatsPtr := [2]\<rparr>"


section \<open>Numerical conditioning: zero variances\<close>

lemma tri_Suc: "Suc i * (Suc i + 1) div 2 = i * (i + 1) div 2 + i + 1"
proof -
  have "Suc i * (Suc i + 1) = i * (i + 1) + 2 * (i + 1)" by simp
  then have "Suc i * (Suc i + 1) div 2 = (i * (i + 1) + 2 * (i + 1)) div 2" by simp
  also have "\<dots> = i * (i + 1) div 2 + (i + 1)" by simp
  finally show ?thesis by simp
qed

lemma tri_mono: "i \<le> j \<Longrightarrow> i * (i + 1) div 2 \<le> j * (j + 1) div (2::nat)"
  by (intro div_le_mono mult_le_mono) simp_all

lemma variance_index_Suc:
  "variance_index sq code n (Suc i) =
     (if code = kMeanStdDevOnly then variance_index sq code n i + 1
      else variance_index sq code n i + (if sq then n + 1 else i + 2))"
  using tri_Suc [of i] by (simp add: variance_index_def)

lemma variance_index_strict_mono:
  "i < j \<Longrightarrow> variance_index sq code n i < variance_index sq code n j"
proof -
  assume ij: "i < j"
  then have "i * n \<le> j * n" by simp
  moreover have "i * (i + 1) div 2 \<le> j * (j + 1) div 2" by (rule tri_mono) (use ij in simp)
  ultimately have "i * n + i < j * n + j" "i * (i + 1) div 2 + i < j * (j + 1) div 2 + j"
    using ij by linarith+
  then show ?thesis using ij
    by (auto simp only: variance_index_def split: if_split)
qed

lemma variance_index_inj:
  "variance_index sq code n i = variance_index sq code n j \<longleftrightarrow> i = j"
  using variance_index_strict_mono [of i j sq code n] variance_index_strict_mono [of j i sq code n]
  by (cases i j rule: linorder_cases) auto

lemma variance_index_bound:
  assumes "i < n"
  shows "variance_index sq code n i < matrix_entries sq code n"
proof -
  have "Suc i \<le> n" using assms by simp
  then have a: "Suc i * (Suc i + 1) div 2 \<le> n * (n + 1) div 2" by (rule tri_mono)
  have b: "i * n + i < n * n"
  proof -
    have "i * n + i < i * n + n" using assms by simp
    also have "\<dots> = Suc i * n" by simp
    also have "\<dots> \<le> n * n" using \<open>Suc i \<le> n\<close> by (intro mult_le_mono) simp_all
    finally show ?thesis .
  qed
  show ?thesis using a b assms tri_Suc [of i]
    by (simp add: variance_index_def matrix_entries_def)
qed

lemma range_insert: "f < n \<Longrightarrow> {f..<n} = insert f {Suc f..<n}"
  by auto

lemma rzv_loop_char:
  assumes "f \<le> n"
    and "matrix_entries sq code n \<le> length cov"
  shows "ResetZeroVariances_loop zvf sq code n f
           (variance_index sq code n f,
            if sq then n + 1 else if code = kMeanStdDevOnly then 2 else f + 2, cov, flag) =
         (variance_index sq code n n,
          if sq then n + 1 else if code = kMeanStdDevOnly then 2 else n + 2,
          map (\<lambda>p. if p \<in> variance_index sq code n ` {f..<n} \<and> cov ! p = 0
                    then zvf else cov ! p) [0..<length cov],
          flag \<or> (\<exists>k\<in>{f..<n}. cov ! variance_index sq code n k = 0))"
  using assms
proof (induction "n - f" arbitrary: f cov flag)
  case 0
  then have "f = n" by simp
  then show ?case
    by (simp add: ResetZeroVariances_loop.simps [of _ _ _ n n] map_nth)
next
  case (Suc d)
  then have fn: "f < n" and d: "d = n - Suc f" by simp_all
  let ?vi = "variance_index sq code n"
  let ?p = "?vi f"
  let ?cov1 = "if cov ! ?p = 0 then cov[?p := zvf] else cov"
  let ?flag1 = "if cov ! ?p = 0 then True else flag"
  have pl: "?p < length cov"
    using variance_index_bound [OF fn, of sq code] Suc.prems(2) by simp
  have step: "ResetZeroVariances_step zvf sq code
        (?p, if sq then n + 1 else if code = kMeanStdDevOnly then 2 else f + 2, cov, flag) =
      (?vi (Suc f), if sq then n + 1 else if code = kMeanStdDevOnly then 2 else Suc f + 2,
       ?cov1, ?flag1)"
    by (simp add: ResetZeroVariances_step_def variance_index_Suc)
  have len1: "matrix_entries sq code n \<le> length ?cov1" using Suc.prems(2) by simp
  have IH: "ResetZeroVariances_loop zvf sq code n (Suc f)
           (?vi (Suc f), if sq then n + 1 else if code = kMeanStdDevOnly then 2 else Suc f + 2,
            ?cov1, ?flag1) =
         (?vi n, if sq then n + 1 else if code = kMeanStdDevOnly then 2 else n + 2,
          map (\<lambda>p. if p \<in> ?vi ` {Suc f..<n} \<and> ?cov1 ! p = 0
                    then zvf else ?cov1 ! p) [0..<length ?cov1],
          ?flag1 \<or> (\<exists>k\<in>{Suc f..<n}. ?cov1 ! ?vi k = 0))"
    using Suc.hyps(1) [OF d _ len1, of ?flag1] fn by simp
  have notin: "?p \<notin> ?vi ` {Suc f..<n}"
    by (auto simp: variance_index_inj)
  have later: "\<And>q. q \<in> ?vi ` {Suc f..<n} \<Longrightarrow> ?cov1 ! q = cov ! q"
  proof -
    fix q assume "q \<in> ?vi ` {Suc f..<n}"
    then have "q \<noteq> ?p" using notin by blast
    then show "?cov1 ! q = cov ! q" by simp
  qed
  have flags: "(?flag1 \<or> (\<exists>k\<in>{Suc f..<n}. ?cov1 ! ?vi k = 0)) =
               (flag \<or> (\<exists>k\<in>{f..<n}. cov ! ?vi k = 0))"
    using later by (auto simp: range_insert [OF fn])
  have maps: "map (\<lambda>p. if p \<in> ?vi ` {Suc f..<n} \<and> ?cov1 ! p = 0
                    then zvf else ?cov1 ! p) [0..<length ?cov1] =
              map (\<lambda>p. if p \<in> ?vi ` {f..<n} \<and> cov ! p = 0
                    then zvf else cov ! p) [0..<length cov]"
  proof (rule nth_equalityI)
    show "length (map (\<lambda>p. if p \<in> ?vi ` {Suc f..<n} \<and> ?cov1 ! p = 0
                    then zvf else ?cov1 ! p) [0..<length ?cov1]) =
          length (map (\<lambda>p. if p \<in> ?vi ` {f..<n} \<and> cov ! p = 0
                    then zvf else cov ! p) [0..<length cov])" by simp
  next
    fix p
    assume "p < length (map (\<lambda>p. if p \<in> ?vi ` {Suc f..<n} \<and> ?cov1 ! p = 0
                    then zvf else ?cov1 ! p) [0..<length ?cov1])"
    then have p: "p < length cov" by (simp split: if_splits)
    show "map (\<lambda>p. if p \<in> ?vi ` {Suc f..<n} \<and> ?cov1 ! p = 0
                    then zvf else ?cov1 ! p) [0..<length ?cov1] ! p =
          map (\<lambda>p. if p \<in> ?vi ` {f..<n} \<and> cov ! p = 0
                    then zvf else cov ! p) [0..<length cov] ! p"
    proof (cases "p = ?p")
      case True
      then show ?thesis using p notin by (simp add: range_insert [OF fn] del: upt_Suc)
    next
      case False
      then have "?cov1 ! p = cov ! p" by simp
      then show ?thesis using p False by (simp add: range_insert [OF fn] del: upt_Suc)
    qed
  qed
  show ?case
    using fn step IH flags maps
    by (simp add: ResetZeroVariances_loop.simps [of _ _ _ n f])
qed


lemma ResetZeroVariances_eq:
  assumes "matrix_entries sq code n \<le> length cov"
  shows "ResetZeroVariances zvf (Some cov) sq code n =
           (\<exists>k\<in>{0..<n}. cov ! variance_index sq code n k = 0,
            Some (map (\<lambda>p. if p \<in> variance_index sq code n ` {0..<n} \<and> cov ! p = 0
                            then zvf else cov ! p) [0..<length cov]))"
proof (cases "n = 0")
  case True
  then show ?thesis by (simp add: ResetZeroVariances_def map_nth)
next
  case False
  have v0: "variance_index sq code n 0 = 0" by (simp add: variance_index_def)
  have init: "(if sq then n + 1 else if code = kMeanStdDevOnly then 2 else 0 + 2) =
              (if sq then n + 1 else 2)" by simp
  have loop: "ResetZeroVariances_loop zvf sq code n 0 (0, if sq then n + 1 else 2, cov, False) =
         (variance_index sq code n n,
          if sq then n + 1 else if code = kMeanStdDevOnly then 2 else n + 2,
          map (\<lambda>p. if p \<in> variance_index sq code n ` {0..<n} \<and> cov ! p = 0
                    then zvf else cov ! p) [0..<length cov],
          \<exists>k\<in>{0..<n}. cov ! variance_index sq code n k = 0)"
    using rzv_loop_char [OF _ assms, of 0 zvf False] unfolding init v0 by simp
  show ?thesis
    unfolding ResetZeroVariances_def using False by (simp only: loop option.case if_False prod.case)
qed

text \<open>
  Claim C5. For a matrix in any of the layouts, \<open>ResetZeroVariances\<close> returns true exactly
  when some variance entry is \<open>0\<close>; it replaces every variance entry that is \<open>0\<close> by
  \<open>zeroVarianceFactor\<close> and leaves every other entry (variance or not) and the length of the
  matrix as they were; and a second pass over its result changes nothing.
\<close>

theorem ResetZeroVariances_diagonal:
  assumes "matrix_entries sq code n \<le> length cov"
  shows "fst (ResetZeroVariances zvf (Some cov) sq code n) =
           (\<exists>i<n. cov ! variance_index sq code n i = 0)
       \<and> (\<exists>cov'. snd (ResetZeroVariances zvf (Some cov) sq code n) = Some cov'
             \<and> length cov' = length cov
             \<and> (\<forall>i<n. cov' ! variance_index sq code n i =
                    (if cov ! variance_index sq code n i = 0 then zvf
                     else cov ! variance_index sq code n i))
             \<and> (\<forall>p<length cov. (\<forall>i<n. p \<noteq> variance_index sq code n i) \<longrightarrow> cov' ! p = cov ! p))
       \<and> snd (ResetZeroVariances zvf (snd (ResetZeroVariances zvf (Some cov) sq code n)) sq code n)
           = snd (ResetZeroVariances zvf (Some cov) sq code n)"
proof -
  let ?vi = "variance_index sq code n"
  let ?cov' = "map (\<lambda>p. if p \<in> ?vi ` {0..<n} \<and> cov ! p = 0 then zvf else cov ! p)
                 [0..<length cov]"
  have r1: "ResetZeroVariances zvf (Some cov) sq code n =
              (\<exists>k\<in>{0..<n}. cov ! ?vi k = 0, Some ?cov')"
    by (rule ResetZeroVariances_eq [OF assms])
  have len: "length ?cov' = length cov" by simp
  have nth: "\<And>p. p < length cov \<Longrightarrow>
             ?cov' ! p = (if p \<in> ?vi ` {0..<n} \<and> cov ! p = 0 then zvf else cov ! p)"
    by (simp del: upt_Suc)
  have dl: "\<And>i. i < n \<Longrightarrow> ?vi i < length cov"
    using variance_index_bound [of _ n sq code] assms by fastforce
  have a: "(\<exists>k\<in>{0..<n}. cov ! ?vi k = 0) = (\<exists>i<n. cov ! ?vi i = 0)" by auto
  have b: "\<forall>i<n. ?cov' ! ?vi i = (if cov ! ?vi i = 0 then zvf else cov ! ?vi i)"
    using dl by (auto simp: nth simp del: upt_Suc map_eq_conv)
  have c: "\<forall>p<length cov. (\<forall>i<n. p \<noteq> ?vi i) \<longrightarrow> ?cov' ! p = cov ! p"
    by (auto simp: nth simp del: upt_Suc map_eq_conv)
  have r2: "ResetZeroVariances zvf (Some ?cov') sq code n =
              (\<exists>k\<in>{0..<n}. ?cov' ! ?vi k = 0,
               Some (map (\<lambda>p. if p \<in> ?vi ` {0..<n} \<and> ?cov' ! p = 0 then zvf else ?cov' ! p)
                      [0..<length ?cov']))"
    by (rule ResetZeroVariances_eq) (use assms in simp)
  have d: "map (\<lambda>p. if p \<in> ?vi ` {0..<n} \<and> ?cov' ! p = 0 then zvf else ?cov' ! p)
             [0..<length ?cov'] = ?cov'"
  proof (rule nth_equalityI)
    show "length (map (\<lambda>p. if p \<in> ?vi ` {0..<n} \<and> ?cov' ! p = 0 then zvf else ?cov' ! p)
             [0..<length ?cov']) = length ?cov'" by simp
  next
    fix p
    assume "p < length (map (\<lambda>p. if p \<in> ?vi ` {0..<n} \<and> ?cov' ! p = 0 then zvf else ?cov' ! p)
             [0..<length ?cov'])"
    then have p: "p < length cov" by simp
    have "(if p \<in> ?vi ` {0..<n} \<and> ?cov' ! p = 0 then zvf else ?cov' ! p) = ?cov' ! p"
      using nth [OF p] by (auto split: if_splits)
    then show "map (\<lambda>p. if p \<in> ?vi ` {0..<n} \<and> ?cov' ! p = 0 then zvf else ?cov' ! p)
             [0..<length ?cov'] ! p = ?cov' ! p"
      using p by (simp del: upt_Suc)
  qed
  show ?thesis
    unfolding r1 fst_conv snd_conv r2 d
    using a b c len by blast
qed

theorem ResetZeroVariances_diagonal_witness:
  "matrix_entries False kMeanCovariance 2 \<le> length [0, 3, 5 :: real]
   \<and> ResetZeroVariances (1 / 100) (Some [0, 3, 5]) False kMeanCovariance 2
       = (True, Some [1 / 100, 3, 5])
   \<and> snd (ResetZeroVariances (1 / 100) (Some [1 / 100, 3, 5]) False kMeanCovariance 2)
       = Some [1 / 100, 3, 5]"
proof -
  have h: "matrix_entries False kMeanCovariance 2 \<le> length [0, 3, 5 :: real]"
    by (simp add: matrix_entries_def kMeanCovariance_def kMeanStdDevOnly_def)
  have e: "ResetZeroVariances (1 / 100) (Some [0, 3, 5]) False kMeanCovariance 2
             = (True, Some [1 / 100, 3, 5])"
    by (simp add: ResetZeroVariances_def ResetZeroVariances_loop.simps
        ResetZeroVariances_step_def kMeanCovariance_def kMeanStdDevOnly_def)
  show ?thesis
    using h e ResetZeroVariances_diagonal [OF h, of "1 / 100"] by simp
qed

section \<open>Merging channel statistics\<close>

lemma atc_identity_loop:
  assumes "k \<le> length outs"
  shows "foldl (AddToClassChannelStatistics_step limit None ins init) (0, 0, 0, 0, outs) [0..<k] =
           (k, min k limit, k, k,
            map (\<lambda>i. merge_channel init (outs ! i) (ins ! i)) [0..<k] @ drop k outs)"
  using assms
proof (induction k)
  case 0
  then show ?case by simp
next
  case (Suc k)
  then have k: "k < length outs" by simp
  have upd: "(map (\<lambda>i. merge_channel init (outs ! i) (ins ! i)) [0..<k] @ drop k outs)
               [k := merge_channel init (outs ! k) (ins ! k)] =
             map (\<lambda>i. merge_channel init (outs ! i) (ins ! i)) [0..<Suc k] @ drop (Suc k) outs"
    using k by (simp add: list_update_append Cons_nth_drop_Suc [symmetric] del: upt_Suc)
      (simp add: Cons_nth_drop_Suc)
  have cur: "(map (\<lambda>i. merge_channel init (outs ! i) (ins ! i)) [0..<k] @ drop k outs) ! k
               = outs ! k"
    using k by (simp add: nth_append)
  show ?case
    using Suc.IH k upd cur
    by (simp add: AddToClassChannelStatistics_step_def min_def del: upt_Suc map_append
          add: upt_Suc_append)
qed


lemma AddToClassChannelStatistics_equal_counts:
  assumes "n \<le> length outs"
  shows "AddToClassChannelStatistics n outs n channelListPtr ins init =
           map (\<lambda>i. merge_channel init (outs ! i) (ins ! i)) [0..<n] @ drop n outs"
  using atc_identity_loop [OF assms, of _ ins init]
  by (simp add: AddToClassChannelStatistics_def)

lemma AddToClassChannelStatistics_no_list:
  assumes "n \<le> length outs"
  shows "AddToClassChannelStatistics m outs n None ins init =
           map (\<lambda>i. merge_channel init (outs ! i) (ins ! i)) [0..<n] @ drop n outs"
  using atc_identity_loop [OF assms, of _ ins init]
  by (simp add: AddToClassChannelStatistics_def)

text \<open>
  Claim C10. When \<open>numberOutputChannels = numberInputChannels\<close> the channel list is not
  consulted: the result is the one obtained without a list, source channel \<open>i\<close> is merged
  into destination channel \<open>i\<close> for every \<open>i\<close>, and nothing else changes. In the witness
  the list \<open>[1, 0]\<close> asks for the two channels to be swapped and is treated as the identity.
\<close>

theorem AddToClassChannelStatistics_ignores_list:
  assumes "n \<le> length outs"
  shows "AddToClassChannelStatistics n outs n channelListPtr ins init =
           AddToClassChannelStatistics n outs n None ins init
       \<and> length (AddToClassChannelStatistics n outs n channelListPtr ins init) = length outs
       \<and> (\<forall>i<n. AddToClassChannelStatistics n outs n channelListPtr ins init ! i =
                  merge_channel init (outs ! i) (ins ! i))
       \<and> (\<forall>i<length outs. n \<le> i \<longrightarrow>
                  AddToClassChannelStatistics n outs n channelListPtr ins init ! i = outs ! i)"
proof -
  let ?r = "map (\<lambda>i. merge_channel init (outs ! i) (ins ! i)) [0..<n] @ drop n outs"
  have a: "AddToClassChannelStatistics n outs n channelListPtr ins init = ?r"
    by (rule AddToClassChannelStatistics_equal_counts [OF assms])
  have b: "AddToClassChannelStatistics n outs n None ins init = ?r"
    by (rule AddToClassChannelStatistics_equal_counts [OF assms])
  have c: "length ?r = length outs" using assms by simp
  have d: "\<forall>i<n. ?r ! i = merge_channel init (outs ! i) (ins ! i)"
    by (simp add: nth_append del: upt_Suc)
  have e: "\<forall>i<length outs. n \<le> i \<longrightarrow> ?r ! i = outs ! i"
    using assms by (simp add: nth_append del: upt_Suc)
  show ?thesis unfolding a b using c d e by blast
qed

theorem AddToClassChannelStatistics_ignores_list_witness:
  "(2::nat) \<le> length [chan 0 1 2 3 4, chan 0 5 6 7 8]
   \<and> AddToClassChannelStatistics 2 [chan 0 1 2 3 4, chan 0 5 6 7 8] 2 (Some [1, 0])
        [chan 0 10 0 1 9, chan 0 20 0 2 3] False
      = [chan 0 11 2 1 9, chan 0 25 6 2 8]"
proof -
  have h: "(2::nat) \<le> length [chan 0 1 2 3 4, chan 0 5 6 7 8]" by simp
  have "AddToClassChannelStatistics 2 [chan 0 1 2 3 4, chan 0 5 6 7 8] 2 None
        [chan 0 10 0 1 9, chan 0 20 0 2 3] False
      = [chan 0 11 2 1 9, chan 0 25 6 2 8]"
    by (simp add: AddToClassChannelStatistics_def AddToClassChannelStatistics_step_def
        merge_channel_def chan_def upt_rec numeral_2_eq_2)
  then show ?thesis
    using h AddToClassChannelStatistics_ignores_list [OF h, of "Some [1, 0]"
        "[chan 0 10 0 1 9, chan 0 20 0 2 3]" False]
    by simp
qed

text \<open>
  Claim C7 as stated fails: with \<open>initializeFlag\<close> false the routine writes \<open>sum\<close> and does
  not touch \<open>standardDev\<close>, so a destination whose standard deviation was 2 keeps it.
\<close>

theorem AddToClassChannelStatistics_stale_marker_counterexample:
  "sum_stat (AddToClassChannelStatistics 1 [chan 0 1 2 3 4] 1 None [chan 0 10 0 1 9] False ! 0)
     = 11
   \<and> \<not> standardDev (AddToClassChannelStatistics 1 [chan 0 1 2 3 4] 1 None [chan 0 10 0 1 9]
                        False ! 0) < 0"
  by (simp add: AddToClassChannelStatistics_def AddToClassChannelStatistics_step_def
      merge_channel_def chan_def)

lemma atc_list_loop:
  assumes l: "length l = nOut" "0 < nOut" "sorted_wrt (<) l" "\<forall>x\<in>set l. x < nIn"
    and outs: "nOut \<le> length outs"
    and c: "c \<le> nIn"
  shows "\<exists>m cn li. foldl (AddToClassChannelStatistics_step (nOut - 1) (Some l) ins init)
                     (0, 0, 0, 0, outs) [0..<c] =
                   (cn, min m (nOut - 1), li, m,
                    map (\<lambda>j. merge_channel init (outs ! j) (ins ! (l ! j))) [0..<m] @ drop m outs)
           \<and> m \<le> nOut \<and> (\<forall>j<m. l ! j < c) \<and> (\<forall>j<nOut. m \<le> j \<longrightarrow> c \<le> l ! j)"
  using c
proof (induction c)
  case 0
  show ?case
    by (rule exI [of _ 0]) simp
next
  case (Suc c)
  then obtain m cn li where st: "foldl (AddToClassChannelStatistics_step (nOut - 1) (Some l) ins init)
                     (0, 0, 0, 0, outs) [0..<c] =
                   (cn, min m (nOut - 1), li, m,
                    map (\<lambda>j. merge_channel init (outs ! j) (ins ! (l ! j))) [0..<m] @ drop m outs)"
      and m: "m \<le> nOut" and lo: "\<forall>j<m. l ! j < c" and hi: "\<forall>j<nOut. m \<le> j \<longrightarrow> c \<le> l ! j"
    by auto
  let ?merged = "\<lambda>m. map (\<lambda>j. merge_channel init (outs ! j) (ins ! (l ! j))) [0..<m] @ drop m outs"
  have mono: "\<And>i j. i < j \<Longrightarrow> j < nOut \<Longrightarrow> l ! i < l ! j"
    using l(1,3) by (simp add: sorted_wrt_iff_nth_less)
  show ?case
  proof (cases "m < nOut \<and> l ! m = c")
    case True
    then have mlt: "m < nOut" and lm: "l ! m = c" by simp_all
    have ml: "m < length outs" using mlt outs by simp
    have idx: "min m (nOut - 1) = m" using mlt by simp
    have upd: "(?merged m)[m := merge_channel init (?merged m ! m) (ins ! c)] = ?merged (Suc m)"
      using ml by (simp add: list_update_append nth_append Cons_nth_drop_Suc [symmetric] del: upt_Suc)
        (simp add: Cons_nth_drop_Suc lm)
    have "foldl (AddToClassChannelStatistics_step (nOut - 1) (Some l) ins init)
                     (0, 0, 0, 0, outs) [0..<Suc c] =
          AddToClassChannelStatistics_step (nOut - 1) (Some l) ins init
            (cn, m, li, m, ?merged m) c"
      by (simp only: upt_Suc_append [OF le0] foldl_append foldl.simps st idx)
    also have "\<dots> = (c + 1, if m < nOut - 1 then m + 1 else m, c + 1, Suc m, ?merged (Suc m))"
      using lm upd
      by (simp add: AddToClassChannelStatistics_step_def Let_def del: upt_Suc map_append)
    also have "(if m < nOut - 1 then m + 1 else m) = min (Suc m) (nOut - 1)"
      using mlt by auto
    finally have step: "foldl (AddToClassChannelStatistics_step (nOut - 1) (Some l) ins init)
                     (0, 0, 0, 0, outs) [0..<Suc c] =
                (c + 1, min (Suc m) (nOut - 1), c + 1, Suc m, ?merged (Suc m))" .
    have lo': "\<forall>j<Suc m. l ! j < Suc c"
      using lo lm by (auto simp: less_Suc_eq)
    have hi': "\<forall>j<nOut. Suc m \<le> j \<longrightarrow> Suc c \<le> l ! j"
    proof (intro allI impI)
      fix j assume "j < nOut" "Suc m \<le> j"
      then have "l ! m < l ! j" using mono [of m j] by simp
      then show "Suc c \<le> l ! j" using lm by simp
    qed
    have "Suc m \<le> nOut" using mlt by simp
    then show ?thesis
      unfolding step using lo' hi'
      by (intro exI [of _ "Suc m"] exI [of _ "c + 1"] conjI refl) assumption+
  next
    case False
    have ne: "l ! min m (nOut - 1) \<noteq> c"
    proof (cases "m < nOut")
      case True
      then show ?thesis using False by simp
    next
      case False
      then have "m = nOut" using m by simp
      then have "l ! (nOut - 1) < c" using lo l(2) by simp
      then show ?thesis using \<open>m = nOut\<close> by simp
    qed
    have "foldl (AddToClassChannelStatistics_step (nOut - 1) (Some l) ins init)
                     (0, 0, 0, 0, outs) [0..<Suc c] =
          AddToClassChannelStatistics_step (nOut - 1) (Some l) ins init
            (cn, min m (nOut - 1), li, m, ?merged m) c"
      by (simp only: upt_Suc_append [OF le0] foldl_append foldl.simps st)
    also have "\<dots> = (l ! min m (nOut - 1) + 1, min m (nOut - 1), l ! min m (nOut - 1) + 1,
                       m, ?merged m)"
      using ne
      by (simp add: AddToClassChannelStatistics_step_def Let_def del: upt_Suc map_append)
    finally have step: "foldl (AddToClassChannelStatistics_step (nOut - 1) (Some l) ins init)
                     (0, 0, 0, 0, outs) [0..<Suc c] =
                (l ! min m (nOut - 1) + 1, min m (nOut - 1), l ! min m (nOut - 1) + 1, m, ?merged m)" .
    have lo': "\<forall>j<m. l ! j < Suc c" using lo by (simp add: less_Suc_eq)
    have hi': "\<forall>j<nOut. m \<le> j \<longrightarrow> Suc c \<le> l ! j"
    proof (intro allI impI)
      fix j assume j: "j < nOut" "m \<le> j"
      then have mlt: "m < nOut" by simp
      have "c \<le> l ! m" using hi mlt by simp
      moreover have "l ! m \<noteq> c" using False mlt by simp
      ultimately have "c < l ! m" by simp
      moreover have "l ! m \<le> l ! j"
        using mono [of m j] j by (cases "m = j") auto
      ultimately show "Suc c \<le> l ! j" by simp
    qed
    show ?thesis
      unfolding step using m lo' hi'
      by (intro exI [of _ m] exI [of _ "l ! min m (nOut - 1) + 1"] conjI refl) assumption+
  qed
qed

lemma AddToClassChannelStatistics_subset:
  assumes l: "length l = nOut" "0 < nOut" "sorted_wrt (<) l" "\<forall>x\<in>set l. x < nIn"
    and ne: "nOut \<noteq> nIn"
    and outs: "nOut \<le> length outs"
  shows "AddToClassChannelStatistics nOut outs nIn (Some l) ins init =
           map (\<lambda>j. merge_channel init (outs ! j) (ins ! (l ! j))) [0..<nOut] @ drop nOut outs"
proof -
  obtain m cn li where st: "foldl (AddToClassChannelStatistics_step (nOut - 1) (Some l) ins init)
                     (0, 0, 0, 0, outs) [0..<nIn] =
                   (cn, min m (nOut - 1), li, m,
                    map (\<lambda>j. merge_channel init (outs ! j) (ins ! (l ! j))) [0..<m] @ drop m outs)"
      and m: "m \<le> nOut" and hi: "\<forall>j<nOut. m \<le> j \<longrightarrow> nIn \<le> l ! j"
    using atc_list_loop [OF l outs order_refl, of ins init] by blast
  have "m = nOut"
  proof (rule ccontr)
    assume "m \<noteq> nOut"
    then have mlt: "m < nOut" using m by simp
    then have "nIn \<le> l ! m" using hi by simp
    moreover have "l ! m < nIn" using l(1,4) mlt by simp
    ultimately show False by simp
  qed
  have lim: "(if nOut = 0 then 4294967295 else nOut - 1) = nOut - 1" using l(2) by simp
  show ?thesis
    unfolding AddToClassChannelStatistics_def Let_def lim
    using ne by (simp only: if_False st prod.case \<open>m = nOut\<close>)
qed

lemma AddToClassChannelStatistics_nth:
  assumes "channel_list_ok nOut nIn channelListPtr"
    and "nOut \<le> length outs"
    and "k < nOut"
  shows "AddToClassChannelStatistics nOut outs nIn channelListPtr ins init ! k =
           merge_channel init (outs ! k) (ins ! source_channel nOut nIn channelListPtr k)"
proof (cases "nOut = nIn")
  case True
  have "AddToClassChannelStatistics nIn outs nIn channelListPtr ins init ! k =
          merge_channel init (outs ! k) (ins ! k)"
    using assms(2,3) True
      AddToClassChannelStatistics_equal_counts [of nIn outs channelListPtr ins init]
    by (simp add: nth_append del: upt_Suc)
  then show ?thesis using True by (simp add: source_channel_def split: option.split)
next
  case False
  then obtain l where p: "channelListPtr = Some l" and l: "length l = nOut" "0 < nOut"
      "sorted_wrt (<) l" "\<forall>x\<in>set l. x < nIn"
    using assms(1) by (auto simp: channel_list_ok_def split: option.splits)
  show ?thesis
    using assms(3) False
    by (simp add: p AddToClassChannelStatistics_subset [OF l False assms(2)] nth_append
          source_channel_def del: upt_Suc)
qed

text \<open>
  Claim C7, amended. For every destination channel \<open>k\<close> and the source channel merged into
  it: with \<open>initializeFlag\<close> true the destination receives the source's sum, minimum and
  maximum and its \<open>standardDev\<close> is set to \<open>-1\<close>; with \<open>initializeFlag\<close> false the sum is
  added, minimum and maximum are combined, and \<open>standardDev\<close> is left as it was. The mean
  is never written.
\<close>

theorem AddToClassChannelStatistics_merge:
  assumes "channel_list_ok nOut nIn channelListPtr"
    and "nOut \<le> length outs"
    and "nIn \<le> length ins"
    and "k < nOut"
  shows "let r = AddToClassChannelStatistics nOut outs nIn channelListPtr ins initializeFlag ! k;
             d = outs ! k;
             s = ins ! source_channel nOut nIn channelListPtr k in
           (initializeFlag \<longrightarrow>
              sum_stat r = sum_stat s \<and> minimum r = minimum s
              \<and> maximum r = maximum s \<and> standardDev r = - 1)
         \<and> (\<not> initializeFlag \<longrightarrow>
              sum_stat r = sum_stat d + sum_stat s
              \<and> minimum r = min (minimum d) (minimum s)
              \<and> maximum r = max (maximum d) (maximum s)
              \<and> standardDev r = standardDev d)
         \<and> mean r = mean d"
  unfolding Let_def AddToClassChannelStatistics_nth [OF assms(1,2,4)]
  by (simp add: merge_channel_def)

theorem AddToClassChannelStatistics_merge_witness:
  "channel_list_ok 2 3 (Some [0, 2])
   \<and> (2::nat) \<le> length [chan 0 1 2 3 4, chan 0 5 6 7 8]
   \<and> (3::nat) \<le> length [chan 0 10 0 1 9, chan 0 20 0 2 3, chan 0 30 0 5 6]
   \<and> (1::nat) < 2
   \<and> AddToClassChannelStatistics 2 [chan 0 1 2 3 4, chan 0 5 6 7 8] 3 (Some [0, 2])
        [chan 0 10 0 1 9, chan 0 20 0 2 3, chan 0 30 0 5 6] False ! 1 = chan 0 35 6 5 8
   \<and> AddToClassChannelStatistics 2 [chan 0 1 2 3 4, chan 0 5 6 7 8] 3 (Some [0, 2])
        [chan 0 10 0 1 9, chan 0 20 0 2 3, chan 0 30 0 5 6] True ! 1 = chan 0 30 (- 1) 5 6"
proof -
  have h1: "channel_list_ok 2 3 (Some [0, 2])" by (simp add: channel_list_ok_def)
  have h2: "(2::nat) \<le> length [chan 0 1 2 3 4, chan 0 5 6 7 8]" by simp
  have h3: "(3::nat) \<le> length [chan 0 10 0 1 9, chan 0 20 0 2 3, chan 0 30 0 5 6]" by simp
  have h4: "(1::nat) < 2" by simp
  show ?thesis
    using h1 h2 h3 h4
      AddToClassChannelStatistics_merge [OF h1 h2 h3 h4, of False]
      AddToClassChannelStatistics_merge [OF h1 h2 h3 h4, of True]
    by (simp add: AddToClassChannelStatistics_def AddToClassChannelStatistics_step_def
        merge_channel_def chan_def upt_rec numeral_2_eq_2 numeral_3_eq_3)
qed

section \<open>Numerical conditioning: all variances and covariances equal\<close>

lemma lower_index_row: "lower_index sq n i j = lower_index sq n i 0 + j"
  by (simp add: lower_index_def)

lemma row_Suc:
  "lower_index sq n (Suc i) 0 = lower_index sq n i 0 + (if sq then n else i + 1)"
  using tri_Suc [of i] by (simp add: lower_index_def)

lemma row_gap: "i < n \<Longrightarrow> lower_index sq n i 0 + i < lower_index sq n (Suc i) 0"
  by (simp add: row_Suc)

lemma row_mono: "i \<le> i' \<Longrightarrow> lower_index sq n i 0 \<le> lower_index sq n i' 0"
  using tri_mono [of i i'] by (simp add: lower_index_def)

lemma lower_index_less:
  assumes "i < i'" "i < n" "j \<le> i"
  shows "lower_index sq n i j < lower_index sq n i' j'"
proof -
  have "lower_index sq n i j \<le> lower_index sq n i 0 + i"
    using assms(3) by (simp add: lower_index_row [of sq n i j])
  also have "\<dots> < lower_index sq n (Suc i) 0" using assms(2) by (rule row_gap)
  also have "\<dots> \<le> lower_index sq n i' 0" using assms(1) by (intro row_mono) simp
  also have "\<dots> \<le> lower_index sq n i' j'" by (simp add: lower_index_row [of sq n i' j'])
  finally show ?thesis .
qed

lemma lower_index_inj:
  assumes "i < n" "i' < n" "j \<le> i" "j' \<le> i'"
    and "lower_index sq n i j = lower_index sq n i' j'"
  shows "i = i' \<and> j = j'"
proof -
  have "\<not> i < i'" using lower_index_less [of i i' n j sq j'] assms by auto
  moreover have "\<not> i' < i" using lower_index_less [of i' i n j' sq j] assms by auto
  ultimately have "i = i'" by simp
  then show ?thesis using assms(5) by (simp add: lower_index_def split: if_splits)
qed

lemma lower_index_bound:
  assumes "i < n" "j \<le> i" "code \<noteq> kMeanStdDevOnly"
  shows "lower_index sq n i j < matrix_entries sq code n"
proof -
  have "lower_index sq n i j \<le> lower_index sq n i 0 + i"
    using assms(2) by (simp add: lower_index_row [of sq n i j])
  also have "\<dots> < lower_index sq n (Suc i) 0" using assms(1) by (rule row_gap)
  also have "\<dots> \<le> lower_index sq n n 0" using assms(1) by (intro row_mono) simp
  also have "\<dots> = matrix_entries sq code n"
    using assms(3) by (simp add: lower_index_def matrix_entries_def)
  finally show ?thesis .
qed

lemma compare_inner_all_equal:
  "\<forall>k<feature1 + 1 - feature2. cov ! (ptr + k) = cv \<Longrightarrow>
     compare_inner cov cv feature1 feature2 (ptr, flag) = (ptr + (feature1 + 1 - feature2), flag)"
proof (induction "feature1 + 1 - feature2" arbitrary: feature2 ptr)
  case 0
  then show ?case by (simp add: compare_inner.simps [of cov cv feature1 feature2])
next
  case (Suc d)
  then have le: "feature2 \<le> feature1" and d: "d = feature1 + 1 - (feature2 + 1)" by simp_all
  have here: "cov ! ptr = cv" using Suc.prems Suc.hyps(2) by (metis add.right_neutral zero_less_Suc)
  have rest: "\<forall>k<feature1 + 1 - (feature2 + 1). cov ! (ptr + 1 + k) = cv"
  proof (intro allI impI)
    fix k assume "k < feature1 + 1 - (feature2 + 1)"
    then have "Suc k < feature1 + 1 - feature2" by simp
    then have "cov ! (ptr + Suc k) = cv" using Suc.prems by blast
    then show "cov ! (ptr + 1 + k) = cv" by simp
  qed
  show ?case
    using le here Suc.hyps(1) [OF d rest]
    by (simp add: compare_inner.simps [of cov cv feature1 feature2])
qed

lemma compare_inner_some_differs:
  "\<exists>k<feature1 + 1 - feature2. cov ! (ptr + k) \<noteq> cv \<Longrightarrow>
     snd (compare_inner cov cv feature1 feature2 (ptr, flag)) = False"
proof (induction "feature1 + 1 - feature2" arbitrary: feature2 ptr)
  case 0
  then show ?case by simp
next
  case (Suc d)
  then have le: "feature2 \<le> feature1" and d: "d = feature1 + 1 - (feature2 + 1)" by simp_all
  show ?case
  proof (cases "cov ! ptr = cv")
    case False
    then show ?thesis using le by (simp add: compare_inner.simps [of cov cv feature1 feature2])
  next
    case True
    obtain k where k: "k < feature1 + 1 - feature2" "cov ! (ptr + k) \<noteq> cv"
      using Suc.prems by blast
    then have "k \<noteq> 0" using True by (cases k) auto
    then obtain k' where k': "k = Suc k'" by (cases k) auto
    have "\<exists>k<feature1 + 1 - (feature2 + 1). cov ! (ptr + 1 + k) \<noteq> cv"
      using k k' by (intro exI [of _ k']) simp
    then show ?thesis
      using le True Suc.hyps(1) [OF d]
      by (simp add: compare_inner.simps [of cov cv feature1 feature2])
  qed
qed

lemma compare_inner_stays_False:
  "snd (compare_inner cov cv feature1 feature2 (ptr, False)) = False"
proof (induction "feature1 + 1 - feature2" arbitrary: feature2 ptr)
  case 0
  then show ?case by (simp add: compare_inner.simps [of cov cv feature1 feature2])
next
  case (Suc d)
  then have d: "d = feature1 + 1 - (feature2 + 1)" by simp
  show ?case
  proof (cases "feature2 \<le> feature1 \<and> cv = cov ! ptr")
    case True
    then have "compare_inner cov cv feature1 feature2 (ptr, False) =
               compare_inner cov cv feature1 (feature2 + 1) (ptr + 1, False)"
      by (subst compare_inner.simps) simp
    then show ?thesis using Suc.hyps(1) [OF d, of "ptr + 1"] by simp
  next
    case False
    then show ?thesis by (subst compare_inner.simps) auto
  qed
qed

lemma foldl_upt_Suc: "foldl f s [0..<Suc r] = f (foldl f s [0..<r]) r"
  by simp

lemma compare_rows:
  assumes "r \<le> n"
  shows "\<exists>p s flag. foldl (compare_row cov cv sq) (0, n - 1, True) [0..<r] = (p, s, flag)
           \<and> flag = (\<forall>i<r. \<forall>j\<le>i. cov ! lower_index sq n i j = cv)
           \<and> (flag \<longrightarrow> p = lower_index sq n r 0 \<and> (sq \<longrightarrow> s = n - 1 - r))"
  using assms
proof (induction r)
  case 0
  show ?case
    by (rule exI [of _ 0], rule exI [of _ "n - 1"], rule exI [of _ True])
      (simp add: lower_index_def)
next
  case (Suc r)
  have rn: "r < n" using Suc.prems by simp
  then have "\<exists>p s flag. foldl (compare_row cov cv sq) (0, n - 1, True) [0..<r] = (p, s, flag)
           \<and> flag = (\<forall>i<r. \<forall>j\<le>i. cov ! lower_index sq n i j = cv)
           \<and> (flag \<longrightarrow> p = lower_index sq n r 0 \<and> (sq \<longrightarrow> s = n - 1 - r))"
    by (intro Suc.IH) simp
  then obtain p s flag where st: "foldl (compare_row cov cv sq) (0, n - 1, True) [0..<r] = (p, s, flag)"
    and fl: "flag = (\<forall>i<r. \<forall>j\<le>i. cov ! lower_index sq n i j = cv)"
    and pos: "flag \<longrightarrow> p = lower_index sq n r 0 \<and> (sq \<longrightarrow> s = n - 1 - r)"
    by blast
  let ?row = "\<forall>j\<le>r. cov ! lower_index sq n r j = cv"
  have all_Suc: "(\<forall>i<Suc r. \<forall>j\<le>i. cov ! lower_index sq n i j = cv) = (flag \<and> ?row)"
    unfolding fl by (auto simp: less_Suc_eq)
  show ?case
  proof (cases "flag \<and> ?row")
    case True
    then have p: "p = lower_index sq n r 0" and s: "sq \<longrightarrow> s = n - 1 - r" using pos by simp_all
    have "\<forall>k<r + 1 - 0. cov ! (p + k) = cv"
      using True by (simp add: p lower_index_row [of sq n r, symmetric] less_Suc_eq_le)
    then have inner: "compare_inner cov cv r 0 (p, flag) = (p + (r + 1), flag)"
      using compare_inner_all_equal [of r 0 cov p cv flag] by simp
    have step: "foldl (compare_row cov cv sq) (0, n - 1, True) [0..<Suc r] =
                  (if sq then (p + (r + 1) + s, s - 1, flag) else (p + (r + 1), s, flag))"
      unfolding foldl_upt_Suc st by (simp add: compare_row_def inner)
    have next_row: "(if sq then p + (r + 1) + s else p + (r + 1)) = lower_index sq n (Suc r) 0"
      using rn s by (simp add: p row_Suc)
    show ?thesis
      unfolding step all_Suc using True s next_row by (cases sq) auto
  next
    case False
    have "\<not> snd (compare_inner cov cv r 0 (p, flag))"
    proof (cases flag)
      case False
      then show ?thesis using compare_inner_stays_False [of cov cv r 0 p] by simp
    next
      case True
      then have p: "p = lower_index sq n r 0" using pos by simp
      from True False obtain j where "j \<le> r" "cov ! lower_index sq n r j \<noteq> cv" by blast
      then have "\<exists>k<r + 1 - 0. cov ! (p + k) \<noteq> cv"
        by (intro exI [of _ j]) (simp add: p lower_index_row [of sq n r, symmetric])
      then show ?thesis using compare_inner_some_differs [of r 0 cov p cv flag] by simp
    qed
    then obtain q where inner: "compare_inner cov cv r 0 (p, flag) = (q, False)"
      by (cases "compare_inner cov cv r 0 (p, flag)") auto
    have step: "foldl (compare_row cov cv sq) (0, n - 1, True) [0..<Suc r] =
                  (if sq then (q + s, s - 1, False) else (q, s, False))"
      unfolding foldl_upt_Suc st by (simp add: compare_row_def inner)
    show ?thesis
      unfolding step all_Suc using False by (cases sq) auto
  qed
qed

lemma zero_inner_eq:
  "zero_inner feature1 feature2 (ptr, cov) =
     (ptr + (feature1 - feature2),
      map (\<lambda>p. if ptr \<le> p \<and> p < ptr + (feature1 - feature2) then 0 else cov ! p)
        [0..<length cov])"
proof (induction "feature1 - feature2" arbitrary: feature2 ptr cov)
  case 0
  have none: "\<And>p. (ptr \<le> p \<and> p < ptr) = False" by auto
  from 0 show ?case by (simp add: zero_inner.simps [of feature1 feature2] map_nth none)
next
  case (Suc d)
  then have lt: "feature2 < feature1" and d: "d = feature1 - (feature2 + 1)" by simp_all
  have "zero_inner feature1 feature2 (ptr, cov) =
          zero_inner feature1 (feature2 + 1) (ptr + 1, cov[ptr := 0])"
    using lt by (subst zero_inner.simps) simp
  also have "\<dots> = (ptr + 1 + (feature1 - (feature2 + 1)),
      map (\<lambda>p. if ptr + 1 \<le> p \<and> p < ptr + 1 + (feature1 - (feature2 + 1)) then 0
                else cov[ptr := 0] ! p) [0..<length (cov[ptr := 0])])"
    by (rule Suc.hyps(1) [OF d])
  also have "\<dots> = (ptr + (feature1 - feature2),
      map (\<lambda>p. if ptr \<le> p \<and> p < ptr + (feature1 - feature2) then 0 else cov ! p)
        [0..<length cov])"
    using lt by (auto simp: nth_list_update simp del: upt_Suc)
  finally show ?case .
qed

lemma offdiag_Suc:
  "offdiag sq n (Suc r) =
     offdiag sq n r \<union> {p. lower_index sq n r 0 \<le> p \<and> p < lower_index sq n r 0 + r}"
proof -
  have "{p. lower_index sq n r 0 \<le> p \<and> p < lower_index sq n r 0 + r} =
          {p. \<exists>j<r. p = lower_index sq n r j}"
  proof (intro set_eqI iffI; clarify)
    fix p assume "lower_index sq n r 0 \<le> p" "p < lower_index sq n r 0 + r"
    then have "p - lower_index sq n r 0 < r \<and> p = lower_index sq n r (p - lower_index sq n r 0)"
      by (simp add: lower_index_row [of sq n r "p - lower_index sq n r 0"])
    then show "\<exists>j<r. p = lower_index sq n r j" by blast
  next
    fix j assume "j < r"
    then show "lower_index sq n r 0 \<le> lower_index sq n r j \<and>
               lower_index sq n r j < lower_index sq n r 0 + r"
      by (simp add: lower_index_row [of sq n r j])
  qed
  then show ?thesis
    unfolding offdiag_def by (auto simp: less_Suc_eq)
qed

lemma zero_rows:
  assumes "r \<le> n"
  shows "foldl (zero_row sq) (0, n - 1, cov) [0..<r] =
           (lower_index sq n r 0, if sq then n - 1 - r else n - 1,
            map (\<lambda>p. if p \<in> offdiag sq n r then 0 else cov ! p) [0..<length cov])"
  using assms
proof (induction r)
  case 0
  show ?case by (simp add: lower_index_def offdiag_def map_nth)
next
  case (Suc r)
  then have rn: "r < n" by simp
  let ?cov = "map (\<lambda>p. if p \<in> offdiag sq n r then 0 else cov ! p) [0..<length cov]"
  have st: "foldl (zero_row sq) (0, n - 1, cov) [0..<r] =
           (lower_index sq n r 0, if sq then n - 1 - r else n - 1, ?cov)"
    using Suc by simp
  have cov': "map (\<lambda>p. if lower_index sq n r 0 \<le> p \<and> p < lower_index sq n r 0 + (r - 0) then 0
                        else ?cov ! p) [0..<length ?cov] =
              map (\<lambda>p. if p \<in> offdiag sq n (Suc r) then 0 else cov ! p) [0..<length cov]"
    by (auto simp: offdiag_Suc simp del: upt_Suc)
  have "foldl (zero_row sq) (0, n - 1, cov) [0..<Suc r] =
          zero_row sq (lower_index sq n r 0, if sq then n - 1 - r else n - 1, ?cov) r"
    unfolding foldl_upt_Suc st ..
  also have "\<dots> = (lower_index sq n (Suc r) 0, if sq then n - 1 - Suc r else n - 1,
            map (\<lambda>p. if p \<in> offdiag sq n (Suc r) then 0 else cov ! p) [0..<length cov])"
    using rn unfolding zero_row_def prod.case zero_inner_eq cov'
    by (simp add: row_Suc)
  finally show ?case .
qed

lemma ResetForAllVariancesEqual_guard:
  "n \<le> 1 \<or> code = kMeanStdDevOnly \<Longrightarrow>
     ResetForAllVariancesEqual (Some cov) sq code n = (False, Some cov)"
  by (simp add: ResetForAllVariancesEqual_def)

lemma ResetForAllVariancesEqual_eq:
  assumes "1 < n" "code \<noteq> kMeanStdDevOnly"
  shows "ResetForAllVariancesEqual (Some cov) sq code n =
           (if \<forall>i<n. \<forall>j\<le>i. cov ! lower_index sq n i j = cov ! 0
            then (True, Some (if sq
                   then CopyLowerToUpperSquareMatrix n
                          (map (\<lambda>p. if p \<in> offdiag sq n n then 0 else cov ! p) [0..<length cov])
                   else map (\<lambda>p. if p \<in> offdiag sq n n then 0 else cov ! p) [0..<length cov]))
            else (False, Some cov))"
proof -
  obtain p s flag where c: "foldl (compare_row cov (cov ! 0) sq) (0, n - 1, True) [0..<n] = (p, s, flag)"
    and fl: "flag = (\<forall>i<n. \<forall>j\<le>i. cov ! lower_index sq n i j = cov ! 0)"
    using compare_rows [OF order_refl, of cov "cov ! 0" sq n] by blast
  have z: "foldl (zero_row sq) (0, n - 1, cov) [0..<n] =
           (lower_index sq n n 0, if sq then n - 1 - n else n - 1,
            map (\<lambda>p. if p \<in> offdiag sq n n then 0 else cov ! p) [0..<length cov])"
    by (rule zero_rows [OF order_refl])
  have g: "\<not> (n \<le> 1 \<or> code = kMeanStdDevOnly)" using assms by simp
  show ?thesis
    unfolding ResetForAllVariancesEqual_def option.case if_not_P [OF g] c z prod.case fl
    by (cases sq) simp_all
qed

lemma offdiag_lower:
  "i < n \<Longrightarrow> j < i \<Longrightarrow> lower_index sq n i j \<in> offdiag sq n n"
  unfolding offdiag_def by blast

lemma offdiag_diagonal:
  assumes "i < n"
  shows "lower_index sq n i i \<notin> offdiag sq n n"
proof
  assume "lower_index sq n i i \<in> offdiag sq n n"
  then obtain i' j' where "i' < n" "j' < i'" "lower_index sq n i i = lower_index sq n i' j'"
    unfolding offdiag_def by blast
  then show False using lower_index_inj [of i n i' i j' sq] assms by simp
qed

lemma square_index_bound: "i < n \<Longrightarrow> j < n \<Longrightarrow> i * n + j < n * (n::nat)"
proof -
  assume i: "i < n" and j: "j < n"
  have "i * n + j < i * n + n" using j by simp
  also have "\<dots> = Suc i * n" by simp
  also have "\<dots> \<le> n * n" using i by (intro mult_le_mono) simp_all
  finally show ?thesis .
qed

lemma CopyLowerToUpperSquareMatrix_nth:
  assumes "n * n \<le> length m" "i < n" "j < n"
  shows "CopyLowerToUpperSquareMatrix n m ! (i * n + j) =
           (if i < j then m ! (j * n + i) else m ! (i * n + j))"
proof -
  have b: "i * n + j < n * n" using assms(2,3) by (rule square_index_bound)
  then have "i * n + j < length m" using assms(1) by simp
  then show ?thesis
    using b assms(3) by (simp add: CopyLowerToUpperSquareMatrix_def del: upt_Suc)
qed

text \<open>
  Claim C6. \<open>ResetForAllVariancesEqual\<close> returns false and leaves the matrix as it is when
  there is at most one feature or the statistics are mean-only. Otherwise it returns true
  exactly when every entry of the lower triangle, diagonal included, equals the first
  diagonal entry (equality of the doubles' values, which is what \<^verbatim>\<open>!=\<close> tests); when it
  returns false the matrix is unchanged; when it returns true every entry below the diagonal
  is \<open>0\<close>, every diagonal entry is what it was, and a square matrix is symmetric (its upper
  triangle mirrors the lower one).
\<close>

theorem ResetForAllVariancesEqual_spec:
  assumes "matrix_entries sq code n \<le> length cov"
  shows "(n \<le> 1 \<or> code = kMeanStdDevOnly \<longrightarrow>
            ResetForAllVariancesEqual (Some cov) sq code n = (False, Some cov))
       \<and> (1 < n \<and> code \<noteq> kMeanStdDevOnly \<longrightarrow>
            fst (ResetForAllVariancesEqual (Some cov) sq code n) =
              (\<forall>i<n. \<forall>j\<le>i. cov ! lower_index sq n i j = cov ! 0)
          \<and> (\<not> fst (ResetForAllVariancesEqual (Some cov) sq code n) \<longrightarrow>
                snd (ResetForAllVariancesEqual (Some cov) sq code n) = Some cov)
          \<and> (fst (ResetForAllVariancesEqual (Some cov) sq code n) \<longrightarrow>
                (\<exists>cov'. snd (ResetForAllVariancesEqual (Some cov) sq code n) = Some cov'
                   \<and> length cov' = length cov
                   \<and> (\<forall>i<n. \<forall>j<i. cov' ! lower_index sq n i j = 0)
                   \<and> (\<forall>i<n. cov' ! lower_index sq n i i = cov ! lower_index sq n i i)
                   \<and> (sq \<longrightarrow> (\<forall>i<n. \<forall>j<n. cov' ! (i * n + j) = cov' ! (j * n + i))))))"
proof (intro conjI impI)
  assume "n \<le> 1 \<or> code = kMeanStdDevOnly"
  then show "ResetForAllVariancesEqual (Some cov) sq code n = (False, Some cov)"
    by (rule ResetForAllVariancesEqual_guard)
next
  assume a: "1 < n \<and> code \<noteq> kMeanStdDevOnly"
  define c where "c = (\<forall>i<n. \<forall>j\<le>i. cov ! lower_index sq n i j = cov ! 0)"
  define z where "z = map (\<lambda>p. if p \<in> offdiag sq n n then 0 else cov ! p) [0..<length cov]"
  define r where "r = (if sq then CopyLowerToUpperSquareMatrix n z else z)"
  have eq: "ResetForAllVariancesEqual (Some cov) sq code n =
              (if c then (True, Some r) else (False, Some cov))"
    unfolding c_def r_def z_def using a by (intro ResetForAllVariancesEqual_eq) simp_all
  have fst_eq: "fst (ResetForAllVariancesEqual (Some cov) sq code n) = c"
    unfolding eq by simp
  show "fst (ResetForAllVariancesEqual (Some cov) sq code n) =
              (\<forall>i<n. \<forall>j\<le>i. cov ! lower_index sq n i j = cov ! 0)"
    unfolding fst_eq c_def ..
  show "snd (ResetForAllVariancesEqual (Some cov) sq code n) = Some cov"
    if "\<not> fst (ResetForAllVariancesEqual (Some cov) sq code n)"
    using that unfolding fst_eq unfolding eq by simp
  show "\<exists>cov'. snd (ResetForAllVariancesEqual (Some cov) sq code n) = Some cov'
                   \<and> length cov' = length cov
                   \<and> (\<forall>i<n. \<forall>j<i. cov' ! lower_index sq n i j = 0)
                   \<and> (\<forall>i<n. cov' ! lower_index sq n i i = cov ! lower_index sq n i i)
                   \<and> (sq \<longrightarrow> (\<forall>i<n. \<forall>j<n. cov' ! (i * n + j) = cov' ! (j * n + i)))"
    if t: "fst (ResetForAllVariancesEqual (Some cov) sq code n)"
  proof -
    have res: "snd (ResetForAllVariancesEqual (Some cov) sq code n) = Some r"
      using t unfolding fst_eq unfolding eq by simp
    have lenz: "length z = length cov" by (simp add: z_def)
    have len: "length r = length cov"
      by (simp add: r_def lenz CopyLowerToUpperSquareMatrix_def)
    have inb: "\<And>i j. i < n \<Longrightarrow> j \<le> i \<Longrightarrow> lower_index sq n i j < length cov"
      using lower_index_bound [of _ n _ code sq] a assms by fastforce
    have zlow: "\<And>i j. i < n \<Longrightarrow> j < i \<Longrightarrow> z ! lower_index sq n i j = 0"
      using inb offdiag_lower [of _ n _ sq] by (simp add: z_def del: upt_Suc)
    have zdiag: "\<And>i. i < n \<Longrightarrow> z ! lower_index sq n i i = cov ! lower_index sq n i i"
      using inb offdiag_diagonal [of _ n sq] by (simp add: z_def del: upt_Suc)
    have nn: "sq \<Longrightarrow> n * n \<le> length z"
      using assms a by (simp add: matrix_entries_def lenz)
    have low: "\<forall>i<n. \<forall>j<i. r ! lower_index sq n i j = 0"
    proof (cases sq)
      case False
      then show ?thesis using zlow by (simp add: r_def)
    next
      case True
      show ?thesis
      proof (intro allI impI)
        fix i j assume ij: "i < n" "j < i"
        then have "CopyLowerToUpperSquareMatrix n z ! (i * n + j) = z ! (i * n + j)"
          using CopyLowerToUpperSquareMatrix_nth [OF nn [OF True], of i j] by simp
        then show "r ! lower_index sq n i j = 0"
          using zlow [OF ij] True by (simp add: lower_index_def r_def)
      qed
    qed
    have diag: "\<forall>i<n. r ! lower_index sq n i i = cov ! lower_index sq n i i"
    proof (cases sq)
      case False
      then show ?thesis using zdiag by (simp add: r_def)
    next
      case True
      show ?thesis
      proof (intro allI impI)
        fix i assume i: "i < n"
        then have "CopyLowerToUpperSquareMatrix n z ! (i * n + i) = z ! (i * n + i)"
          using CopyLowerToUpperSquareMatrix_nth [OF nn [OF True], of i i] by simp
        then show "r ! lower_index sq n i i = cov ! lower_index sq n i i"
          using zdiag [OF i] True by (simp add: lower_index_def r_def)
      qed
    qed
    have sym: "sq \<longrightarrow> (\<forall>i<n. \<forall>j<n. r ! (i * n + j) = r ! (j * n + i))"
    proof (intro impI allI)
      fix i j assume sq: sq and i: "i < n" and j: "j < n"
      have "CopyLowerToUpperSquareMatrix n z ! (i * n + j) =
            CopyLowerToUpperSquareMatrix n z ! (j * n + i)"
        unfolding CopyLowerToUpperSquareMatrix_nth [OF nn [OF sq] i j]
          CopyLowerToUpperSquareMatrix_nth [OF nn [OF sq] j i]
        by (cases i j rule: linorder_cases) simp_all
      then show "r ! (i * n + j) = r ! (j * n + i)" using sq by (simp add: r_def)
    qed
    show ?thesis
      unfolding res using len low diag sym by blast
  qed
qed

theorem ResetForAllVariancesEqual_spec_witness:
  "matrix_entries False kMeanCovariance 3 \<le> length [4, 4, 4, 4, 4, 4 :: real]
   \<and> ResetForAllVariancesEqual (Some [4, 4, 4, 4, 4, 4]) False kMeanCovariance 3
       = (True, Some [4, 0, 4, 0, 0, 4])
   \<and> ResetForAllVariancesEqual (Some [4, 4, 4, 4, 5, 4]) False kMeanCovariance 3
       = (False, Some [4, 4, 4, 4, 5, 4])
   \<and> ResetForAllVariancesEqual (Some [4, 7, 8, 4, 4, 9, 4, 4, 4]) True kMeanCovariance 3
       = (True, Some [4, 0, 0, 0, 4, 0, 0, 0, 4])
   \<and> ResetForAllVariancesEqual (Some [4, 4, 4, 4, 4, 4]) False kMeanStdDevOnly 3
       = (False, Some [4, 4, 4, 4, 4, 4])"
proof -
  have h: "matrix_entries False kMeanCovariance 3 \<le> length [4, 4, 4, 4, 4, 4 :: real]"
    by code_simp
  have e1: "ResetForAllVariancesEqual (Some [4, 4, 4, 4, 4, 4]) False kMeanCovariance 3
       = (True, Some [4, 0, 4, 0, 0, 4])" by code_simp
  have e2: "ResetForAllVariancesEqual (Some [4, 4, 4, 4, 5, 4]) False kMeanCovariance 3
       = (False, Some [4, 4, 4, 4, 5, 4])" by code_simp
  have e3: "ResetForAllVariancesEqual (Some [4, 7, 8, 4, 4, 9, 4, 4, 4]) True kMeanCovariance 3
       = (True, Some [4, 0, 0, 0, 4, 0, 0, 0, 4])" by code_simp
  have e4: "ResetForAllVariancesEqual (Some [4, 4, 4, 4, 4, 4]) False kMeanStdDevOnly 3
       = (False, Some [4, 4, 4, 4, 4, 4])" by code_simp
  show ?thesis
    using h e1 e2 e3 e4 ResetForAllVariancesEqual_spec [OF h] by simp
qed

section \<open>Covariance estimator selection\<close>

lemmas stats_codes = kOriginalStats_def kLeaveOneOutStats_def kEnhancedStats_def kMixedStats_def

lemma final_setting_not_mixed: "final_setting requested c \<noteq> kMixedStats"
  by (simp add: final_setting_def Let_def stats_codes)

lemma class_step_setting:
  "covarianceStatsToUse (fst (SetProjectCovarianceStatsToUse_class requested c))
     = final_setting requested c"
  by (simp add: SetProjectCovarianceStatsToUse_class_def final_setting_def Let_def stats_codes)

lemma class_step_enhanced:
  "modifiedStatsFlag (fst (SetProjectCovarianceStatsToUse_class requested c))
     = modifiedStatsFlag c"
  by (simp add: SetProjectCovarianceStatsToUse_class_def Let_def)

lemma storage_distinct:
  assumes "project_ok p" "i < numberStatisticsClasses p" "j < numberStatisticsClasses p" "i \<noteq> j"
  shows "storageClass p ! i \<noteq> storageClass p ! j"
proof -
  let ?n = "numberStatisticsClasses p"
  have d: "distinct (take ?n (storageClass p))" and l: "?n \<le> length (storageClass p)"
    using assms(1) by (simp_all add: project_ok_def)
  have "take ?n (storageClass p) ! i \<noteq> take ?n (storageClass p) ! j"
    using d l assms(2-4) by (simp add: nth_eq_iff_index_eq del: nth_take)
  then show ?thesis using assms(2,3) by simp
qed

lemma spc_step:
  "\<exists>c mixed stale nccc.
      SetProjectCovarianceStatsToUse_step req (p, pcs, enh) k =
          (p\<lparr>classNamesPtr := (classNamesPtr p)[storageClass p ! k := c],
             project_covarianceStatsToUse := mixed,
             project_statsUpToDate := stale,
             numberCommonCovarianceClasses := nccc\<rparr>,
           if k = 0 then final_setting req (classNamesPtr p ! (storageClass p ! k))
           else if pcs \<noteq> kMixedStats
                   \<and> pcs \<noteq> final_setting req (classNamesPtr p ! (storageClass p ! k))
           then kMixedStats else pcs,
           enh \<or> modifiedStatsFlag (classNamesPtr p ! (storageClass p ! k)))
      \<and> covarianceStatsToUse c = final_setting req (classNamesPtr p ! (storageClass p ! k))
      \<and> modifiedStatsFlag c = modifiedStatsFlag (classNamesPtr p ! (storageClass p ! k))"
proof -
  obtain c markMixed looStale where
    cs: "SetProjectCovarianceStatsToUse_class req (classNamesPtr p ! (storageClass p ! k))
           = (c, markMixed, looStale)"
    by (cases "SetProjectCovarianceStatsToUse_class req (classNamesPtr p ! (storageClass p ! k))")
  have fs: "covarianceStatsToUse c = final_setting req (classNamesPtr p ! (storageClass p ! k))"
    using class_step_setting [of req "classNamesPtr p ! (storageClass p ! k)"] by (simp add: cs)
  have m: "modifiedStatsFlag c = modifiedStatsFlag (classNamesPtr p ! (storageClass p ! k))"
    using class_step_enhanced [of req "classNamesPtr p ! (storageClass p ! k)"] by (simp add: cs)
  show ?thesis
    apply (rule exI [of _ c])
    apply (rule exI [of _ "if markMixed then kMixedStats else project_covarianceStatsToUse p"])
    apply (rule exI [of _ "if looStale then False else project_statsUpToDate p"])
    apply (rule exI [of _ "if looStale then 0 else numberCommonCovarianceClasses p"])
    using fs m by (simp add: SetProjectCovarianceStatsToUse_step_def cs)
qed

lemma spc_loop:
  assumes ok: "project_ok p" and k: "k \<le> numberStatisticsClasses p"
  shows "spc_inv req p k
           (foldl (SetProjectCovarianceStatsToUse_step req)
              (p\<lparr>project_covarianceStatsToUse := req\<rparr>, kOriginalStats, False) [0..<k])"
  using k
proof (induction k)
  case 0
  show ?case by (simp add: spc_inv_def class_has_enhanced_def)
next
  case (Suc k)
  let ?n = "numberStatisticsClasses p"
  let ?fs = "\<lambda>i. final_setting req (classNamesPtr p ! (storageClass p ! i))"
  obtain pk pcs enh where st: "foldl (SetProjectCovarianceStatsToUse_step req)
              (p\<lparr>project_covarianceStatsToUse := req\<rparr>, kOriginalStats, False) [0..<k] = (pk, pcs, enh)"
    by (cases "foldl (SetProjectCovarianceStatsToUse_step req)
              (p\<lparr>project_covarianceStatsToUse := req\<rparr>, kOriginalStats, False) [0..<k]")
  have kn: "k < ?n" using Suc.prems by simp
  have inv: "spc_inv req p k (pk, pcs, enh)" using Suc.IH kn by (simp add: st)
  then have i1: "storageClass pk = storageClass p" "numberStatisticsClasses pk = ?n"
      "length (classNamesPtr pk) = length (classNamesPtr p)"
    and i2: "\<forall>i<?n. k \<le> i \<longrightarrow>
            classNamesPtr pk ! (storageClass p ! i) = classNamesPtr p ! (storageClass p ! i)"
    and i3: "\<forall>i<k. class_setting pk i = ?fs i"
    and i4: "\<forall>i<?n. class_has_enhanced pk i = class_has_enhanced p i"
    and i5: "pcs = (if k = 0 then kOriginalStats
               else if \<forall>i<k. ?fs i = ?fs 0 then ?fs 0 else kMixedStats)"
    and i6: "enh = (\<exists>i<k. class_has_enhanced p i)"
    by (simp_all add: spc_inv_def)
  have cur: "classNamesPtr pk ! (storageClass p ! k) = classNamesPtr p ! (storageClass p ! k)"
    using i2 kn by simp
  obtain c mixed stale nccc where
    step: "SetProjectCovarianceStatsToUse_step req (pk, pcs, enh) k =
          (pk\<lparr>classNamesPtr := (classNamesPtr pk)[storageClass p ! k := c],
             project_covarianceStatsToUse := mixed,
             project_statsUpToDate := stale,
             numberCommonCovarianceClasses := nccc\<rparr>,
           if k = 0 then ?fs k
           else if pcs \<noteq> kMixedStats \<and> pcs \<noteq> ?fs k then kMixedStats else pcs,
           enh \<or> modifiedStatsFlag (classNamesPtr p ! (storageClass p ! k)))"
    and cfs: "covarianceStatsToUse c = ?fs k"
    and cm: "modifiedStatsFlag c = modifiedStatsFlag (classNamesPtr p ! (storageClass p ! k))"
    using spc_step [of req pk pcs enh k] unfolding i1 cur
    by (elim exE conjE) (rule that; assumption)
  let ?pk' = "pk\<lparr>classNamesPtr := (classNamesPtr pk)[storageClass p ! k := c],
             project_covarianceStatsToUse := mixed,
             project_statsUpToDate := stale,
             numberCommonCovarianceClasses := nccc\<rparr>"
  have inb: "storageClass p ! k < length (classNamesPtr pk)"
    using ok kn i1 by (simp add: project_ok_def)
  have other: "\<And>i. i < ?n \<Longrightarrow> i \<noteq> k \<Longrightarrow>
                 classNamesPtr ?pk' ! (storageClass p ! i) = classNamesPtr pk ! (storageClass p ! i)"
  proof -
    fix i assume "i < ?n" "i \<noteq> k"
    then have "storageClass p ! i \<noteq> storageClass p ! k"
      using storage_distinct [OF ok _ kn] by simp
    then show "classNamesPtr ?pk' ! (storageClass p ! i) = classNamesPtr pk ! (storageClass p ! i)"
      by simp
  qed
  have here: "classNamesPtr ?pk' ! (storageClass p ! k) = c" using inb by simp
  have j2: "\<forall>i<?n. Suc k \<le> i \<longrightarrow>
            classNamesPtr ?pk' ! (storageClass p ! i) = classNamesPtr p ! (storageClass p ! i)"
    using other i2 by simp
  have j3: "\<forall>i<Suc k. class_setting ?pk' i = ?fs i"
  proof (intro allI impI)
    fix i assume "i < Suc k"
    show "class_setting ?pk' i = ?fs i"
    proof (cases "i = k")
      case True
      then show ?thesis using here cfs by (simp add: class_setting_def i1)
    next
      case False
      then have ik: "i < k" using \<open>i < Suc k\<close> by simp
      then have "class_setting ?pk' i = class_setting pk i"
        using other [of i] kn False by (simp add: class_setting_def i1)
      then show ?thesis using i3 ik by simp
    qed
  qed
  have j4: "\<forall>i<?n. class_has_enhanced ?pk' i = class_has_enhanced p i"
  proof (intro allI impI)
    fix i assume i: "i < ?n"
    show "class_has_enhanced ?pk' i = class_has_enhanced p i"
    proof (cases "i = k")
      case True
      then show ?thesis using here cm by (simp add: class_has_enhanced_def i1)
    next
      case False
      then have "class_has_enhanced ?pk' i = class_has_enhanced pk i"
        using other [OF i] by (simp add: class_has_enhanced_def i1)
      then show ?thesis using i4 i by simp
    qed
  qed
  define A where "A = (\<forall>i<k. ?fs i = ?fs 0)"
  have all_Suc: "(\<forall>i<Suc k. ?fs i = ?fs 0) = (A \<and> ?fs k = ?fs 0)"
    unfolding All_less_Suc A_def by blast
  have A0: "k = 0 \<Longrightarrow> A" by (simp add: A_def)
  have nm: "?fs 0 \<noteq> kMixedStats" by (rule final_setting_not_mixed)
  have i5': "pcs = (if k = 0 then kOriginalStats else if A then ?fs 0 else kMixedStats)"
    unfolding A_def by (rule i5)
  have j5: "(if k = 0 then ?fs k
             else if pcs \<noteq> kMixedStats \<and> pcs \<noteq> ?fs k then kMixedStats else pcs) =
            (if \<forall>i<Suc k. ?fs i = ?fs 0 then ?fs 0 else kMixedStats)"
    unfolding all_Suc i5' using nm A0 by (cases A; cases "k = 0") auto
  have j6: "(enh \<or> modifiedStatsFlag (classNamesPtr p ! (storageClass p ! k))) =
            (\<exists>i<Suc k. class_has_enhanced p i)"
    unfolding i6 by (auto simp: less_Suc_eq class_has_enhanced_def)
  have "foldl (SetProjectCovarianceStatsToUse_step req)
              (p\<lparr>project_covarianceStatsToUse := req\<rparr>, kOriginalStats, False) [0..<Suc k] =
        (?pk', if \<forall>i<Suc k. ?fs i = ?fs 0 then ?fs 0 else kMixedStats,
         \<exists>i<Suc k. class_has_enhanced p i)"
    unfolding foldl_upt_Suc st step j5 j6 ..
  moreover have "spc_inv req p (Suc k)
        (?pk', if \<forall>i<Suc k. ?fs i = ?fs 0 then ?fs 0 else kMixedStats,
         \<exists>i<Suc k. class_has_enhanced p i)"
    unfolding spc_inv_def prod.case
    using i1 j2 j3 j4 by simp
  ultimately show ?case by simp
qed

lemma SetProjectCovarianceStatsToUse_result:
  assumes ok: "project_ok p"
  shows "project_covarianceStatsToUse (SetProjectCovarianceStatsToUse req p) =
           (if numberStatisticsClasses p = 0
               \<or> (req = kEnhancedStats \<and> (\<forall>i<numberStatisticsClasses p. \<not> class_has_enhanced p i))
            then kOriginalStats
            else if \<forall>i<numberStatisticsClasses p.
                      final_setting req (classNamesPtr p ! (storageClass p ! i)) =
                      final_setting req (classNamesPtr p ! (storageClass p ! 0))
            then final_setting req (classNamesPtr p ! (storageClass p ! 0))
            else kMixedStats)"
    and "\<forall>i<numberStatisticsClasses p.
           class_setting (SetProjectCovarianceStatsToUse req p) i =
             final_setting req (classNamesPtr p ! (storageClass p ! i))"
proof -
  let ?n = "numberStatisticsClasses p"
  let ?fs = "\<lambda>i. final_setting req (classNamesPtr p ! (storageClass p ! i))"
  define A where "A = (\<forall>i<?n. ?fs i = ?fs 0)"
  define E where "E = (\<exists>i<?n. class_has_enhanced p i)"
  obtain pn pcs enh where st: "foldl (SetProjectCovarianceStatsToUse_step req)
              (p\<lparr>project_covarianceStatsToUse := req\<rparr>, kOriginalStats, False) [0..<?n] = (pn, pcs, enh)"
    by (cases "foldl (SetProjectCovarianceStatsToUse_step req)
              (p\<lparr>project_covarianceStatsToUse := req\<rparr>, kOriginalStats, False) [0..<?n]")
  have inv: "spc_inv req p ?n (pn, pcs, enh)"
    using spc_loop [OF ok order_refl, of req] by (simp add: st)
  then have i1: "storageClass pn = storageClass p"
    and i3: "\<forall>i<?n. class_setting pn i = ?fs i"
    and i5: "pcs = (if ?n = 0 then kOriginalStats else if A then ?fs 0 else kMixedStats)"
    and i6: "enh = E"
    unfolding A_def E_def by (simp_all add: spc_inv_def)
  have E': "(\<forall>i<?n. \<not> class_has_enhanced p i) = (\<not> E)" unfolding E_def by blast
  have v: "(if req = kEnhancedStats \<and> \<not> E then kOriginalStats else pcs) =
           (if ?n = 0 \<or> (req = kEnhancedStats \<and> \<not> E) then kOriginalStats
            else if A then ?fs 0 else kMixedStats)"
    unfolding i5 by simp
  have res: "SetProjectCovarianceStatsToUse req p =
           pn\<lparr>project_covarianceStatsToUse :=
                 (if req = kEnhancedStats \<and> \<not> E then kOriginalStats else pcs),
               enhancedStatsExistFlag := E,
               gUpdateProjectMenuItemsFlag := True\<rparr>"
    by (simp add: SetProjectCovarianceStatsToUse_def st i6)
  have "project_covarianceStatsToUse (SetProjectCovarianceStatsToUse req p) =
          (if req = kEnhancedStats \<and> \<not> E then kOriginalStats else pcs)"
    unfolding res by simp
  then show "project_covarianceStatsToUse (SetProjectCovarianceStatsToUse req p) =
           (if ?n = 0 \<or> (req = kEnhancedStats \<and> (\<forall>i<?n. \<not> class_has_enhanced p i))
            then kOriginalStats
            else if \<forall>i<?n. ?fs i = ?fs 0 then ?fs 0 else kMixedStats)"
    unfolding E' A_def [symmetric] by (simp only: v)
  have "\<And>i. class_setting (SetProjectCovarianceStatsToUse req p) i = class_setting pn i"
    unfolding res by (simp add: class_setting_def)
  then show "\<forall>i<?n. class_setting (SetProjectCovarianceStatsToUse req p) i = ?fs i"
    using i3 by simp
qed

text \<open>
  Claim C8 as stated fails at the project level. When enhanced statistics are requested
  and no class has any, every class goes back to its previous selection and the project is
  set to Original by the last test of the routine: with both classes on leave-one-out the
  project is Original, not their common selection, and with the classes on Original and
  leave-one-out the project is Original, not Mixed.
\<close>

theorem covariance_setting_counterexample:
  "class_setting (SetProjectCovarianceStatsToUse kEnhancedStats
       (example_project [example_class kLeaveOneOutStats False,
                         example_class kLeaveOneOutStats False] [])) 0 = kLeaveOneOutStats
   \<and> class_setting (SetProjectCovarianceStatsToUse kEnhancedStats
       (example_project [example_class kLeaveOneOutStats False,
                         example_class kLeaveOneOutStats False] [])) 1 = kLeaveOneOutStats
   \<and> project_covarianceStatsToUse (SetProjectCovarianceStatsToUse kEnhancedStats
       (example_project [example_class kLeaveOneOutStats False,
                         example_class kLeaveOneOutStats False] [])) = kOriginalStats
   \<and> class_setting (SetProjectCovarianceStatsToUse kEnhancedStats
       (example_project [example_class kOriginalStats False,
                         example_class kLeaveOneOutStats False] [])) 0 = kOriginalStats
   \<and> class_setting (SetProjectCovarianceStatsToUse kEnhancedStats
       (example_project [example_class kOriginalStats False,
                         example_class kLeaveOneOutStats False] [])) 1 = kLeaveOneOutStats
   \<and> project_covarianceStatsToUse (SetProjectCovarianceStatsToUse kEnhancedStats
       (example_project [example_class kOriginalStats False,
                         example_class kLeaveOneOutStats False] [])) \<noteq> kMixedStats"
  by code_simp

lemma scan_iff:
  "SetClassCovarianceStatsToUse_scan req p xs = (\<exists>i\<in>set xs. req \<noteq> class_setting p i)"
  by (induction xs) (auto simp: class_setting_def)

lemma SetClassCovarianceStatsToUse_rejects:
  "req = 0 \<or> kEnhancedStats < req \<Longrightarrow> SetClassCovarianceStatsToUse req p = p"
  by (auto simp: SetClassCovarianceStatsToUse_def)

lemma SetClassCovarianceStatsToUse_result:
  assumes ok: "project_ok p" and cur: "currentClass p < numberStatisticsClasses p"
    and req: "0 < req" "req \<le> kEnhancedStats"
  shows "storageClass (SetClassCovarianceStatsToUse req p) = storageClass p"
    and "\<forall>i<numberStatisticsClasses p.
           class_setting (SetClassCovarianceStatsToUse req p) i =
             (if i = currentClass p then req else class_setting p i)"
    and "project_covarianceStatsToUse (SetClassCovarianceStatsToUse req p) =
           (if \<forall>i<numberStatisticsClasses p.
                 class_setting (SetClassCovarianceStatsToUse req p) i = req
            then req else kMixedStats)"
proof -
  let ?n = "numberStatisticsClasses p"
  let ?cs = "storageClass p ! currentClass p"
  let ?p1 = "p\<lparr>classNamesPtr := (classNamesPtr p)[?cs :=
                       (classNamesPtr p ! ?cs)\<lparr>covarianceStatsToUse := req\<rparr>],
                    project_covarianceStatsToUse := req\<rparr>"
  have inb: "?cs < length (classNamesPtr p)" using ok cur by (simp add: project_ok_def)
  have set1: "\<And>i. i < ?n \<Longrightarrow>
               class_setting ?p1 i = (if i = currentClass p then req else class_setting p i)"
  proof -
    fix i assume i: "i < ?n"
    show "class_setting ?p1 i = (if i = currentClass p then req else class_setting p i)"
    proof (cases "i = currentClass p")
      case True
      then show ?thesis using inb by (simp add: class_setting_def)
    next
      case False
      then have "storageClass p ! i \<noteq> ?cs" using storage_distinct [OF ok i cur] by simp
      then show ?thesis using False by (simp add: class_setting_def)
    qed
  qed
  define Q where "Q = SetClassCovarianceStatsToUse req p"
  have g: "\<not> (req \<le> 0 \<or> req > kEnhancedStats)" using req by simp
  have sc: "storageClass Q = storageClass p"
    unfolding Q_def SetClassCovarianceStatsToUse_def if_not_P [OF g] by (simp add: Let_def)
  have cl: "\<And>i. covarianceStatsToUse (classNamesPtr Q ! (storageClass p ! i)) =
                 covarianceStatsToUse (classNamesPtr ?p1 ! (storageClass p ! i))"
    unfolding Q_def SetClassCovarianceStatsToUse_def if_not_P [OF g]
    using inb by (auto simp: Let_def nth_list_update)
  have setQ: "\<And>i. i < ?n \<Longrightarrow>
               class_setting Q i = (if i = currentClass p then req else class_setting p i)"
    using set1 cl by (simp add: class_setting_def sc)
  have pc: "project_covarianceStatsToUse Q =
              (if SetClassCovarianceStatsToUse_scan req ?p1 [0..<?n] then kMixedStats else req)"
    unfolding Q_def SetClassCovarianceStatsToUse_def if_not_P [OF g] by (simp add: Let_def)
  have "SetClassCovarianceStatsToUse_scan req ?p1 [0..<?n] = (\<exists>i<?n. req \<noteq> class_setting ?p1 i)"
    unfolding scan_iff by auto
  also have "\<dots> = (\<exists>i<?n. req \<noteq> class_setting Q i)"
    using set1 setQ by auto
  finally have scan: "SetClassCovarianceStatsToUse_scan req ?p1 [0..<?n] =
                        (\<not> (\<forall>i<?n. class_setting Q i = req))" by auto
  show "storageClass (SetClassCovarianceStatsToUse req p) = storageClass p"
    using sc unfolding Q_def .
  show "\<forall>i<?n. class_setting (SetClassCovarianceStatsToUse req p) i =
             (if i = currentClass p then req else class_setting p i)"
    using setQ unfolding Q_def by blast
  show "project_covarianceStatsToUse (SetClassCovarianceStatsToUse req p) =
           (if \<forall>i<?n. class_setting (SetClassCovarianceStatsToUse req p) i = req
            then req else kMixedStats)"
  proof (cases "\<forall>i<?n. class_setting Q i = req")
    case True
    then have "project_covarianceStatsToUse Q = req" unfolding pc scan by simp
    then show ?thesis using True unfolding Q_def by simp
  next
    case False
    then have "project_covarianceStatsToUse Q = kMixedStats" unfolding pc scan by simp
    then show ?thesis using False unfolding Q_def by (simp only: if_False)
  qed
qed

text \<open>
  Claim C8, amended. After \<open>SetProjectCovarianceStatsToUse\<close> no class of the project has the
  selection Mixed. The project-level selection is Original when the project has no class,
  and when enhanced statistics were requested and no class has them; otherwise it is the
  common class selection when all classes agree and Mixed when they disagree.
  \<open>SetClassCovarianceStatsToUse\<close> leaves the project untouched when asked for Mixed; for a
  valid selection it stores it in the current class only and makes the project-level
  selection that value when every class has it and Mixed otherwise.
\<close>

theorem covariance_setting_never_mixed_per_class:
  assumes "project_ok p"
  shows "(\<forall>i<numberStatisticsClasses p.
            class_setting (SetProjectCovarianceStatsToUse req p) i \<noteq> kMixedStats)
       \<and> project_covarianceStatsToUse (SetProjectCovarianceStatsToUse req p) =
           (if numberStatisticsClasses p = 0
               \<or> (req = kEnhancedStats \<and> (\<forall>i<numberStatisticsClasses p. \<not> class_has_enhanced p i))
            then kOriginalStats
            else if \<forall>i<numberStatisticsClasses p.
                      class_setting (SetProjectCovarianceStatsToUse req p) i =
                      class_setting (SetProjectCovarianceStatsToUse req p) 0
            then class_setting (SetProjectCovarianceStatsToUse req p) 0
            else kMixedStats)
       \<and> SetClassCovarianceStatsToUse kMixedStats p = p
       \<and> (0 < req \<and> req \<le> kEnhancedStats \<and> currentClass p < numberStatisticsClasses p \<longrightarrow>
            (\<forall>i<numberStatisticsClasses p.
               class_setting (SetClassCovarianceStatsToUse req p) i =
                 (if i = currentClass p then req else class_setting p i))
          \<and> project_covarianceStatsToUse (SetClassCovarianceStatsToUse req p) =
               (if \<forall>i<numberStatisticsClasses p.
                     class_setting (SetClassCovarianceStatsToUse req p) i = req
                then req else kMixedStats))"
proof -
  let ?n = "numberStatisticsClasses p"
  let ?fs = "\<lambda>i. final_setting req (classNamesPtr p ! (storageClass p ! i))"
  define P' where "P' = SetProjectCovarianceStatsToUse req p"
  define ovr where "ovr = (?n = 0 \<or> (req = kEnhancedStats \<and> (\<forall>i<?n. \<not> class_has_enhanced p i)))"
  have cs': "\<And>i. i < ?n \<Longrightarrow> class_setting P' i = ?fs i"
    using SetProjectCovarianceStatsToUse_result(2) [OF assms, of req] unfolding P'_def by blast
  have pc: "project_covarianceStatsToUse P' =
              (if ovr then kOriginalStats
               else if \<forall>i<?n. ?fs i = ?fs 0 then ?fs 0 else kMixedStats)"
    unfolding P'_def ovr_def by (rule SetProjectCovarianceStatsToUse_result(1) [OF assms])
  have a: "\<forall>i<?n. class_setting P' i \<noteq> kMixedStats"
  proof (intro allI impI)
    fix i assume i: "i < ?n"
    show "class_setting P' i \<noteq> kMixedStats"
      unfolding cs' [OF i] by (rule final_setting_not_mixed)
  qed
  have b: "project_covarianceStatsToUse P' =
              (if ovr then kOriginalStats
               else if \<forall>i<?n. class_setting P' i = class_setting P' 0 then class_setting P' 0
               else kMixedStats)"
  proof (cases ovr)
    case True
    then show ?thesis unfolding pc by simp
  next
    case False
    then have n0: "0 < ?n" unfolding ovr_def by simp
    have z: "class_setting P' 0 = ?fs 0" using cs' n0 by blast
    have e: "(\<forall>i<?n. class_setting P' i = ?fs 0) = (\<forall>i<?n. ?fs i = ?fs 0)"
    proof (intro iffI allI impI)
      fix i assume h: "\<forall>i<?n. class_setting P' i = ?fs 0" and i: "i < ?n"
      have "class_setting P' i = ?fs 0" using h i by blast
      then show "?fs i = ?fs 0" unfolding cs' [OF i] .
    next
      fix i assume h: "\<forall>i<?n. ?fs i = ?fs 0" and i: "i < ?n"
      have "?fs i = ?fs 0" using h i by blast
      then show "class_setting P' i = ?fs 0" unfolding cs' [OF i] .
    qed
    show ?thesis unfolding pc z e using False by (simp only: if_False)
  qed
  have c: "SetClassCovarianceStatsToUse kMixedStats p = p"
    by (rule SetClassCovarianceStatsToUse_rejects) (simp add: stats_codes)
  have d: "0 < req \<and> req \<le> kEnhancedStats \<and> currentClass p < ?n \<longrightarrow>
            (\<forall>i<?n. class_setting (SetClassCovarianceStatsToUse req p) i =
                 (if i = currentClass p then req else class_setting p i))
          \<and> project_covarianceStatsToUse (SetClassCovarianceStatsToUse req p) =
               (if \<forall>i<?n. class_setting (SetClassCovarianceStatsToUse req p) i = req
                then req else kMixedStats)"
    using SetClassCovarianceStatsToUse_result(2,3) [OF assms, of req] by blast
  show ?thesis
    using a b c d unfolding P'_def ovr_def by (intro conjI) assumption+
qed

theorem covariance_setting_never_mixed_per_class_witness:
  "project_ok (example_project [example_class kMixedStats True,
                                example_class kLeaveOneOutStats False] [])
   \<and> 0 < kEnhancedStats \<and> kEnhancedStats \<le> kEnhancedStats
   \<and> currentClass (example_project [example_class kMixedStats True,
                                    example_class kLeaveOneOutStats False] [])
       < numberStatisticsClasses (example_project [example_class kMixedStats True,
                                    example_class kLeaveOneOutStats False] [])
   \<and> class_setting (SetProjectCovarianceStatsToUse kEnhancedStats
         (example_project [example_class kMixedStats True,
                           example_class kLeaveOneOutStats False] [])) 0 = kEnhancedStats
   \<and> class_setting (SetProjectCovarianceStatsToUse kEnhancedStats
         (example_project [example_class kMixedStats True,
                           example_class kLeaveOneOutStats False] [])) 1 = kLeaveOneOutStats
   \<and> project_covarianceStatsToUse (SetProjectCovarianceStatsToUse kEnhancedStats
         (example_project [example_class kMixedStats True,
                           example_class kLeaveOneOutStats False] [])) = kMixedStats
   \<and> project_covarianceStatsToUse (SetProjectCovarianceStatsToUse kMixedStats
         (example_project [example_class kMixedStats True,
                           example_class kOriginalStats False] [])) = kOriginalStats
   \<and> project_covarianceStatsToUse (SetClassCovarianceStatsToUse kEnhancedStats
         (example_project [example_class kMixedStats True,
                           example_class kLeaveOneOutStats False] [])) = kMixedStats"
proof -
  let ?p = "example_project [example_class kMixedStats True,
                             example_class kLeaveOneOutStats False] []"
  have h: "project_ok ?p" by code_simp
  have r: "0 < kEnhancedStats" "kEnhancedStats \<le> kEnhancedStats"
      "currentClass ?p < numberStatisticsClasses ?p" by code_simp+
  have e1: "class_setting (SetProjectCovarianceStatsToUse kEnhancedStats ?p) 0 = kEnhancedStats"
    by code_simp
  have e2: "class_setting (SetProjectCovarianceStatsToUse kEnhancedStats ?p) 1 = kLeaveOneOutStats"
    by code_simp
  have e3: "project_covarianceStatsToUse (SetProjectCovarianceStatsToUse kEnhancedStats ?p)
              = kMixedStats" by code_simp
  have e4: "project_covarianceStatsToUse (SetProjectCovarianceStatsToUse kMixedStats
         (example_project [example_class kMixedStats True,
                           example_class kOriginalStats False] [])) = kOriginalStats"
    by code_simp
  have e5: "project_covarianceStatsToUse (SetClassCovarianceStatsToUse kEnhancedStats ?p)
              = kMixedStats" by code_simp
  show ?thesis
    using covariance_setting_never_mixed_per_class [OF h, of kEnhancedStats] h r e1 e2 e3 e4 e5
    by (intro conjI) assumption+
qed

section \<open>Finishing a statistics update\<close>

lemma walk_chain:
  "field_chain fieldList fieldNumber chain \<Longrightarrow>
     FinishClassStatsUpdate_walk fieldList fieldNumber =
       Some (\<forall>k\<in>set chain. fieldType (fieldList ! k) = kTrainingType \<longrightarrow>
                               loadedIntoClassStats (fieldList ! k))"
proof (induction rule: field_chain.induct)
  case (chain_end fieldList)
  show ?case by (subst FinishClassStatsUpdate_walk.simps) simp
next
  case (chain_next fieldNumber fieldList rest)
  then have "fieldNumber \<noteq> - 1" by simp
  then show ?case
    using chain_next.IH by (subst FinishClassStatsUpdate_walk.simps) auto
qed

text \<open>
  For a class with training fields that is not marked up to date on entry,
  \<open>FinishClassStatsUpdate\<close> returns, and stores in the class, whether every training field
  of the class is loaded into the class statistics; the class-level mean and standard
  deviation are computed exactly when only class statistics are kept.
\<close>

lemma FinishClassStatsUpdate_stale_class:
  assumes "classNumber < numberStatisticsClasses p"
    and "storageClass p ! classNumber < length (classNamesPtr p)"
    and "0 < numberOfTrainFields (classNamesPtr p ! (storageClass p ! classNumber))"
    and "\<not> statsUpToDate (classNamesPtr p ! (storageClass p ! classNumber))"
    and "field_chain (fieldIdentPtr p)
           (firstFieldNumber (classNamesPtr p ! (storageClass p ! classNumber))) chain"
  shows "\<exists>p'. FinishClassStatsUpdate cmsd classNumber p =
               Some (\<forall>k\<in>set chain. fieldType (fieldIdentPtr p ! k) = kTrainingType \<longrightarrow>
                                      loadedIntoClassStats (fieldIdentPtr p ! k), p')
            \<and> statsUpToDate (classNamesPtr p' ! (storageClass p ! classNumber)) =
                (\<forall>k\<in>set chain. fieldType (fieldIdentPtr p ! k) = kTrainingType \<longrightarrow>
                                  loadedIntoClassStats (fieldIdentPtr p ! k))
            \<and> classChanStatsPtr p' =
                (if keepClassStatsOnlyFlag p
                 then cmsd (classChanStatsPtr p)
                        (storageClass p ! classNumber * numberStatisticsChannels p)
                        (classSumSquaresStatsPtr p)
                        (storageClass p ! classNumber * numberCovarianceEntries p)
                        (numberStatisticsChannels p)
                        (numberStatisticsPixels
                           (classNamesPtr p ! (storageClass p ! classNumber)) mod 2 ^ 32)
                        (statisticsCode p)
                 else classChanStatsPtr p)"
  using assms(1-4) walk_chain [OF assms(5)]
  by (simp add: FinishClassStatsUpdate_def Let_def)

text \<open>
  Claim C1. A class that is already marked up to date, with its only training field loaded
  into the class statistics: \<open>FinishClassStatsUpdate\<close> returns false and clears the class's
  \<open>statsUpToDate\<close>, and \<open>FinishProjectStatsUpdate\<close> then marks the project as not up to date.
\<close>

theorem FinishClassStatsUpdate_clears_up_to_date_class:
  "statsUpToDate (example_class kOriginalStats False\<lparr>firstFieldNumber := 0\<rparr>)
   \<and> 0 < numberOfTrainFields (example_class kOriginalStats False\<lparr>firstFieldNumber := 0\<rparr>)
   \<and> field_chain [example_field kTrainingType (- 1) True] 0 [0]
   \<and> loadedIntoClassStats (example_field kTrainingType (- 1) True)
   \<and> map_option fst (FinishClassStatsUpdate no_mean_stddev 0
         (example_project [example_class kOriginalStats False\<lparr>firstFieldNumber := 0\<rparr>]
            [example_field kTrainingType (- 1) True])) = Some False
   \<and> map_option (\<lambda>r. statsUpToDate (classNamesPtr (snd r) ! 0))
         (FinishClassStatsUpdate no_mean_stddev 0
            (example_project [example_class kOriginalStats False\<lparr>firstFieldNumber := 0\<rparr>]
               [example_field kTrainingType (- 1) True])) = Some False
   \<and> map_option project_statsUpToDate (FinishProjectStatsUpdate no_mean_stddev
         (example_project [example_class kOriginalStats False\<lparr>firstFieldNumber := 0\<rparr>]
            [example_field kTrainingType (- 1) True])) = Some False"
proof -
  have c: "field_chain [example_field kTrainingType (- 1) True] 0 [0]"
    using chain_next [of 0 "[example_field kTrainingType (- 1) True]" "[]"] chain_end
    by (simp add: example_field_def)
  have e: "FinishClassStatsUpdate no_mean_stddev 0
         (example_project [example_class kOriginalStats False\<lparr>firstFieldNumber := 0\<rparr>]
            [example_field kTrainingType (- 1) True]) =
        Some (False, example_project
                [example_class kOriginalStats False\<lparr>firstFieldNumber := 0, statsUpToDate := False\<rparr>]
                [example_field kTrainingType (- 1) True])"
    by (simp add: FinishClassStatsUpdate_def example_project_def example_class_def Let_def)
  have f: "map_option project_statsUpToDate (FinishProjectStatsUpdate no_mean_stddev
         (example_project [example_class kOriginalStats False\<lparr>firstFieldNumber := 0\<rparr>]
            [example_field kTrainingType (- 1) True])) = Some False"
    by (simp add: FinishProjectStatsUpdate_def FinishClassStatsUpdate_def example_project_def
        example_class_def Let_def)
  show ?thesis
    using c e f by (simp add: example_class_def example_field_def example_project_def)
qed

section \<open>The class statistics accessors\<close>

section \<open>The accessors: what they deliver and when they return\<close>











lemma packed_index_commute: "packed_index a b = packed_index b a"
  by (simp add: packed_index_def max.commute min.commute)





























text \<open>
  Claim C4 as stated does not hold when the caller asks for enhanced statistics for a class
  that stores another selection: \<open>GetClassCovarianceMatrix\<close> delivers the stored modified
  covariance, and with it channel statistics computed from the original sums (mean
  \<open>50 / 10\<close>), not the stored modified channel statistics (mean \<open>7\<close>).
\<close>

theorem enhanced_request_counterexample:
  "covarianceStatsToUse (class_record example_mismatch_project 0) = kOriginalStats
   \<and> modifiedStatsFlag (class_record example_mismatch_project 0)
   \<and> modifiedClassChanStatsPtr example_mismatch_project = [chan 7 70 0 2 8]
   \<and> modifiedClassCovStatsPtr example_mismatch_project = [4]
   \<and> GetClassCovarianceMatrix (example_externals [1] 5) example_mismatch_project 1
         (Some [chan 0 0 0 0 0]) (Some [9]) None 0 False kMeanCovariance kEnhancedStats =
       Some (example_mismatch_project, Some [chan 5 50 (- 1) 1 9], Some [4])"
  by (simp add: GetClassCovarianceMatrix_def GetClassCovarianceMatrix_compute_def
        GetClassCovarianceMatrix_finish_def GetClassChannelStatistics_def
        ReduceInputMatrix_def reduced_entries_def lower_index_def packed_index_def
        feature_channel_def class_record_def
        example_mismatch_project_def example_project_def example_class_def
        example_externals_def kOriginalStats_def kEnhancedStats_def kMeanCovariance_def
        AddToClassChannelStatistics_def AddToClassChannelStatistics_step_def
        merge_channel_def chan_def Let_def)


lemmas example_project_eval =
  example_field_project_def example_fallback_project_def example_mismatch_project_def
  example_empty_class_project_def example_no_pixel_project_def example_empty_enhanced_project_def example_enhanced_project_def
  example_loo_project_def example_project_def example_class_def example_field_def
  example_externals_def example_loo_externals_def class_record_def no_mean_stddev_def
  kOriginalStats_def kLeaveOneOutStats_def kEnhancedStats_def kMixedStats_def
  kMeanCovariance_def kMeanStdDevOnly_def kTrainingType_def

lemmas accessor_eval =
  GetClassCovarianceMatrix_def GetClassCovarianceMatrix_compute_def
  GetClassCovarianceMatrix_finish_def GetClassCovarianceMatrix_loo_def
  GetClassChannelStatistics_def GetClassMeanVector_def GetClassSumsSquares_def
  ComputeVarianceVector_def modified_covariance_def
  ReduceChanStatsVector_def ReduceChanStatsVector_step_def
  ReduceInputMatrix_def reduced_entries_def lower_index_def packed_index_def
  feature_channel_def CopyLowerToUpperSquareMatrix_def
  ResetZeroVariances_def ResetZeroVariances_loop.simps ResetZeroVariances_step_def
  AddToClassChannelStatistics_def AddToClassChannelStatistics_step_def merge_channel_def
  merged_field_channels_def merged_field_statistics_def field_is_merged_def
  chan_def Let_def

lemma upt_examples:
  "[0..<2] = [0, 1]" "[0..<3] = [0, 1, 2]" "[0..<4] = [0, 1, 2, 3]"
  by (simp_all add: upt_rec)













section \<open>The common covariance\<close>

lemma GetCommonCovariance_passes_None:
  "GetCommonCovariance_passes ext cp fp n nf sq code use s0 k = None \<Longrightarrow>
     GetCommonCovariance_passes ext cp fp n nf sq code use s0 (k + d) = None"
  by (induction d) simp_all

lemma GetCommonCovariance_passes_stop:
  "GetCommonCovariance_passes ext cp fp n nf sq code use s0 k = Some s \<Longrightarrow>
     \<not> gcc_continueFlag s \<Longrightarrow>
     GetCommonCovariance_passes ext cp fp n nf sq code use s0 (k + d) = Some s"
  by (induction d) simp_all

lemma GetCommonCovariance_loop_passes:
  "i \<le> n \<Longrightarrow> GetCommonCovariance_passes ext cp fp n nf sq code use s0 i = Some s \<Longrightarrow>
     gcc_continueFlag s \<Longrightarrow>
     GetCommonCovariance_loop ext cp fp n nf sq code use i s =
       GetCommonCovariance_passes ext cp fp n nf sq code use s0 n"
proof (induction "n - i" arbitrary: i s)
  case 0
  then have "i = n" by simp
  with "0.prems" show ?case
    by (subst GetCommonCovariance_loop.simps) simp
next
  case (Suc d)
  then have lt: "i < n" by simp
  have st: "GetCommonCovariance_passes ext cp fp n nf sq code use s0 (Suc i) =
              GetCommonCovariance_step ext cp fp n nf sq code use s i"
    using Suc.prems by simp
  have n: "n = Suc i + (n - Suc i)" using lt by simp
  show ?case
  proof (cases "GetCommonCovariance_step ext cp fp n nf sq code use s i")
    case None
    with st have "GetCommonCovariance_passes ext cp fp n nf sq code use s0 (Suc i) = None"
      by simp
    from GetCommonCovariance_passes_None [OF this, of "n - Suc i"] n
    have "GetCommonCovariance_passes ext cp fp n nf sq code use s0 n = None" by simp
    with None lt show ?thesis
      by (subst GetCommonCovariance_loop.simps) simp
  next
    case (Some s')
    with st have p: "GetCommonCovariance_passes ext cp fp n nf sq code use s0 (Suc i) = Some s'"
      by simp
    show ?thesis
    proof (cases "gcc_continueFlag s'")
      case True
      have "GetCommonCovariance_loop ext cp fp n nf sq code use (Suc i) s' =
              GetCommonCovariance_passes ext cp fp n nf sq code use s0 n"
        using Suc.hyps(1) [of "Suc i" s'] Suc.hyps(2) lt p True by simp
      with Some True lt show ?thesis
        by (subst GetCommonCovariance_loop.simps) simp
    next
      case False
      from GetCommonCovariance_passes_stop [OF p False, of "n - Suc i"] n
      have "GetCommonCovariance_passes ext cp fp n nf sq code use s0 n = Some s'" by simp
      with Some False lt show ?thesis
        by (subst GetCommonCovariance_loop.simps) simp
    qed
  qed
qed

lemma GetCommonCovariance_eq_passes:
  "GetCommonCovariance ext p cov temp chanPtr cp fp n nf sq code use flag =
     (case GetCommonCovariance_passes ext cp fp n nf sq code use
             (GetCommonCovariance_init p cov temp chanPtr nf sq) n of
        None \<Rightarrow> None
      | Some s \<Rightarrow>
          Some (gcc_continueFlag s,
                if gcc_continueFlag s \<and> flag
                then (gcc_project s)\<lparr>numberCommonCovarianceClasses :=
                                       gcc_numberClasses s mod 65536\<rparr>
                else gcc_project s,
                gcc_covariance s, gcc_tempMatrix s, gcc_classChannelStats s))"
proof -
  have "GetCommonCovariance_loop ext cp fp n nf sq code use 0
          (GetCommonCovariance_init p cov temp chanPtr nf sq) =
        GetCommonCovariance_passes ext cp fp n nf sq code use
          (GetCommonCovariance_init p cov temp chanPtr nf sq) n"
    by (rule GetCommonCovariance_loop_passes) (simp_all add: GetCommonCovariance_init_def)
  then show ?thesis by (simp add: GetCommonCovariance_def)
qed



























lemma GetCommonCovariance_passes_numeral:
  "GetCommonCovariance_passes ext cp fp n nf sq code use s0 (numeral k) =
     GetCommonCovariance_passes ext cp fp n nf sq code use s0 (Suc (pred_numeral k))"
  by (simp only: numeral_eq_Suc)

lemmas common_eval =
  GetCommonCovariance_eq_passes GetCommonCovariance_passes_numeral
  GetCommonCovariance_step_def GetCommonCovariance_weight_def GetCommonCovariance_class_def
  GetCommonCovariance_statsToUse_def GetCommonCovariance_add_def
  GetCommonCovariance_numberIndices_def GetCommonCovariance_init_def ZeroMatrix_def

text \<open>
  The runs of the concrete evaluations, pass by pass: the weights and classes of the passes,
  the calls of the accessor, and the state after each pass.
\<close>

lemma GetCommonCovariance_passes_step:
  assumes "GetCommonCovariance_passes ext cp fp n nf sq code use s0 k = Some s"
  shows "GetCommonCovariance_passes ext cp fp n nf sq code use s0 (Suc k) =
           (if gcc_continueFlag s
            then GetCommonCovariance_step ext cp fp n nf sq code use s k else Some s)"
  using assms by simp

lemma GetCommonCovariance_passes_3:
  "GetCommonCovariance_passes ext cp fp n nf sq code use s0 3 =
     GetCommonCovariance_passes ext cp fp n nf sq code use s0 (Suc (Suc (Suc 0)))"
  by (simp only: numeral_3_eq_3)

lemma example_weights:
  "GetCommonCovariance_weight (example_loo_externals [1, 1, 2] c) None 3 0 = 1 / 4"
  "GetCommonCovariance_weight (example_loo_externals [1, 1, 2] c) None 3 (Suc 0) = 1 / 4"
  "GetCommonCovariance_weight (example_externals [1, 1, 2] c) None 3 0 = 1 / 4"
  "GetCommonCovariance_weight (example_externals [1, 1, 2] c) None 3 (Suc 0) = 1 / 4"
  "GetCommonCovariance_weight (example_externals [1, 0, 3] c) None 3 0 = 1 / 4"
  "GetCommonCovariance_weight (example_externals [1, 0, 3] c) None 3 (Suc 0) = 0"
  "GetCommonCovariance_weight (example_externals [1, 0, 3] c) None 3 (Suc (Suc 0)) = 3 / 4"
  "GetCommonCovariance_weight (example_externals [1, 0, 3] c) (Some [3, 2, Suc 0]) 3 0 = 3 / 4"
  "GetCommonCovariance_weight (example_externals [1, 0, 3] c) (Some [3, 2, Suc 0]) 3 (Suc 0) = 0"
  "GetCommonCovariance_weight (example_externals [1, 0, 3] c) (Some [3, 2, Suc 0]) 3 (Suc (Suc 0))
     = 1 / 4"
  by (simp_all add: GetCommonCovariance_weight_def GetCommonCovariance_class_def
        example_externals_def example_loo_externals_def)

lemma example_classes:
  "GetCommonCovariance_class None i = i"
  "GetCommonCovariance_class (Some [3, 2, Suc 0]) 0 = 2"
  "GetCommonCovariance_class (Some [3, 2, Suc 0]) (Suc 0) = Suc 0"
  "GetCommonCovariance_class (Some [3, 2, Suc 0]) (Suc (Suc 0)) = 0"
  by (simp_all add: GetCommonCovariance_class_def)

lemma example_selection:
  "GetCommonCovariance_statsToUse q kLeaveOneOutStats c = kLeaveOneOutStats"
  "GetCommonCovariance_statsToUse q kEnhancedStats c = kEnhancedStats"
  "GetCommonCovariance_statsToUse example_enhanced_project kMixedStats c = kEnhancedStats"
    if "c < 3" for c
  using that
  by (auto simp add: GetCommonCovariance_statsToUse_def example_project_eval upt_examples
        nth_Cons' less_Suc_eq numeral_3_eq_3)

lemma example_flags:
  "gOperationCanceledFlag example_loo_project = False"
  "numberCommonCovarianceClasses example_loo_project = 0"
  "gOperationCanceledFlag example_enhanced_project = False"
  "numberCommonCovarianceClasses example_enhanced_project = 7"
  by (simp_all add: example_project_eval)

lemmas pass_eval =
  GetCommonCovariance_step_def GetCommonCovariance_init_def
  GetCommonCovariance_add_def GetCommonCovariance_numberIndices_def ZeroMatrix_def
  example_weights example_classes example_flags

lemma example_loo_run_call_1:
  "GetClassCovarianceMatrix (example_loo_externals [1, 1, 2] (Suc 0))
     (example_loo_project) (Suc 0)
     (Some [chan 0 0 0 0 0]) (Some [9]) None (0) False kMeanCovariance
     kLeaveOneOutStats =
   Some (example_loo_project\<lparr>numberCommonCovarianceClasses := 3,
                           localCommonCovarianceLoadedFlag := True,
                           commonCovarianceStats := Some [1, 1]\<rparr>,
         Some [chan 0 10 (- 1) 0 2], Some [2])"
  by (simp add: accessor_eval example_project_eval upt_examples)

lemma example_loo_run_1:
  "GetCommonCovariance_passes (example_loo_externals [1, 1, 2] (Suc 0)) None None 3 (Suc 0)
     False kMeanCovariance kLeaveOneOutStats
     (GetCommonCovariance_init example_loo_project [9] [9] (Some [chan 0 0 0 0 0]) (Suc 0)
        False)
     (Suc 0) =
   Some \<lparr>gcc_project = example_loo_project\<lparr>numberCommonCovarianceClasses := 3,
                           localCommonCovarianceLoadedFlag := True,
                           commonCovarianceStats := Some [1, 1]\<rparr>,
         gcc_covariance = [1 / 2], gcc_tempMatrix = [2],
         gcc_classChannelStats = Some [chan 0 10 (- 1) 0 2],
         gcc_numberClasses = Suc 0, gcc_continueFlag = True\<rparr>"
  by (simp add: pass_eval example_selection example_loo_run_call_1)

lemma example_loo_run_call_2:
  "GetClassCovarianceMatrix (example_loo_externals [1, 1, 2] (Suc 0))
     (example_loo_project\<lparr>numberCommonCovarianceClasses := 3,
                           localCommonCovarianceLoadedFlag := True,
                           commonCovarianceStats := Some [1, 1]\<rparr>) (Suc 0)
     (Some [chan 0 10 (- 1) 0 2]) (Some [2]) None (Suc 0) False kMeanCovariance
     kLeaveOneOutStats =
   Some (example_loo_project\<lparr>numberCommonCovarianceClasses := 3,
                           localCommonCovarianceLoadedFlag := True,
                           commonCovarianceStats := Some [1, 1],
                           gOperationCanceledFlag := True\<rparr>,
         Some [chan 0 20 (- 1) 0 3], Some [1 / 100])"
  by (simp add: accessor_eval example_project_eval upt_examples)

lemma example_loo_run_2:
  "GetCommonCovariance_passes (example_loo_externals [1, 1, 2] (Suc 0)) None None 3 (Suc 0)
     False kMeanCovariance kLeaveOneOutStats
     (GetCommonCovariance_init example_loo_project [9] [9] (Some [chan 0 0 0 0 0]) (Suc 0)
        False)
     (Suc (Suc 0)) =
   Some \<lparr>gcc_project = example_loo_project\<lparr>numberCommonCovarianceClasses := 3,
                           localCommonCovarianceLoadedFlag := True,
                           commonCovarianceStats := Some [1, 1],
                           gOperationCanceledFlag := True\<rparr>,
         gcc_covariance = [201 / 400], gcc_tempMatrix = [1 / 100],
         gcc_classChannelStats = Some [chan 0 20 (- 1) 0 3],
         gcc_numberClasses = 2, gcc_continueFlag = False\<rparr>"
  by (simp only: GetCommonCovariance_passes_step [OF example_loo_run_1])
     (simp add: pass_eval example_selection example_loo_run_call_2)

lemma example_loo_run_3:
  "GetCommonCovariance_passes (example_loo_externals [1, 1, 2] (Suc 0)) None None 3 (Suc 0)
     False kMeanCovariance kLeaveOneOutStats
     (GetCommonCovariance_init example_loo_project [9] [9] (Some [chan 0 0 0 0 0]) (Suc 0)
        False)
     (Suc (Suc (Suc 0))) =
   Some \<lparr>gcc_project = example_loo_project\<lparr>numberCommonCovarianceClasses := 3,
                           localCommonCovarianceLoadedFlag := True,
                           commonCovarianceStats := Some [1, 1],
                           gOperationCanceledFlag := True\<rparr>,
         gcc_covariance = [201 / 400], gcc_tempMatrix = [1 / 100],
         gcc_classChannelStats = Some [chan 0 20 (- 1) 0 3],
         gcc_numberClasses = 2, gcc_continueFlag = False\<rparr>"
  by (simp only: GetCommonCovariance_passes_step [OF example_loo_run_2])
     (simp add: pass_eval example_selection)






















lemma example_returns:
  "classes_return cp 3 example_enhanced_project"
  "classes_return cp 3 example_loo_project"
  "externals_keep (example_externals w c) (classes_return cp 3)"
  "externals_keep (example_loo_externals w c) (classes_return cp 3)"
  by (simp_all add: classes_return_def accessor_returns_def externals_keep_def
        example_project_eval)

text \<open>
  Claim C2 as stated fails when the leave-one-out estimate is requested and
  \<^verbatim>\<open>UpdateProjectLOOStats\<close> stores a class count in the project:
  \<^verbatim>\<open>GetClassCovarianceMatrix\<close> calls that routine in the first pass, because the counter
  is \<open>0\<close>, and the run, cancelled while the second class is processed, returns false with
  the counter at \<open>3\<close>.
\<close>

theorem GetCommonCovariance_cancellation_counterexample:
  "classes_return None 3 example_loo_project
   \<and> externals_keep (example_loo_externals [1, 1, 2] 1) (classes_return None 3)
   \<and> \<not> gOperationCanceledFlag example_loo_project
   \<and> numberCommonCovarianceClasses example_loo_project = 0
   \<and> map_option (\<lambda>r. (fst r, gOperationCanceledFlag (fst (snd r)),
                       numberCommonCovarianceClasses (fst (snd r))))
        (GetCommonCovariance (example_loo_externals [1, 1, 2] 1) example_loo_project [9] [9]
           (Some [chan 0 0 0 0 0]) None None 3 1 False kMeanCovariance kLeaveOneOutStats True)
       = Some (False, True, 3)"
proof -
  have e: "map_option (\<lambda>r. (fst r, gOperationCanceledFlag (fst (snd r)),
                       numberCommonCovarianceClasses (fst (snd r))))
        (GetCommonCovariance (example_loo_externals [1, 1, 2] (Suc 0)) example_loo_project
           [9] [9] (Some [chan 0 0 0 0 0]) None None 3 (Suc 0) False kMeanCovariance
           kLeaveOneOutStats True)
       = Some (False, True, 3)"
    by (simp only: GetCommonCovariance_eq_passes GetCommonCovariance_passes_3
          example_loo_run_3) simp
  from example_returns(2,4) example_flags(1,2) e show ?thesis by simp
qed



text \<open>
  Claim C3 as stated fails for a class of positive weight that the accessor rejects: the
  only class of the project has no training field, \<^verbatim>\<open>GetClassCovarianceMatrix\<close> returns
  without writing a matrix, and the result of the call is whatever the temporary buffer of
  the caller held, with the class counted.
\<close>

theorem GetCommonCovariance_weighted_sum_counterexample:
  "numberOfTrainFields (class_record example_empty_class_project 0) = 0
   \<and> (\<forall>t. map_option (\<lambda>r. (fst r, numberCommonCovarianceClasses (fst (snd r)),
                            fst (snd (snd r))))
             (GetCommonCovariance (example_externals [1] 5) example_empty_class_project [0] [t]
                (Some [chan 0 0 0 0 0]) None None 1 1 False kMeanCovariance kOriginalStats
                True)
           = Some (True, 1, [t]))"
  by (simp add: common_eval accessor_eval example_project_eval upt_examples)



end
